(* ===== verification/Prelude.thy ===== *)
theory Prelude
  imports Main "HOL-Library.Char_ord" "HOL-Library.List_Lexorder" "HOL-Library.Product_Lexorder"
begin

text \<open>
  Shared vocabulary of the development: the names of the model's types, the
  collections of facts the component theories add to, and generic lemmas on
  strings (character lists), decimal digits and maps that several components
  use (the template cache is a map, the semver parser and the JavaScript
  number printer both go through decimal digit strings).
\<close>

named_theorems js_simps \<open>evaluation rules of the JavaScript value semantics\<close>
named_theorems engine_simps \<open>unfolding rules of the engine preparation pipeline\<close>

type_synonym tag = string
type_synonym cache_key = string

section \<open>Decimal digits\<close>

definition is_digit :: "char \<Rightarrow> bool" where
  "is_digit c \<longleftrightarrow> CHR ''0'' \<le> c \<and> c \<le> CHR ''9''"

definition digit_char :: "nat \<Rightarrow> char" where
  "digit_char d = char_of (48 + d)"

definition digit_value :: "char \<Rightarrow> nat" where
  "digit_value c = of_char c - 48"

text \<open>\<open>Number.prototype.toString\<close> on a non-negative integer, most significant digit first.\<close>

fun nat_to_digits :: "nat \<Rightarrow> string" where
  "nat_to_digits n =
     (if n < 10 then [digit_char n] else nat_to_digits (n div 10) @ [digit_char (n mod 10)])"

declare nat_to_digits.simps [simp del]

text \<open>The unary \<open>+\<close> of JavaScript on a string of decimal digits.\<close>

definition digits_to_nat :: "string \<Rightarrow> nat" where
  "digits_to_nat s = foldl (\<lambda>acc c. 10 * acc + digit_value c) 0 s"

definition all_digits :: "string \<Rightarrow> bool" where
  "all_digits s \<longleftrightarrow> s \<noteq> [] \<and> list_all is_digit s"

lemma digit_char_is_digit [simp]: "d < 10 \<Longrightarrow> is_digit (digit_char d)"
  by (simp add: is_digit_def digit_char_def less_eq_char_def)

lemma of_char_digit_char: "d < 10 \<Longrightarrow> of_char (digit_char d) = 48 + d"
  by (simp add: digit_char_def)

lemma digit_value_digit_char [simp]: "d < 10 \<Longrightarrow> digit_value (digit_char d) = d"
  by (simp add: digit_value_def of_char_digit_char)

text \<open>The ten digits, so that printed numbers evaluate by \<open>simp\<close>.\<close>

lemma digit_char_eval [simp]:
  "digit_char 0 = CHR ''0''" "digit_char 1 = CHR ''1''" "digit_char (Suc 0) = CHR ''1''"
  "digit_char 2 = CHR ''2''"
  "digit_char 3 = CHR ''3''" "digit_char 4 = CHR ''4''" "digit_char 5 = CHR ''5''"
  "digit_char 6 = CHR ''6''" "digit_char 7 = CHR ''7''" "digit_char 8 = CHR ''8''"
  "digit_char 9 = CHR ''9''"
  unfolding digit_char_def by code_simp+

lemma digit_char_zero_iff:
  assumes "d < 10"
  shows "digit_char d = CHR ''0'' \<longleftrightarrow> d = 0"
proof
  assume "digit_char d = CHR ''0''"
  then have "of_char (digit_char d) = (of_char (CHR ''0'') :: nat)" by simp
  with assms show "d = 0" by (simp add: of_char_digit_char)
next
  assume "d = 0"
  moreover have "char_of (48::nat) = CHR ''0''" by code_simp
  ultimately show "digit_char d = CHR ''0''" by (simp add: digit_char_def)
qed

lemma foldl_digits_append:
  "foldl (\<lambda>acc c. 10 * acc + digit_value c) a (xs @ [x]) =
     10 * foldl (\<lambda>acc c. 10 * acc + digit_value c) a xs + digit_value x"
  by simp

lemma digits_to_nat_snoc:
  "digits_to_nat (xs @ [x]) = 10 * digits_to_nat xs + digit_value x"
  by (simp add: digits_to_nat_def)

lemma nat_to_digits_nonempty [simp]: "nat_to_digits n \<noteq> []"
  by (subst nat_to_digits.simps) simp

lemma nat_to_digits_all_digits: "list_all is_digit (nat_to_digits n)"
proof (induction n rule: nat_to_digits.induct)
  case (1 n)
  then show ?case by (subst nat_to_digits.simps) auto
qed

lemma all_digits_nat_to_digits [simp]: "all_digits (nat_to_digits n)"
  by (simp add: all_digits_def nat_to_digits_all_digits)

text \<open>Reading back a printed number gives the number: the digit round trip.\<close>

lemma digits_to_nat_nat_to_digits [simp]: "digits_to_nat (nat_to_digits n) = n"
proof (induction n rule: nat_to_digits.induct)
  case (1 n)
  show ?case
  proof (cases "n < 10")
    case True
    then show ?thesis by (subst nat_to_digits.simps) (simp add: digits_to_nat_def)
  next
    case False
    then have "digits_to_nat (nat_to_digits (n div 10)) = n div 10" using "1" by simp
    with False show ?thesis
      by (subst nat_to_digits.simps) (simp add: digits_to_nat_snoc)
  qed
qed

lemma nat_to_digits_hd_nonzero:
  "1 < length (nat_to_digits n) \<Longrightarrow> hd (nat_to_digits n) \<noteq> CHR ''0''"
proof (induction n rule: nat_to_digits.induct)
  case (1 n)
  show ?case
  proof (cases "n < 10")
    case True
    with "1.prems" show ?thesis by (subst (asm) nat_to_digits.simps) simp
  next
    case False
    show ?thesis
    proof (cases "n div 10 < 10")
      case True
      with False have "0 < n div 10" by simp
      with True False show ?thesis
        by (simp add: nat_to_digits.simps [of n] nat_to_digits.simps [of "n div 10"]
            digit_char_zero_iff)
    next
      case False': False
      then have "1 < length (nat_to_digits (n div 10))"
        by (subst nat_to_digits.simps) simp
      with "1.IH" False show ?thesis
        by (simp add: nat_to_digits.simps [of n])
    qed
  qed
qed

section \<open>Splitting a string at a separator\<close>

text \<open>\<open>String.prototype.split\<close> with a one-character separator.\<close>

fun split_on :: "char \<Rightarrow> string \<Rightarrow> string list" where
  "split_on d [] = [[]]"
| "split_on d (c # cs) =
     (if c = d then [] # split_on d cs
      else (case split_on d cs of w # ws \<Rightarrow> (c # w) # ws | [] \<Rightarrow> [[c]]))"

text \<open>\<open>Array.prototype.join\<close> with a one-character separator.\<close>

fun join_with :: "char \<Rightarrow> string list \<Rightarrow> string" where
  "join_with d [] = []"
| "join_with d [w] = w"
| "join_with d (w # ws) = w @ d # join_with d ws"

lemma split_on_nonempty [simp]: "split_on d s \<noteq> []"
  by (induction s) (auto split: list.splits)

lemma split_on_join_with:
  "ws \<noteq> [] \<Longrightarrow> \<forall>w \<in> set ws. d \<notin> set w \<Longrightarrow> split_on d (join_with d ws) = ws"
proof (induction ws rule: join_with.induct)
  case (2 d w)
  then show ?case by (induction w) auto
next
  case (3 d w v vs)
  then have ih: "split_on d (join_with d (v # vs)) = v # vs" by simp
  from "3.prems" have "d \<notin> set w" by simp
  then show ?case using ih by (induction w) auto
qed simp

section \<open>Maps\<close>

text \<open>A store that is only ever written keeps every key it had.\<close>

lemma dom_upd_mono: "dom m \<subseteq> dom (m(k \<mapsto> v))"
  by auto

lemma map_upd_same_key_overwrites [simp]: "(m(k \<mapsto> v))(k \<mapsto> w) = m(k \<mapsto> w)"
  by simp

lemma map_add_self [simp]: "m ++ m = m"
  by (auto simp: map_add_def fun_eq_iff split: option.splits)

section \<open>Lists\<close>

lemma map_filter_snoc:
  "List.map_filter f (xs @ [x]) = List.map_filter f xs @ (case f x of None \<Rightarrow> [] | Some y \<Rightarrow> [y])"
  by (simp add: List.map_filter_def split: option.split)

section \<open>Errors as values\<close>

text \<open>Sequencing of fallible steps: the first \<open>Inl\<close> (a thrown error) aborts
  the rest, as an exception does in the source.\<close>

definition bind_sum :: "'e + 'a \<Rightarrow> ('a \<Rightarrow> 'e + 'b) \<Rightarrow> 'e + 'b" where
  "bind_sum m f = (case m of Inl e \<Rightarrow> Inl e | Inr a \<Rightarrow> f a)"

lemma bind_sum_Inl [simp]: "bind_sum (Inl e) f = Inl e"
  by (simp add: bind_sum_def)

lemma bind_sum_Inr [simp]: "bind_sum (Inr a) f = f a"
  by (simp add: bind_sum_def)

lemma bind_sum_eq_Inr:
  "bind_sum m f = Inr b \<longleftrightarrow> (\<exists>a. m = Inr a \<and> f a = Inr b)"
  by (cases m) simp_all

end
