(* ===== verification/Json.thy ===== *)
theory Json
  imports Prelude
begin

text \<open>
  The JavaScript values that cross the worker's IPC channel. Node's \<open>fork\<close>
  channel serialises every message as JSON, so a worker message, the
  \<open>templateInfo\<close> it carries and the version descriptors fetched from the CDN
  are JSON values. \<open>undefined\<close> (a missing property) is \<open>None\<close> of a
  \<open>json option\<close>. The theory gives the parts of the JavaScript semantics the
  pipeline relies on: truthiness (the \<open>message && message.templateInfo\<close>
  tests), property access, \<open>String(x)\<close> (the \<open>new Error(x)\<close> constructor and
  template literals) and \<open>JSON.stringify\<close> (the template cache's values).
  Numbers are integers here; fractional numbers and \<open>NaN\<close> do not occur in
  the messages the pipeline reads.
\<close>

datatype json =
    JNull
  | JBool bool
  | JNum int
  | JStr string
  | JArr "json list"
  | JObj "(string \<times> json) list"

section \<open>Property access and truthiness\<close>

text \<open>\<open>v.k\<close> on a defined value: only objects have the properties the pipeline reads.\<close>

fun js_get :: "json \<Rightarrow> string \<Rightarrow> json option" where
  "js_get (JObj kvs) k = map_of kvs k"
| "js_get _ k = None"

text \<open>ToBoolean; \<open>None\<close> is \<open>undefined\<close>.\<close>

fun truthy :: "json option \<Rightarrow> bool" where
  "truthy None = False"
| "truthy (Some JNull) = False"
| "truthy (Some (JBool b)) = b"
| "truthy (Some (JNum n)) = (n \<noteq> 0)"
| "truthy (Some (JStr s)) = (s \<noteq> [])"
| "truthy (Some (JArr xs)) = True"
| "truthy (Some (JObj kvs)) = True"

text \<open>The guard \<open>message && message.k\<close> used in a condition.\<close>

definition has_truthy :: "json \<Rightarrow> string \<Rightarrow> bool" where
  "has_truthy m k \<longleftrightarrow> truthy (Some m) \<and> truthy (js_get m k)"

section \<open>String conversion\<close>

definition int_to_string :: "int \<Rightarrow> string" where
  "int_to_string i =
     (if i < 0 then CHR ''-'' # nat_to_digits (nat (- i)) else nat_to_digits (nat i))"

text \<open>\<open>String(v)\<close> for a defined value: arrays join their elements with commas,
  \<open>null\<close> elements becoming empty, plain objects print as \<open>[object Object]\<close>.\<close>

fun js_to_string :: "json \<Rightarrow> string" where
  "js_to_string JNull = ''null''"
| "js_to_string (JBool b) = (if b then ''true'' else ''false'')"
| "js_to_string (JNum i) = int_to_string i"
| "js_to_string (JStr s) = s"
| "js_to_string (JArr xs) =
     join_with (CHR '','') (map (\<lambda>x. if x = JNull then [] else js_to_string x) xs)"
| "js_to_string (JObj kvs) = ''[object Object]''"

text \<open>\<open>String(v)\<close> with \<open>undefined\<close>, as a template literal \<open>`v${x}`\<close> prints it.\<close>

definition js_opt_to_string :: "json option \<Rightarrow> string" where
  "js_opt_to_string v = (case v of None \<Rightarrow> ''undefined'' | Some j \<Rightarrow> js_to_string j)"

section \<open>JSON.stringify\<close>

definition hex_digit :: "nat \<Rightarrow> char" where
  "hex_digit d = (if d < 10 then digit_char d else char_of (87 + d))"

text \<open>The escapes of \<open>JSON.stringify\<close> for one character of a string.\<close>

definition json_escape_char :: "char \<Rightarrow> string" where
  "json_escape_char c =
     (if c = CHR ''\"'' then [CHR 0x5C, CHR ''\"'']
      else if c = CHR 0x5C then [CHR 0x5C, CHR 0x5C]
      else if c = CHR 0x08 then [CHR 0x5C, CHR ''b'']
      else if c = CHR 0x09 then [CHR 0x5C, CHR ''t'']
      else if c = CHR 0x0A then [CHR 0x5C, CHR ''n'']
      else if c = CHR 0x0C then [CHR 0x5C, CHR ''f'']
      else if c = CHR 0x0D then [CHR 0x5C, CHR ''r'']
      else if of_char c < (32::nat)
        then [CHR 0x5C, CHR ''u'', CHR ''0'', CHR ''0'',
              hex_digit (of_char c div 16), hex_digit (of_char c mod 16)]
      else [c])"

definition json_quote :: "string \<Rightarrow> string" where
  "json_quote s = CHR ''\"'' # concat (map json_escape_char s) @ [CHR ''\"'']"

fun json_stringify :: "json \<Rightarrow> string" where
  "json_stringify JNull = ''null''"
| "json_stringify (JBool b) = (if b then ''true'' else ''false'')"
| "json_stringify (JNum i) = int_to_string i"
| "json_stringify (JStr s) = json_quote s"
| "json_stringify (JArr xs) =
     CHR ''['' # join_with (CHR '','') (map json_stringify xs) @ [CHR '']'']"
| "json_stringify (JObj kvs) =
     CHR ''{'' # join_with (CHR '','')
        (map (\<lambda>(k, v). json_quote k @ CHR '':'' # json_stringify v) kvs) @ [CHR ''}'']"

section \<open>String methods\<close>

text \<open>\<open>String.prototype.replace\<close> with a string pattern: the first occurrence.\<close>

fun replace_first :: "string \<Rightarrow> string \<Rightarrow> string \<Rightarrow> string" where
  "replace_first pat rep [] = (if pat = [] then rep else [])"
| "replace_first pat rep (c # cs) =
     (if take (length pat) (c # cs) = pat then rep @ drop (length pat) (c # cs)
      else c # replace_first pat rep cs)"

text \<open>\<open>String.prototype.includes\<close>.\<close>

fun js_includes :: "string \<Rightarrow> string \<Rightarrow> bool" where
  "js_includes pat [] = (pat = [])"
| "js_includes pat (c # cs) = (take (length pat) (c # cs) = pat \<or> js_includes pat cs)"

section \<open>Objects\<close>

text \<open>\<open>v.k\<close> where \<open>v\<close> may be \<open>undefined\<close> (\<open>None\<close>): reading a property of
  \<open>undefined\<close> or \<open>null\<close> throws a \<open>TypeError\<close>, as does destructuring it.\<close>

fun js_member :: "json option \<Rightarrow> string \<Rightarrow> string + json option" where
  "js_member None k = Inl ''TypeError''"
| "js_member (Some JNull) k = Inl ''TypeError''"
| "js_member (Some v) k = Inr (js_get v k)"

text \<open>\<open>Object.keys(v)\<close>; it throws on \<open>undefined\<close> and \<open>null\<close>.\<close>

fun obj_keys :: "json option \<Rightarrow> string + string list" where
  "obj_keys None = Inl ''TypeError''"
| "obj_keys (Some JNull) = Inl ''TypeError''"
| "obj_keys (Some (JObj kvs)) = Inr (map fst kvs)"
| "obj_keys (Some (JArr xs)) = Inr (map (\<lambda>i. nat_to_digits i) [0..<length xs])"
| "obj_keys (Some (JStr cs)) = Inr (map (\<lambda>i. nat_to_digits i) [0..<length cs])"
| "obj_keys (Some _) = Inr []"

text \<open>\<open>o[k] = v\<close> on an object's own properties: an existing key keeps its
  place, a new one goes last (keys here are never array indices).\<close>

fun obj_set :: "(string \<times> 'v) list \<Rightarrow> string \<Rightarrow> 'v \<Rightarrow> (string \<times> 'v) list" where
  "obj_set [] k v = [(k, v)]"
| "obj_set ((k', v') # kvs) k v =
     (if k' = k then (k, v) # kvs else (k', v') # obj_set kvs k v)"

text \<open>\<open>delete o[k]\<close>.\<close>

definition obj_delete :: "(string \<times> 'v) list \<Rightarrow> string \<Rightarrow> (string \<times> 'v) list" where
  "obj_delete kvs k = filter (\<lambda>kv. fst kv \<noteq> k) kvs"

text \<open>\<open>{ ...a, ...b }\<close> of two objects.\<close>

definition obj_spread :: "(string \<times> 'v) list \<Rightarrow> (string \<times> 'v) list \<Rightarrow> (string \<times> 'v) list" where
  "obj_spread a b = foldl (\<lambda>acc kv. obj_set acc (fst kv) (snd kv)) [] (a @ b)"

section \<open>Lemmas\<close>

lemma map_of_obj_set [simp]: "map_of (obj_set kvs k v) = (map_of kvs)(k \<mapsto> v)"
  by (induction kvs) (auto simp: fun_eq_iff)

lemma keys_obj_set [simp]: "fst ` set (obj_set kvs k v) = insert k (fst ` set kvs)"
  by (induction kvs k v rule: obj_set.induct) auto

lemma distinct_obj_set:
  "distinct (map fst kvs) \<Longrightarrow> distinct (map fst (obj_set kvs k v))"
  by (induction kvs k v rule: obj_set.induct) auto

lemma map_of_obj_delete [simp]: "map_of (obj_delete kvs k) = (map_of kvs)(k := None)"
  by (induction kvs) (auto simp: obj_delete_def fun_eq_iff)

lemma map_of_foldl_obj_set:
  "map_of (foldl (\<lambda>acc kv. obj_set acc (fst kv) (snd kv)) acc xs) = map_of acc ++ map_of (rev xs)"
  by (induction xs arbitrary: acc) (auto simp: map_add_def fun_eq_iff split: option.splits)

lemma map_of_obj_spread [simp]: "map_of (obj_spread a b) = map_of (rev a) ++ map_of (rev b)"
  by (simp add: obj_spread_def map_of_foldl_obj_set)

lemma replace_first_absent:
  "pat \<noteq> [] \<Longrightarrow> \<not> js_includes pat xs \<Longrightarrow> replace_first pat rep xs = xs"
  by (induction xs) auto

text \<open>Only the first occurrence is replaced: an occurrence of the pattern
  starting inside \<open>a\<close> lies within \<open>a @ butlast pat\<close>.\<close>

lemma replace_first_split:
  assumes "pat \<noteq> []" and "\<not> js_includes pat (a @ butlast pat)"
  shows "replace_first pat rep (a @ pat @ b) = a @ rep @ b"
  using assms(2)
proof (induction a)
  case Nil
  from \<open>pat \<noteq> []\<close> obtain p ps where "pat = p # ps" by (cases pat) auto
  then show ?case by simp
next
  case (Cons c a)
  have split: "c # a @ pat @ b = (c # a @ butlast pat) @ (last pat # b)"
    using \<open>pat \<noteq> []\<close> by simp
  have "take (length pat) (c # a @ pat @ b) = take (length pat) (c # a @ butlast pat)"
    unfolding split take_append using \<open>pat \<noteq> []\<close> by simp
  moreover have "take (length pat) (c # a @ butlast pat) \<noteq> pat"
    using Cons.prems by simp
  moreover have "\<not> js_includes pat (a @ butlast pat)"
    using Cons.prems by simp
  ultimately show ?case using Cons.IH by simp
qed

lemma has_truthy_obj [js_simps]: "has_truthy (JObj kvs) k \<longleftrightarrow> truthy (map_of kvs k)"
  by (simp add: has_truthy_def)

lemma has_truthy_not_obj [js_simps]:
  "(\<And>kvs. m \<noteq> JObj kvs) \<Longrightarrow> \<not> has_truthy m k"
  by (cases m) (auto simp: has_truthy_def)

lemma has_truthy_get: "has_truthy m k \<Longrightarrow> \<exists>v. js_get m k = Some v \<and> truthy (Some v)"
  by (cases "js_get m k") (auto simp: has_truthy_def)

lemma int_to_string_nonneg [js_simps]: "int_to_string (int n) = nat_to_digits n"
  by (simp add: int_to_string_def)

text \<open>A stringified value is never the empty string, so a cached entry is truthy.\<close>

lemma json_stringify_nonempty [js_simps]: "json_stringify j \<noteq> []"
proof (cases j)
  case (JNum i)
  then show ?thesis by (simp add: int_to_string_def)
qed (simp_all add: json_quote_def)

lemma truthy_stringify [js_simps]: "truthy (Some (JStr (json_stringify j)))"
  by (simp add: json_stringify_nonempty)

end
