(* ===== verification/Semver.thy ===== *)
theory Semver
  imports Json
begin

text \<open>
  The \<open>semver\<close> package as \<open>getTagNameAsync\<close> uses it:
  \<open>semver.gt(stableVersion, prereleaseVersion)\<close>. \<open>gt\<close> is
  \<open>compare(a, b) > 0\<close>, and \<open>compare\<close> builds a \<open>SemVer\<close> from each argument
  (throwing a \<open>TypeError\<close> on anything that is not a valid version string) and
  compares them. The package is a library the sources only call, so this theory
  follows its (v7, non-loose) implementation: the constructor's checks and
  regular expression \<open>FULL\<close>, the conversion of prerelease identifiers, and
  \<open>compareMain\<close>, \<open>comparePre\<close>, \<open>compareIdentifiers\<close>.
  Prerelease identifiers that are numeric and below \<open>Number.MAX_SAFE_INTEGER\<close>
  become numbers (\<open>PNum\<close>); the others stay strings (\<open>PStr\<close>).
\<close>

definition MAX_LENGTH :: nat where "MAX_LENGTH = 256"

definition MAX_SAFE_INTEGER :: nat where "MAX_SAFE_INTEGER = 2 ^ 53 - 1"

datatype semver_error =
    NotAString
  | TooLong
  | InvalidVersion string
  | InvalidMajor
  | InvalidMinor
  | InvalidPatch

datatype pre_ident = PNum nat | PStr string

record semver =
  sv_major :: nat
  sv_minor :: nat
  sv_patch :: nat
  sv_prerelease :: "pre_ident list"
  sv_build :: "string list"

section \<open>The regular expression FULL\<close>

definition is_ident_char :: "char \<Rightarrow> bool" where
  "is_ident_char c \<longleftrightarrow> is_digit c \<or> (CHR ''a'' \<le> c \<and> c \<le> CHR ''z'')
     \<or> (CHR ''A'' \<le> c \<and> c \<le> CHR ''Z'') \<or> c = CHR ''-''"

text \<open>\<open>NUMERICIDENTIFIER = 0|[1-9]\d*\<close>\<close>

definition is_numeric_ident :: "string \<Rightarrow> bool" where
  "is_numeric_ident s \<longleftrightarrow> s = ''0'' \<or> (all_digits s \<and> hd s \<noteq> CHR ''0'')"

text \<open>\<open>NONNUMERICIDENTIFIER = \d*[a-zA-Z-][a-zA-Z0-9-]*\<close>: identifier characters, not all digits.\<close>

definition is_nonnumeric_ident :: "string \<Rightarrow> bool" where
  "is_nonnumeric_ident s \<longleftrightarrow> s \<noteq> [] \<and> list_all is_ident_char s \<and> \<not> list_all is_digit s"

definition is_pre_ident :: "string \<Rightarrow> bool" where
  "is_pre_ident s \<longleftrightarrow> is_numeric_ident s \<or> is_nonnumeric_ident s"

text \<open>\<open>BUILDIDENTIFIER = [a-zA-Z0-9-]+\<close>\<close>

definition is_build_ident :: "string \<Rightarrow> bool" where
  "is_build_ident s \<longleftrightarrow> s \<noteq> [] \<and> list_all is_ident_char s"

text \<open>\<open>String.prototype.trim\<close> on the ASCII white space characters.\<close>

definition is_js_space :: "char \<Rightarrow> bool" where
  "is_js_space c \<longleftrightarrow> c \<in> {CHR 0x20, CHR 0x09, CHR 0x0A, CHR 0x0B, CHR 0x0C, CHR 0x0D}"

definition js_trim :: "string \<Rightarrow> string" where
  "js_trim s = rev (dropWhile is_js_space (rev (dropWhile is_js_space s)))"

text \<open>\<open>MAINVERSION\<close>: three numeric identifiers separated by dots.\<close>

definition match_main :: "string \<Rightarrow> (string \<times> string \<times> string) option" where
  "match_main s =
     (case split_on CHR ''.'' s of
        [a, b, c] \<Rightarrow>
          if is_numeric_ident a \<and> is_numeric_ident b \<and> is_numeric_ident c
          then Some (a, b, c) else None
      | _ \<Rightarrow> None)"

text \<open>\<open>BUILD\<close> after its \<open>+\<close>.\<close>

definition match_build :: "string \<Rightarrow> string list option" where
  "match_build s = (let ids = split_on CHR ''.'' s in
     if list_all is_build_ident ids then Some ids else None)"

text \<open>\<open>PRERELEASE? BUILD?\<close>: what follows the main version.\<close>

definition match_tail :: "string \<Rightarrow> (string list \<times> string list) option" where
  "match_tail r =
     (case r of
        [] \<Rightarrow> Some ([], [])
      | c # cs \<Rightarrow>
          if c = CHR ''+'' then map_option (\<lambda>b. ([], b)) (match_build cs)
          else if c = CHR ''-'' then
            (let pre = takeWhile (\<lambda>x. x \<noteq> CHR ''+'') cs;
                 after = dropWhile (\<lambda>x. x \<noteq> CHR ''+'') cs;
                 ids = split_on CHR ''.'' pre
             in if list_all is_pre_ident ids
                then (case after of
                        [] \<Rightarrow> Some (ids, [])
                      | _ # b \<Rightarrow> map_option (\<lambda>bs. (ids, bs)) (match_build b))
                else None)
          else None)"

text \<open>\<open>FULL = ^v?MAINVERSION PRERELEASE? BUILD?$\<close>\<close>

definition match_full :: "string \<Rightarrow> (string \<times> string \<times> string \<times> string list \<times> string list) option" where
  "match_full s =
     (let s1 = (case s of c # cs \<Rightarrow> if c = CHR ''v'' then cs else s | [] \<Rightarrow> []);
          main = takeWhile (\<lambda>x. x \<noteq> CHR ''-'' \<and> x \<noteq> CHR ''+'') s1;
          rest = dropWhile (\<lambda>x. x \<noteq> CHR ''-'' \<and> x \<noteq> CHR ''+'') s1
      in case match_main main of
           None \<Rightarrow> None
         | Some (a, b, c) \<Rightarrow>
             (case match_tail rest of
                None \<Rightarrow> None
              | Some (pre, bld) \<Rightarrow> Some (a, b, c, pre, bld)))"

section \<open>The SemVer constructor\<close>

text \<open>\<open>id => /^[0-9]+$/.test(id) && +id < MAX_SAFE_INTEGER ? +id : id\<close>\<close>

definition pre_ident_of :: "string \<Rightarrow> pre_ident" where
  "pre_ident_of s =
     (if all_digits s \<and> digits_to_nat s < MAX_SAFE_INTEGER then PNum (digits_to_nat s) else PStr s)"

definition semver_parse :: "json option \<Rightarrow> semver_error + semver" where
  "semver_parse v =
     (case v of
        Some (JStr s) \<Rightarrow>
          if MAX_LENGTH < length s then Inl TooLong
          else (case match_full (js_trim s) of
                  None \<Rightarrow> Inl (InvalidVersion s)
                | Some (a, b, c, pre, bld) \<Rightarrow>
                    if MAX_SAFE_INTEGER < digits_to_nat a then Inl InvalidMajor
                    else if MAX_SAFE_INTEGER < digits_to_nat b then Inl InvalidMinor
                    else if MAX_SAFE_INTEGER < digits_to_nat c then Inl InvalidPatch
                    else Inr \<lparr>sv_major = digits_to_nat a, sv_minor = digits_to_nat b,
                              sv_patch = digits_to_nat c, sv_prerelease = map pre_ident_of pre,
                              sv_build = bld\<rparr>)
      | _ \<Rightarrow> Inl NotAString)"

section \<open>Well-formed versions\<close>

text \<open>What the constructor guarantees of a \<open>SemVer\<close> object.\<close>

fun pre_ident_wf :: "pre_ident \<Rightarrow> bool" where
  "pre_ident_wf (PNum n) \<longleftrightarrow> n < MAX_SAFE_INTEGER"
| "pre_ident_wf (PStr s) \<longleftrightarrow> is_pre_ident s \<and> (all_digits s \<longrightarrow> MAX_SAFE_INTEGER \<le> digits_to_nat s)"

definition semver_wf :: "semver \<Rightarrow> bool" where
  "semver_wf v \<longleftrightarrow>
     sv_major v \<le> MAX_SAFE_INTEGER \<and> sv_minor v \<le> MAX_SAFE_INTEGER \<and> sv_patch v \<le> MAX_SAFE_INTEGER
     \<and> list_all pre_ident_wf (sv_prerelease v) \<and> list_all is_build_ident (sv_build v)"

lemma match_tail_Some:
  "match_tail r = Some (pre, bld) \<Longrightarrow> list_all is_pre_ident pre \<and> list_all is_build_ident bld"
  by (auto simp: match_tail_def match_build_def Let_def
           split: list.splits if_splits option.splits)

lemma match_full_Some:
  "match_full s = Some (a, b, c, pre, bld) \<Longrightarrow> list_all is_pre_ident pre \<and> list_all is_build_ident bld"
  by (auto simp: match_full_def Let_def dest: match_tail_Some split: option.splits)

lemma pre_ident_of_wf: "is_pre_ident s \<Longrightarrow> pre_ident_wf (pre_ident_of s)"
  by (auto simp: pre_ident_of_def)

text \<open>Every version the constructor accepts is well formed.\<close>

theorem semver_parse_wf:
  assumes "semver_parse x = Inr v"
  shows "semver_wf v"
proof -
  obtain s where x: "x = Some (JStr s)"
    using assms by (auto simp: semver_parse_def split: option.splits json.splits)
  then obtain a b c pre bld where m: "match_full (js_trim s) = Some (a, b, c, pre, bld)"
    using assms by (auto simp: semver_parse_def split: if_splits option.splits)
  with assms x have v: "v = \<lparr>sv_major = digits_to_nat a, sv_minor = digits_to_nat b,
      sv_patch = digits_to_nat c, sv_prerelease = map pre_ident_of pre, sv_build = bld\<rparr>"
    and bounds: "digits_to_nat a \<le> MAX_SAFE_INTEGER" "digits_to_nat b \<le> MAX_SAFE_INTEGER"
      "digits_to_nat c \<le> MAX_SAFE_INTEGER"
    by (auto simp: semver_parse_def split: if_splits)
  from match_full_Some [OF m] have "list_all is_pre_ident pre" "list_all is_build_ident bld"
    by auto
  then show ?thesis
    using v bounds by (auto simp: semver_wf_def list_all_iff pre_ident_of_wf)
qed

section \<open>SemVer.format\<close>

text \<open>The \<open>version\<close> string of a \<open>SemVer\<close>: \<open>major.minor.patch\<close> and the
  prerelease identifiers joined by dots; build metadata is not part of it.\<close>

fun pre_ident_to_string :: "pre_ident \<Rightarrow> string" where
  "pre_ident_to_string (PNum n) = nat_to_digits n"
| "pre_ident_to_string (PStr s) = s"

definition semver_format :: "semver \<Rightarrow> string" where
  "semver_format v =
     nat_to_digits (sv_major v) @ CHR ''.'' # nat_to_digits (sv_minor v) @ CHR ''.'' #
     nat_to_digits (sv_patch v) @
     (if sv_prerelease v = [] then []
      else CHR ''-'' # join_with CHR ''.'' (map pre_ident_to_string (sv_prerelease v)))"

section \<open>Round trip: parsing a formatted version\<close>


lemma no_dot_ident: "is_ident_char c \<Longrightarrow> c \<noteq> CHR ''.''"
  by (auto simp: is_ident_char_def is_digit_def less_eq_char_def)

lemma no_plus_ident: "is_ident_char c \<Longrightarrow> c \<noteq> CHR ''+''"
  by (auto simp: is_ident_char_def is_digit_def less_eq_char_def)

lemma no_space_ident: "is_ident_char c \<Longrightarrow> \<not> is_js_space c"
  by (auto simp: is_ident_char_def is_digit_def less_eq_char_def is_js_space_def)

lemma digit_ident_char: "is_digit c \<Longrightarrow> is_ident_char c"
  by (simp add: is_ident_char_def)

lemma digit_not_minus: "is_digit c \<Longrightarrow> c \<noteq> CHR ''-'' \<and> c \<noteq> CHR ''+'' \<and> c \<noteq> CHR ''.'' \<and> c \<noteq> CHR ''v''"
  by (auto simp: is_digit_def less_eq_char_def)

lemma is_numeric_ident_nat_to_digits: "is_numeric_ident (nat_to_digits n)"
proof (cases "n < 10")
  case True
  then have eq: "nat_to_digits n = [digit_char n]" by (subst nat_to_digits.simps) simp
  show ?thesis
  proof (cases "n = 0")
    case True
    with eq show ?thesis by (simp add: is_numeric_ident_def digit_char_zero_iff)
  next
    case False
    with eq \<open>n < 10\<close> show ?thesis
      by (simp add: is_numeric_ident_def all_digits_def digit_char_zero_iff)
  qed
next
  case False
  then have "1 < length (nat_to_digits n)"
    by (subst nat_to_digits.simps) simp
  then show ?thesis
    by (simp add: is_numeric_ident_def nat_to_digits_hd_nonzero)
qed


lemma pre_ident_chars: "is_pre_ident s \<Longrightarrow> s \<noteq> [] \<and> list_all is_ident_char s"
  by (auto simp: is_pre_ident_def is_numeric_ident_def is_nonnumeric_ident_def all_digits_def
      list_all_iff digit_ident_char is_ident_char_def is_digit_def)

lemma pre_ident_to_string_chars:
  "pre_ident_wf x \<Longrightarrow> pre_ident_to_string x \<noteq> [] \<and> list_all is_ident_char (pre_ident_to_string x)"
proof (cases x)
  case (PNum n)
  have "list_all is_digit (nat_to_digits n)" by (rule nat_to_digits_all_digits)
  with PNum show ?thesis by (auto simp: list_all_iff digit_ident_char)
qed (auto dest: pre_ident_chars)

lemma pre_ident_to_string_is_pre:
  "pre_ident_wf x \<Longrightarrow> is_pre_ident (pre_ident_to_string x)"
  by (cases x) (auto simp: is_pre_ident_def is_numeric_ident_nat_to_digits)

lemma pre_ident_of_to_string: "pre_ident_wf x \<Longrightarrow> pre_ident_of (pre_ident_to_string x) = x"
  by (cases x) (auto simp: pre_ident_of_def)

lemma dropWhile_all_not: "\<forall>c \<in> set s. \<not> P c \<Longrightarrow> dropWhile P s = s"
  by (cases s) auto

lemma js_trim_id: "\<forall>c \<in> set s. \<not> is_js_space c \<Longrightarrow> js_trim s = s"
  by (simp add: js_trim_def dropWhile_all_not)

definition main_string :: "semver \<Rightarrow> string" where
  "main_string v = join_with CHR ''.'' [nat_to_digits (sv_major v), nat_to_digits (sv_minor v),
     nat_to_digits (sv_patch v)]"

definition pre_suffix :: "semver \<Rightarrow> string" where
  "pre_suffix v = (if sv_prerelease v = [] then []
      else CHR ''-'' # join_with CHR ''.'' (map pre_ident_to_string (sv_prerelease v)))"

lemma semver_format_split: "semver_format v = main_string v @ pre_suffix v"
  by (simp add: semver_format_def main_string_def pre_suffix_def)

lemma set_join_with: "set (join_with d ws) \<subseteq> insert d (\<Union>w \<in> set ws. set w)"
  by (induction d ws rule: join_with.induct) auto

lemma main_string_chars: "c \<in> set (main_string v) \<Longrightarrow> is_digit c \<or> c = CHR ''.''"
proof -
  assume "c \<in> set (main_string v)"
  then have "c = CHR ''.'' \<or> c \<in> set (nat_to_digits (sv_major v)) \<or> c \<in> set (nat_to_digits (sv_minor v))
      \<or> c \<in> set (nat_to_digits (sv_patch v))"
    using set_join_with [of "CHR ''.''"] by (auto simp: main_string_def)
  then show ?thesis
    using nat_to_digits_all_digits by (auto simp: list_all_iff)
qed

lemma main_string_hd: "main_string v = c # cs \<Longrightarrow> is_digit c"
proof -
  obtain d ds where "nat_to_digits (sv_major v) = d # ds"
    by (cases "nat_to_digits (sv_major v)") auto
  moreover assume "main_string v = c # cs"
  ultimately have "c = d" by (simp add: main_string_def)
  moreover have "list_all is_digit (nat_to_digits (sv_major v))" by (rule nat_to_digits_all_digits)
  ultimately show ?thesis using \<open>nat_to_digits (sv_major v) = d # ds\<close> by simp
qed

lemma match_main_main_string:
  "match_main (main_string v) = Some (nat_to_digits (sv_major v), nat_to_digits (sv_minor v),
     nat_to_digits (sv_patch v))"
proof -
  have "\<forall>w \<in> set [nat_to_digits (sv_major v), nat_to_digits (sv_minor v), nat_to_digits (sv_patch v)].
      CHR ''.'' \<notin> set w"
    using nat_to_digits_all_digits digit_not_minus by (fastforce simp: list_all_iff)
  then have "split_on CHR ''.'' (main_string v) =
      [nat_to_digits (sv_major v), nat_to_digits (sv_minor v), nat_to_digits (sv_patch v)]"
    unfolding main_string_def by (intro split_on_join_with) auto
  then show ?thesis by (simp add: match_main_def is_numeric_ident_nat_to_digits)
qed


lemma pre_join_chars:
  assumes "list_all pre_ident_wf xs" and "c \<in> set (join_with CHR ''.'' (map pre_ident_to_string xs))"
  shows "is_ident_char c \<or> c = CHR ''.''"
proof -
  from assms(2) have "c = CHR ''.'' \<or> (\<exists>x \<in> set xs. c \<in> set (pre_ident_to_string x))"
    using set_join_with [of "CHR ''.''" "map pre_ident_to_string xs"] by auto
  then show ?thesis
    using assms(1) pre_ident_to_string_chars by (fastforce simp: list_all_iff)
qed

lemma match_tail_pre_suffix:
  assumes "semver_wf v"
  shows "match_tail (pre_suffix v) = Some (map pre_ident_to_string (sv_prerelease v), [])"
proof (cases "sv_prerelease v = []")
  case True
  then show ?thesis by (simp add: pre_suffix_def match_tail_def)
next
  case False
  let ?ws = "map pre_ident_to_string (sv_prerelease v)"
  let ?J = "join_with CHR ''.'' ?ws"
  from assms have wf: "list_all pre_ident_wf (sv_prerelease v)" by (simp add: semver_wf_def)
  then have chars: "\<forall>c \<in> set ?J. is_ident_char c \<or> c = CHR ''.''"
    using pre_join_chars by blast
  then have "\<forall>c \<in> set ?J. c \<noteq> CHR ''+''"
    using no_plus_ident by fastforce
  then have tw: "takeWhile (\<lambda>x. x \<noteq> CHR ''+'') ?J = ?J"
    and dw: "dropWhile (\<lambda>x. x \<noteq> CHR ''+'') ?J = []"
    by (simp_all add: takeWhile_eq_all_conv dropWhile_eq_Nil_conv)
  have "\<forall>w \<in> set ?ws. CHR ''.'' \<notin> set w"
    using wf pre_ident_to_string_chars no_dot_ident by (fastforce simp: list_all_iff)
  with False have sp: "split_on CHR ''.'' ?J = ?ws"
    by (intro split_on_join_with) auto
  have "list_all is_pre_ident ?ws"
    using wf pre_ident_to_string_is_pre by (simp add: list_all_iff)
  with False show ?thesis
    by (simp add: pre_suffix_def match_tail_def Let_def tw dw sp
        del: takeWhile_eq_all_conv dropWhile_eq_Nil_conv)
qed

lemma pre_suffix_shape: "pre_suffix v = [] \<or> hd (pre_suffix v) = CHR ''-''"
  by (simp add: pre_suffix_def)

lemma match_full_format:
  assumes "semver_wf v"
  shows "match_full (semver_format v) = Some (nat_to_digits (sv_major v), nat_to_digits (sv_minor v),
     nat_to_digits (sv_patch v), map pre_ident_to_string (sv_prerelease v), [])"
proof -
  let ?P = "\<lambda>x. x \<noteq> CHR ''-'' \<and> x \<noteq> CHR ''+''"
  obtain c cs where mc: "main_string v = c # cs"
    by (cases "main_string v") (auto simp: main_string_def)
  then have "c \<noteq> CHR ''v''" using main_string_hd digit_not_minus by blast
  then have s1: "(case semver_format v of c # cs \<Rightarrow> if c = CHR ''v'' then cs else semver_format v
      | [] \<Rightarrow> []) = semver_format v"
    by (simp add: semver_format_split mc)
  have allP: "\<forall>x \<in> set (main_string v). ?P x"
    using main_string_chars digit_not_minus by fastforce
  have "takeWhile ?P (pre_suffix v) = [] \<and> dropWhile ?P (pre_suffix v) = pre_suffix v"
    using pre_suffix_shape [of v] by (cases "pre_suffix v") auto
  then have tw: "takeWhile ?P (semver_format v) = main_string v"
    and dw: "dropWhile ?P (semver_format v) = pre_suffix v"
    using allP by (simp_all add: semver_format_split takeWhile_append2 dropWhile_append2)
  show ?thesis
    using s1 tw dw match_main_main_string match_tail_pre_suffix [OF assms]
    by (simp add: match_full_def Let_def)
qed

lemma format_no_space: "semver_wf v \<Longrightarrow> \<forall>c \<in> set (semver_format v). \<not> is_js_space c"
proof
  fix c
  assume wf: "semver_wf v" and c: "c \<in> set (semver_format v)"
  then consider "c \<in> set (main_string v)" | "c = CHR ''-''"
    | "c \<in> set (join_with CHR ''.'' (map pre_ident_to_string (sv_prerelease v)))"
    by (auto simp: semver_format_split pre_suffix_def split: if_splits)
  then show "\<not> is_js_space c"
  proof cases
    case 1
    then show ?thesis
      using main_string_chars digit_ident_char no_space_ident by (auto simp: is_js_space_def)
  next
    case 2
    then show ?thesis by (simp add: is_js_space_def)
  next
    case 3
    with wf have "is_ident_char c \<or> c = CHR ''.''"
      by (intro pre_join_chars) (auto simp: semver_wf_def)
    then show ?thesis using no_space_ident by (auto simp: is_js_space_def)
  qed
qed

theorem semver_parse_format:
  assumes "semver_wf v" and "length (semver_format v) \<le> MAX_LENGTH"
  shows "semver_parse (Some (JStr (semver_format v))) = Inr (v\<lparr>sv_build := []\<rparr>)"
proof -
  have "map pre_ident_of (map pre_ident_to_string (sv_prerelease v)) = sv_prerelease v"
    using assms(1) pre_ident_of_to_string by (auto simp: semver_wf_def list_all_iff intro!: map_idI)
  moreover have "\<forall>c \<in> set (semver_format v). \<not> is_js_space c"
    using assms(1) by (rule format_no_space)
  ultimately show ?thesis
    using assms match_full_format [OF assms(1)]
    by (cases v) (simp add: semver_parse_def js_trim_id semver_wf_def)
qed

section \<open>Comparison\<close>

text \<open>\<open>compareIdentifiers\<close> on two numbers, and \<open>a || b\<close> on their results.\<close>

definition cmp_nat :: "nat \<Rightarrow> nat \<Rightarrow> int" where
  "cmp_nat a b = (if a = b then 0 else if a < b then -1 else 1)"

definition js_or :: "int \<Rightarrow> int \<Rightarrow> int" where
  "js_or a b = (if a \<noteq> 0 then a else b)"

definition compare_main :: "semver \<Rightarrow> semver \<Rightarrow> int" where
  "compare_main v w =
     js_or (cmp_nat (sv_major v) (sv_major w))
       (js_or (cmp_nat (sv_minor v) (sv_minor w)) (cmp_nat (sv_patch v) (sv_patch w)))"

text \<open>\<open>/^[0-9]+$/.test(x)\<close> on a prerelease identifier, and its value \<open>+x\<close>.\<close>

fun ident_numeric :: "pre_ident \<Rightarrow> bool" where
  "ident_numeric (PNum n) = True"
| "ident_numeric (PStr s) = all_digits s"

fun ident_value :: "pre_ident \<Rightarrow> nat" where
  "ident_value (PNum n) = n"
| "ident_value (PStr s) = digits_to_nat s"

definition compare_identifiers :: "pre_ident \<Rightarrow> pre_ident \<Rightarrow> int" where
  "compare_identifiers a b =
     (let anum = ident_numeric a; bnum = ident_numeric b in
      if anum \<and> bnum then cmp_nat (ident_value a) (ident_value b)
      else if a = b then 0
      else if anum \<and> \<not> bnum then -1
      else if bnum \<and> \<not> anum then 1
      else if pre_ident_to_string a < pre_ident_to_string b then -1 else 1)"

text \<open>The \<open>do { ... } while (++i)\<close> loop of \<open>comparePre\<close>.\<close>

fun compare_pre_loop :: "pre_ident list \<Rightarrow> pre_ident list \<Rightarrow> int" where
  "compare_pre_loop [] [] = 0"
| "compare_pre_loop (a # as) [] = 1"
| "compare_pre_loop [] (b # bs) = -1"
| "compare_pre_loop (a # as) (b # bs) =
     (if a = b then compare_pre_loop as bs else compare_identifiers a b)"

definition compare_pre :: "semver \<Rightarrow> semver \<Rightarrow> int" where
  "compare_pre v w =
     (if sv_prerelease v \<noteq> [] \<and> sv_prerelease w = [] then -1
      else if sv_prerelease v = [] \<and> sv_prerelease w \<noteq> [] then 1
      else if sv_prerelease v = [] \<and> sv_prerelease w = [] then 0
      else compare_pre_loop (sv_prerelease v) (sv_prerelease w))"

definition semver_compare_obj :: "semver \<Rightarrow> semver \<Rightarrow> int" where
  "semver_compare_obj v w =
     (if semver_format w = semver_format v then 0 else js_or (compare_main v w) (compare_pre v w))"

definition semver_compare :: "json option \<Rightarrow> json option \<Rightarrow> semver_error + int" where
  "semver_compare a b =
     (case semver_parse a of
        Inl e \<Rightarrow> Inl e
      | Inr v \<Rightarrow> (case semver_parse b of Inl e \<Rightarrow> Inl e | Inr w \<Rightarrow> Inr (semver_compare_obj v w)))"

definition semver_gt :: "json option \<Rightarrow> json option \<Rightarrow> semver_error + bool" where
  "semver_gt a b = (case semver_compare a b of Inl e \<Rightarrow> Inl e | Inr c \<Rightarrow> Inr (0 < c))"

lemmas semver_eval = semver_gt_def semver_compare_def semver_parse_def match_full_def
  match_main_def match_tail_def match_build_def is_numeric_ident_def is_nonnumeric_ident_def
  is_pre_ident_def is_build_ident_def is_ident_char_def all_digits_def is_digit_def
  js_trim_def is_js_space_def pre_ident_of_def digits_to_nat_def digit_value_def
  MAX_LENGTH_def MAX_SAFE_INTEGER_def semver_compare_obj_def compare_main_def compare_pre_def
  compare_identifiers_def cmp_nat_def js_or_def semver_format_def

section \<open>Precedence: the abstract order\<close>

text \<open>Semantic Versioning 2.0.0, section 11: numeric identifiers below
  alphanumeric ones, numeric ones by value, alphanumeric ones in ASCII order.\<close>

datatype prec_ident = NumId nat | AlphaId string

instantiation prec_ident :: linorder
begin

fun less_eq_prec_ident :: "prec_ident \<Rightarrow> prec_ident \<Rightarrow> bool" where
  "less_eq_prec_ident (NumId a) (NumId b) = (a \<le> b)"
| "less_eq_prec_ident (NumId a) (AlphaId t) = True"
| "less_eq_prec_ident (AlphaId s) (NumId b) = False"
| "less_eq_prec_ident (AlphaId s) (AlphaId t) = (s \<le> t)"

fun less_prec_ident :: "prec_ident \<Rightarrow> prec_ident \<Rightarrow> bool" where
  "less_prec_ident (NumId a) (NumId b) = (a < b)"
| "less_prec_ident (NumId a) (AlphaId t) = True"
| "less_prec_ident (AlphaId s) (NumId b) = False"
| "less_prec_ident (AlphaId s) (AlphaId t) = (s < t)"

instance
proof
  fix x y z :: prec_ident
  show "x < y \<longleftrightarrow> x \<le> y \<and> \<not> y \<le> x" by (cases x; cases y) auto
  show "x \<le> x" by (cases x) auto
  show "x \<le> y \<Longrightarrow> y \<le> z \<Longrightarrow> x \<le> z" by (cases x; cases y; cases z) auto
  show "x \<le> y \<Longrightarrow> y \<le> x \<Longrightarrow> x = y" by (cases x; cases y) auto
  show "x \<le> y \<or> y \<le> x" by (cases x; cases y) auto
qed

end

text \<open>A version without prerelease identifiers ranks above every prerelease of it.\<close>

datatype prec_pre = Pre "prec_ident list" | Release

instantiation prec_pre :: linorder
begin

fun less_eq_prec_pre :: "prec_pre \<Rightarrow> prec_pre \<Rightarrow> bool" where
  "less_eq_prec_pre (Pre xs) (Pre ys) = (xs \<le> ys)"
| "less_eq_prec_pre (Pre xs) Release = True"
| "less_eq_prec_pre Release (Pre ys) = False"
| "less_eq_prec_pre Release Release = True"

fun less_prec_pre :: "prec_pre \<Rightarrow> prec_pre \<Rightarrow> bool" where
  "less_prec_pre (Pre xs) (Pre ys) = (xs < ys)"
| "less_prec_pre (Pre xs) Release = True"
| "less_prec_pre Release (Pre ys) = False"
| "less_prec_pre Release Release = False"

instance
proof
  fix x y z :: prec_pre
  show "x < y \<longleftrightarrow> x \<le> y \<and> \<not> y \<le> x" by (cases x; cases y) auto
  show "x \<le> x" by (cases x) auto
  show "x \<le> y \<Longrightarrow> y \<le> z \<Longrightarrow> x \<le> z" by (cases x; cases y; cases z) auto
  show "x \<le> y \<Longrightarrow> y \<le> x \<Longrightarrow> x = y" by (cases x; cases y) auto
  show "x \<le> y \<or> y \<le> x" by (cases x; cases y) auto
qed

end

fun prec_of :: "pre_ident \<Rightarrow> prec_ident" where
  "prec_of (PNum n) = NumId n"
| "prec_of (PStr s) = (if all_digits s then NumId (digits_to_nat s) else AlphaId s)"

definition prec_key :: "semver \<Rightarrow> nat \<times> nat \<times> nat \<times> prec_pre" where
  "prec_key v = (sv_major v, sv_minor v, sv_patch v,
     if sv_prerelease v = [] then Release else Pre (map prec_of (sv_prerelease v)))"

text \<open>The three-way result of a comparison in a linear order.\<close>

definition cmp_ord :: "'a::linorder \<Rightarrow> 'a \<Rightarrow> int" where
  "cmp_ord a b = (if a = b then 0 else if a < b then -1 else 1)"

text \<open>Identifiers the comparison reads exactly: JavaScript compares numeric
  identifiers as floating-point numbers, which are exact below \<open>2^53\<close>, where
  the constructor has turned them into \<open>PNum\<close>.\<close>

fun ident_exact :: "pre_ident \<Rightarrow> bool" where
  "ident_exact (PNum n) = True"
| "ident_exact (PStr s) = (\<not> all_digits s)"

definition pre_exact :: "semver \<Rightarrow> bool" where
  "pre_exact v \<longleftrightarrow> list_all ident_exact (sv_prerelease v)"

lemma cmp_nat_cmp_ord: "cmp_nat a b = cmp_ord a b"
  by (simp add: cmp_nat_def cmp_ord_def)

lemma js_or_cmp_ord: "js_or (cmp_ord a b) (cmp_ord c d) = cmp_ord (a, c) (b, d)"
  by (auto simp: js_or_def cmp_ord_def)

lemma js_or_assoc: "js_or (js_or a b) c = js_or a (js_or b c)"
  by (simp add: js_or_def)

lemma compare_main_cmp_ord:
  "compare_main v w = cmp_ord (sv_major v, sv_minor v, sv_patch v) (sv_major w, sv_minor w, sv_patch w)"
  by (simp add: compare_main_def cmp_nat_cmp_ord js_or_cmp_ord)

lemma compare_identifiers_cmp_ord: "compare_identifiers a b = cmp_ord (prec_of a) (prec_of b)"
  by (cases a; cases b) (auto simp: compare_identifiers_def cmp_nat_def cmp_ord_def Let_def)

lemma prec_of_inj: "ident_exact a \<Longrightarrow> ident_exact b \<Longrightarrow> prec_of a = prec_of b \<Longrightarrow> a = b"
  by (cases a; cases b) auto

lemma compare_pre_loop_cmp_ord:
  "list_all ident_exact xs \<Longrightarrow> list_all ident_exact ys \<Longrightarrow>
     compare_pre_loop xs ys = cmp_ord (map prec_of xs) (map prec_of ys)"
proof (induction xs ys rule: compare_pre_loop.induct)
  case (4 a as b bs)
  show ?case
  proof (cases "a = b")
    case True
    with "4" show ?thesis by (simp add: cmp_ord_def)
  next
    case False
    with "4.prems" have "prec_of a \<noteq> prec_of b" by (auto dest: prec_of_inj)
    with False show ?thesis by (auto simp: compare_identifiers_cmp_ord cmp_ord_def)
  qed
qed (simp_all add: cmp_ord_def)

lemma compare_pre_cmp_ord:
  assumes "pre_exact v" and "pre_exact w"
  shows "compare_pre v w = cmp_ord (snd (snd (snd (prec_key v)))) (snd (snd (snd (prec_key w))))"
  using assms compare_pre_loop_cmp_ord [of "sv_prerelease v" "sv_prerelease w"]
  by (auto simp: compare_pre_def prec_key_def pre_exact_def cmp_ord_def)

lemma map_pre_ident_of_to_string:
  "semver_wf v \<Longrightarrow> map pre_ident_of (map pre_ident_to_string (sv_prerelease v)) = sv_prerelease v"
  using pre_ident_of_to_string by (auto simp: semver_wf_def list_all_iff intro!: map_idI)

text \<open>Equal \<open>version\<close> strings mean equal precedence: the shortcut
  \<open>other.version === this.version\<close> of \<open>SemVer.compare\<close> agrees with the order.\<close>

lemma semver_format_eq_prec_key:
  assumes "semver_wf v" and "semver_wf w" and "semver_format v = semver_format w"
  shows "prec_key v = prec_key w"
proof -
  from assms match_full_format [OF assms(1)] match_full_format [OF assms(2)]
  have "nat_to_digits (sv_major v) = nat_to_digits (sv_major w)"
    and "nat_to_digits (sv_minor v) = nat_to_digits (sv_minor w)"
    and "nat_to_digits (sv_patch v) = nat_to_digits (sv_patch w)"
    and pre: "map pre_ident_to_string (sv_prerelease v) = map pre_ident_to_string (sv_prerelease w)"
    by auto
  then have "sv_major v = sv_major w" "sv_minor v = sv_minor w" "sv_patch v = sv_patch w"
    by (metis digits_to_nat_nat_to_digits)+
  moreover have "sv_prerelease v = sv_prerelease w"
    using map_pre_ident_of_to_string [OF assms(1)] map_pre_ident_of_to_string [OF assms(2)] pre
    by metis
  ultimately show ?thesis by (simp add: prec_key_def)
qed

lemma cmp_ord_reassoc:
  "cmp_ord ((a, b, c), d) ((a', b', c'), d') = cmp_ord (a, b, c, d) (a', b', c', d')"
  by (auto simp: cmp_ord_def)

theorem semver_compare_obj_refines:
  assumes "semver_wf v" and "semver_wf w" and "pre_exact v" and "pre_exact w"
  shows "semver_compare_obj v w = cmp_ord (prec_key v) (prec_key w)"
proof (cases "semver_format w = semver_format v")
  case True
  with assms have "prec_key v = prec_key w" by (metis semver_format_eq_prec_key)
  with True show ?thesis by (simp add: semver_compare_obj_def cmp_ord_def)
next
  case False
  then have "semver_compare_obj v w = js_or (compare_main v w) (compare_pre v w)"
    by (simp add: semver_compare_obj_def)
  also have "\<dots> = cmp_ord (prec_key v) (prec_key w)"
    using assms(3,4)
    by (simp add: compare_main_cmp_ord compare_pre_cmp_ord js_or_cmp_ord cmp_ord_reassoc)
      (simp add: prec_key_def)
  finally show ?thesis .
qed

lemma semver_compare_Inr:
  "semver_parse a = Inr v \<Longrightarrow> semver_parse b = Inr w \<Longrightarrow> semver_compare a b = Inr (semver_compare_obj v w)"
  by (simp add: semver_compare_def)

text \<open>\<open>semver.gt\<close> on two valid versions is the precedence order.\<close>

theorem semver_gt_prec:
  assumes "semver_parse a = Inr v" and "semver_parse b = Inr w"
    and "pre_exact v" and "pre_exact w"
  shows "semver_gt a b = Inr (prec_key w < prec_key v)"
proof -
  have "semver_wf v" "semver_wf w" using assms(1,2) by (auto intro: semver_parse_wf)
  then have "semver_compare_obj v w = cmp_ord (prec_key v) (prec_key w)"
    using assms(3,4) by (rule semver_compare_obj_refines)
  then show ?thesis
    using assms(1,2) by (auto simp: semver_gt_def semver_compare_Inr cmp_ord_def)
qed

text \<open>\<open>semver.gt\<close> throws the first argument's error first.\<close>

lemma semver_gt_error:
  "semver_parse a = Inl e \<Longrightarrow> semver_gt a b = Inl e"
  "semver_parse a = Inr v \<Longrightarrow> semver_parse b = Inl e \<Longrightarrow> semver_gt a b = Inl e"
  by (simp_all add: semver_gt_def semver_compare_def)

end
