(* ===== verification/TagResolver.thy ===== *)
theory TagResolver
  imports Semver
begin

text \<open>
  \<open>getTagNameAsync\<close> (src/main-src/libs/app-management/prepare-engine-async/index.js,
  lines 24--57): the version resolver. With the \<open>allowPrerelease\<close> preference
  set it fetches the stable and the beta descriptor concurrently and returns the
  greater version by \<open>semver.gt\<close>; otherwise it fetches the stable descriptor
  only. The network is a parameter: \<open>fetch url\<close> is what \<open>customizedFetch(url)
  .then(res => res.json())\<close> settles with, a failure or the parsed body. Which of
  the two concurrent chains settles first is a scheduling parameter, since
  \<open>Promise.all\<close> rejects with the first rejection in time. The result carries
  the URLs requested, in the order the code issues them.
\<close>

definition STABLE_URL :: string where
  "STABLE_URL = ''https://cdn-1.webcatalog.io/neutron/versions/stable.json''"

definition BETA_URL :: string where
  "BETA_URL = ''https://cdn-1.webcatalog.io/neutron/versions/beta.json''"

datatype fetch_error = NetworkError string | BodyNotJson string

datatype resolve_error =
    FetchFailed fetch_error
  | PropertyOfNull
  | SemverFailed semver_error

type_synonym fetcher = "string \<Rightarrow> fetch_error + json"

text \<open>\<open>.then((data) => ... data.version ...)\<close>: reading a property of \<open>null\<close> throws.\<close>

definition read_version :: "fetch_error + json \<Rightarrow> resolve_error + json option" where
  "read_version r =
     (case r of
        Inl e \<Rightarrow> Inl (FetchFailed e)
      | Inr JNull \<Rightarrow> Inl PropertyOfNull
      | Inr d \<Rightarrow> Inr (js_get d ''version''))"

text \<open>\<open>Promise.all\<close> of two promises; \<open>first_settles\<close> says the first one
  settles before the second.\<close>

definition promise_all2 :: "bool \<Rightarrow> 'e + 'a \<Rightarrow> 'e + 'b \<Rightarrow> 'e + ('a \<times> 'b)" where
  "promise_all2 first_settles x y =
     (case (x, y) of
        (Inr a, Inr b) \<Rightarrow> Inr (a, b)
      | (Inl e, Inr b) \<Rightarrow> Inl e
      | (Inr a, Inl e) \<Rightarrow> Inl e
      | (Inl e1, Inl e2) \<Rightarrow> Inl (if first_settles then e1 else e2))"

text \<open>\<open>`v${version}`\<close>\<close>

definition tag_of :: "json option \<Rightarrow> tag" where
  "tag_of v = CHR ''v'' # js_opt_to_string v"

definition get_tag_name :: "bool \<Rightarrow> fetcher \<Rightarrow> bool \<Rightarrow> (resolve_error + tag) \<times> string list" where
  "get_tag_name allow_prerelease fetch stable_first =
     (if allow_prerelease then
        ((case promise_all2 stable_first (read_version (fetch STABLE_URL))
                 (read_version (fetch BETA_URL)) of
            Inl e \<Rightarrow> Inl e
          | Inr (stable_version, prerelease_version) \<Rightarrow>
              (case semver_gt stable_version prerelease_version of
                 Inl e \<Rightarrow> Inl (SemverFailed e)
               | Inr gt \<Rightarrow> Inr (tag_of (if gt then stable_version else prerelease_version)))),
         [STABLE_URL, BETA_URL])
      else
        ((case read_version (fetch STABLE_URL) of
            Inl e \<Rightarrow> Inl e
          | Inr v \<Rightarrow> Inr (tag_of v)),
         [STABLE_URL]))"

section \<open>Lemmas\<close>

lemma read_version_obj [engine_simps]: "read_version (Inr (JObj kvs)) = Inr (map_of kvs ''version'')"
  by (simp add: read_version_def)

lemma read_version_fail [engine_simps]: "read_version (Inl e) = Inl (FetchFailed e)"
  by (simp add: read_version_def)

lemma promise_all2_Inr [engine_simps]: "promise_all2 f (Inr a) (Inr b) = Inr (a, b)"
  by (simp add: promise_all2_def)

lemma tag_of_str [engine_simps]: "tag_of (Some (JStr s)) = CHR ''v'' # s"
  by (simp add: tag_of_def js_opt_to_string_def)

lemma get_tag_name_requests:
  "snd (get_tag_name allow fetch sf) = (if allow then [STABLE_URL, BETA_URL] else [STABLE_URL])"
  by (simp add: get_tag_name_def)

text \<open>C6: With the prerelease channel off, the resolver requests only the
  stable descriptor and returns its version prefixed with \<open>v\<close>.\<close>

theorem resolve_stable_channel:
  assumes "fetch STABLE_URL = Inr (JObj kvs)" and "map_of kvs ''version'' = Some (JStr s)"
  shows "get_tag_name False fetch sf = (Inr (CHR ''v'' # s), [STABLE_URL])"
  using assms by (simp add: get_tag_name_def engine_simps)

text \<open>C5: With the prerelease channel on, the resolver requests both descriptors
  and returns the version of greater precedence, the beta one on a tie.\<close>

theorem resolve_prerelease_channel:
  assumes "fetch STABLE_URL = Inr (JObj ks)" and "map_of ks ''version'' = Some (JStr s)"
    and "fetch BETA_URL = Inr (JObj kb)" and "map_of kb ''version'' = Some (JStr b)"
    and "semver_parse (Some (JStr s)) = Inr vs" and "semver_parse (Some (JStr b)) = Inr vb"
    and "pre_exact vs" and "pre_exact vb"
  shows "get_tag_name True fetch sf =
           (Inr (CHR ''v'' # (if prec_key vb < prec_key vs then s else b)), [STABLE_URL, BETA_URL])"
proof -
  have "semver_gt (Some (JStr s)) (Some (JStr b)) = Inr (prec_key vb < prec_key vs)"
    using assms(5-8) by (rule semver_gt_prec)
  with assms(1-4) show ?thesis
    by (simp add: get_tag_name_def engine_simps)
qed

text \<open>A stable descriptor without a \<open>version\<close> field does not fail the
  resolution on the stable channel: the tag is the string \<open>vundefined\<close>.\<close>

theorem resolve_missing_version_stable:
  assumes "fetch STABLE_URL = Inr (JObj kvs)" and "map_of kvs ''version'' = None"
  shows "get_tag_name False fetch sf = (Inr ''vundefined'', [STABLE_URL])"
  using assms by (simp add: get_tag_name_def engine_simps tag_of_def js_opt_to_string_def)

text \<open>On the prerelease channel a descriptor without a \<open>version\<close> field
  fails the resolution with semver's type error.\<close>

theorem resolve_missing_version_prerelease:
  assumes "fetch STABLE_URL = Inr (JObj ks)" and "map_of ks ''version'' = None"
    and "read_version (fetch BETA_URL) = Inr bv"
  shows "fst (get_tag_name True fetch sf) = Inl (SemverFailed NotAString)"
  using assms
  by (simp add: get_tag_name_def engine_simps semver_gt_def semver_compare_def semver_parse_def)


section \<open>Witnesses\<close>

definition versions_fetch :: "string \<Rightarrow> string \<Rightarrow> fetcher" where
  "versions_fetch s b = (\<lambda>u. if u = STABLE_URL then Inr (JObj [(''version'', JStr s)])
                             else Inr (JObj [(''version'', JStr b)]))"

lemma urls_distinct: "STABLE_URL \<noteq> BETA_URL"
  by (simp add: STABLE_URL_def BETA_URL_def)

theorem resolve_stable_channel_witness:
  "get_tag_name False (versions_fetch ''3.4.0'' ''3.5.0-beta.2'') True = (Inr ''v3.4.0'', [STABLE_URL])"
  using resolve_stable_channel [of "versions_fetch ''3.4.0'' ''3.5.0-beta.2''"
      "[(''version'', JStr ''3.4.0'')]" "''3.4.0''" True]
  by (simp add: versions_fetch_def)

theorem resolve_prerelease_channel_witness:
  "get_tag_name True (versions_fetch ''2.0.0'' ''2.1.0-beta.1'') False =
     (Inr ''v2.1.0-beta.1'', [STABLE_URL, BETA_URL])"
proof -
  let ?f = "versions_fetch ''2.0.0'' ''2.1.0-beta.1''"
  let ?vs = "\<lparr>sv_major = 2, sv_minor = 0, sv_patch = 0, sv_prerelease = [], sv_build = []\<rparr>"
  let ?vb = "\<lparr>sv_major = 2, sv_minor = 1, sv_patch = 0,
              sv_prerelease = [PStr ''beta'', PNum 1], sv_build = []\<rparr>"
  have f1: "?f STABLE_URL = Inr (JObj [(''version'', JStr ''2.0.0'')])"
    and f2: "?f BETA_URL = Inr (JObj [(''version'', JStr ''2.1.0-beta.1'')])"
    using urls_distinct by (simp_all add: versions_fetch_def)
  have p1: "semver_parse (Some (JStr ''2.0.0'')) = Inr ?vs"
    and p2: "semver_parse (Some (JStr ''2.1.0-beta.1'')) = Inr ?vb"
    by (simp_all add: semver_eval)
  have e: "pre_exact ?vs" "pre_exact ?vb"
    by (simp_all add: pre_exact_def all_digits_def is_digit_def)
  have "\<not> prec_key ?vb < prec_key ?vs"
    by (simp add: prec_key_def)
  with resolve_prerelease_channel [OF f1 _ f2 _ p1 p2 e] show ?thesis by simp
qed

theorem resolve_missing_version_stable_witness:
  "get_tag_name False (\<lambda>u. Inr (JObj [(''name'', JStr ''stable'')])) True =
     (Inr ''vundefined'', [STABLE_URL])"
  using resolve_missing_version_stable [of "\<lambda>u. Inr (JObj [(''name'', JStr ''stable'')])"
      "[(''name'', JStr ''stable'')]" True]
  by simp

theorem resolve_missing_version_prerelease_witness:
  "fst (get_tag_name True (\<lambda>u. Inr (JObj [(''name'', JStr ''stable'')])) True) =
     Inl (SemverFailed NotAString)"
  using resolve_missing_version_prerelease [of "\<lambda>u. Inr (JObj [(''name'', JStr ''stable'')])"
      "[(''name'', JStr ''stable'')]" None True]
  by (simp add: read_version_def)


end
