(* ===== verification/WorkerProtocol.thy ===== *)
theory WorkerProtocol
  imports Json
begin

text \<open>
  \<open>downloadExtractTemplateAsync(tagName)\<close> (src/main-src/libs/app-management/
  prepare-engine-async/index.js, lines 59--134): it builds the argument list and
  the environment of the forked worker, leaves a Sentry breadcrumb, forks
  \<open>prepare-engine-forked.js\<close>, and returns a promise settled by the worker's
  \<open>exit\<close> event, while its \<open>message\<close> handler updates the template cache,
  relays progress to every window, or records a worker error.

  The process-wide state is \<open>engine_global\<close>: \<open>global.forceExtract\<close>, the
  \<open>NodeCache\<close> instance (a map from keys to strings; the pipeline never sets a
  TTL, so entries stay until the process exits), and the observable effects
  (breadcrumbs, broadcasts, console output, forked processes). The closure of one
  call is \<open>run_state\<close>: \<open>latestTemplateVersion\<close>, \<open>err\<close> and the state of the
  returned promise. The worker is an external process: what it does is the list
  of events the channel delivers, in order.
\<close>

record app_env =
  app_version :: string
  user_data_path :: string
  app_data_path :: string
  cache_root :: string
  platform :: string
  arch :: string
  script_dir :: string

record breadcrumb =
  bc_category :: string
  bc_message :: string
  bc_data :: "(string \<times> string) list"

record effects =
  breadcrumbs :: "breadcrumb list"
  broadcasts :: "(string \<times> json) list"
  console_log :: "json list"
  forks :: "(string \<times> string list \<times> (string \<times> string) list) list"
  requests :: "string list"

record engine_global =
  force_extract :: bool
  cache :: "cache_key \<rightharpoonup> string"
  fx :: effects

text \<open>An \<open>Error\<close> rebuilt from a worker's \<open>error\<close> message: \<open>new Error(m)\<close>
  converts a defined \<open>m\<close> with \<open>String\<close>, and \<open>undefined\<close> to the empty
  message; \<open>stack\<close> and \<open>name\<close> are copied as they are.\<close>

record worker_error =
  err_message :: string
  err_stack :: "json option"
  err_name :: "json option"

datatype prepare_error =
    WorkerReported worker_error
  | ForkedScriptFailed

datatype 'a promise = Pending | Rejected prepare_error | Fulfilled 'a

record run_state =
  latest_template_version :: "json option"
  err :: "worker_error option"
  outcome :: "json option promise"

datatype worker_event = Message json | Exit "int option"

type_synonym worker = "string list \<Rightarrow> (string \<times> string) list \<Rightarrow> worker_event list"

section \<open>Launch: arguments, environment, breadcrumb\<close>

definition cache_key :: "tag \<Rightarrow> cache_key" where
  "cache_key tag_name = ''templateInfoJson.'' @ tag_name"

definition script_path :: "app_env \<Rightarrow> string" where
  "script_path e =
     replace_first ''app.asar'' ''app.asar.unpacked'' (script_dir e @ ''/prepare-engine-forked.js'')"

definition launch_args :: "app_env \<Rightarrow> tag \<Rightarrow> (cache_key \<rightharpoonup> string) \<Rightarrow> string list" where
  "launch_args e tag_name c =
     [''--appVersion'', app_version e, ''--userDataPath'', user_data_path e,
      ''--cacheRoot'', cache_root e, ''--platform'', platform e, ''--arch'', arch e,
      ''--tagName'', tag_name] @
     (case c (cache_key tag_name) of
        Some j \<Rightarrow> if truthy (Some (JStr j)) then [''--templateInfoJson'', j] else []
      | None \<Rightarrow> [])"

definition js_bool_to_string :: "bool \<Rightarrow> string" where
  "js_bool_to_string b = (if b then ''true'' else ''false'')"

definition launch_env :: "app_env \<Rightarrow> bool \<Rightarrow> (string \<times> string) list" where
  "launch_env e fe =
     [(''ELECTRON_RUN_AS_NODE'', ''true''), (''ELECTRON_NO_ASAR'', ''true''),
      (''APPDATA'', app_data_path e), (''FORCE_EXTRACT'', js_bool_to_string fe)]"

definition launch_breadcrumb :: "app_env \<Rightarrow> breadcrumb" where
  "launch_breadcrumb e =
     \<lparr>bc_category = ''run-forked-script'', bc_message = ''prepare-engine-async'',
      bc_data = [(''cacheRoot'', cache_root e)]\<rparr>"

definition add_breadcrumb :: "breadcrumb \<Rightarrow> engine_global \<Rightarrow> engine_global" where
  "add_breadcrumb b g = g\<lparr>fx := (fx g)\<lparr>breadcrumbs := breadcrumbs (fx g) @ [b]\<rparr>\<rparr>"

definition send_to_all_windows :: "string \<Rightarrow> json \<Rightarrow> engine_global \<Rightarrow> engine_global" where
  "send_to_all_windows chan payload g =
     g\<lparr>fx := (fx g)\<lparr>broadcasts := broadcasts (fx g) @ [(chan, payload)]\<rparr>\<rparr>"

definition console_log_msg :: "json \<Rightarrow> engine_global \<Rightarrow> engine_global" where
  "console_log_msg m g = g\<lparr>fx := (fx g)\<lparr>console_log := console_log (fx g) @ [m]\<rparr>\<rparr>"

definition fork_child :: "string \<Rightarrow> string list \<Rightarrow> (string \<times> string) list \<Rightarrow> engine_global \<Rightarrow> engine_global" where
  "fork_child p args env g = g\<lparr>fx := (fx g)\<lparr>forks := forks (fx g) @ [(p, args, env)]\<rparr>\<rparr>"

section \<open>The message and exit handlers\<close>

text \<open>\<open>message && message.k\<close> when it is truthy, as the value of \<open>message.k\<close>.\<close>

definition truthy_prop :: "json \<Rightarrow> string \<Rightarrow> json option" where
  "truthy_prop m k =
     (if truthy (Some m) \<and> truthy (js_get m k) then js_get m k else None)"

definition error_message_of :: "json option \<Rightarrow> string" where
  "error_message_of v = (case v of None \<Rightarrow> [] | Some j \<Rightarrow> js_to_string j)"

definition worker_error_of :: "json \<Rightarrow> worker_error" where
  "worker_error_of e =
     \<lparr>err_message = error_message_of (js_get e ''message''),
      err_stack = js_get e ''stack'', err_name = js_get e ''name''\<rparr>"

definition on_message :: "tag \<Rightarrow> json \<Rightarrow> engine_global \<times> run_state \<Rightarrow> engine_global \<times> run_state" where
  "on_message tag_name m gr =
     (let (g, r) = gr in
      case truthy_prop m ''templateInfo'' of
        Some ti \<Rightarrow>
          (g\<lparr>cache := (cache g)(cache_key tag_name \<mapsto> json_stringify ti)\<rparr>,
           r\<lparr>latest_template_version := js_get ti ''version''\<rparr>)
      | None \<Rightarrow>
          (case truthy_prop m ''progress'' of
             Some p \<Rightarrow> (send_to_all_windows ''update-installation-progress'' p g, r)
           | None \<Rightarrow>
               (case truthy_prop m ''error'' of
                  Some e \<Rightarrow> (g, r\<lparr>err := Some (worker_error_of e)\<rparr>)
                | None \<Rightarrow> (console_log_msg m g, r))))"

text \<open>\<open>resolve\<close> and \<open>reject\<close> settle a promise once; later calls do nothing.\<close>

definition settle :: "'a promise \<Rightarrow> 'a promise \<Rightarrow> 'a promise" where
  "settle p x = (case p of Pending \<Rightarrow> x | _ \<Rightarrow> p)"

definition on_exit :: "int option \<Rightarrow> engine_global \<times> run_state \<Rightarrow> engine_global \<times> run_state" where
  "on_exit code gr =
     (let (g, r) = gr in
      if code = Some 1 then
        (g, r\<lparr>outcome := settle (outcome r)
               (Rejected (case err r of Some e \<Rightarrow> WorkerReported e | None \<Rightarrow> ForkedScriptFailed))\<rparr>)
      else
        (g\<lparr>force_extract := False\<rparr>,
         r\<lparr>outcome := settle (outcome r) (Fulfilled (latest_template_version r))\<rparr>))"

fun handle_event :: "tag \<Rightarrow> worker_event \<Rightarrow> engine_global \<times> run_state \<Rightarrow> engine_global \<times> run_state" where
  "handle_event t (Message m) gr = on_message t m gr"
| "handle_event t (Exit c) gr = on_exit c gr"

fun run_events :: "tag \<Rightarrow> worker_event list \<Rightarrow> engine_global \<times> run_state \<Rightarrow> engine_global \<times> run_state" where
  "run_events t [] gr = gr"
| "run_events t (ev # evs) gr = run_events t evs (handle_event t ev gr)"

definition init_run :: run_state where
  "init_run = \<lparr>latest_template_version = Some (JStr ''0.0.0''), err = None, outcome = Pending\<rparr>"

section \<open>The module's state at load time\<close>

text \<open>Lines 16--19: \<open>global.forceExtract = true\<close> and \<open>new NodeCache()\<close>.\<close>

definition empty_effects :: effects where
  "empty_effects = \<lparr>breadcrumbs = [], broadcasts = [], console_log = [], forks = [], requests = []\<rparr>"

definition initial_global :: engine_global where
  "initial_global = \<lparr>force_extract = True, cache = Map.empty, fx = empty_effects\<rparr>"

section \<open>downloadExtractTemplateAsync\<close>

definition download_extract_template ::
  "app_env \<Rightarrow> worker \<Rightarrow> tag \<Rightarrow> engine_global \<Rightarrow> engine_global \<times> run_state" where
  "download_extract_template e w tag_name g =
     (let args = launch_args e tag_name (cache g);
          g1 = add_breadcrumb (launch_breadcrumb e) g;
          env = launch_env e (force_extract g1);
          g2 = fork_child (script_path e) args env g1
      in run_events tag_name (w args env) (g2, init_run))"

section \<open>Lemmas on the handlers\<close>

lemma run_events_append [engine_simps]:
  "run_events t (xs @ ys) gr = run_events t ys (run_events t xs gr)"
  by (induction xs arbitrary: gr) auto

lemma run_events_snoc:
  "run_events t (xs @ [ev]) gr = handle_event t ev (run_events t xs gr)"
  by (simp add: run_events_append)

lemma settle_Pending [simp]: "settle Pending x = x"
  by (simp add: settle_def)

lemma settle_settled [simp]: "p \<noteq> Pending \<Longrightarrow> settle p x = p"
  by (cases p) (simp_all add: settle_def)

lemma on_message_frame:
  "force_extract (fst (on_message t m gr)) = force_extract (fst gr)"
  "outcome (snd (on_message t m gr)) = outcome (snd gr)"
  by (cases gr; simp add: on_message_def send_to_all_windows_def console_log_msg_def
        split: option.splits)+

lemma on_exit_cache: "cache (fst (on_exit c gr)) = cache (fst gr)"
  by (cases gr) (simp add: on_exit_def split: option.splits)

lemma handle_event_force_extract:
  "force_extract (fst (handle_event t ev gr)) \<longleftrightarrow>
     force_extract (fst gr) \<and> (\<forall>c. ev = Exit c \<longrightarrow> c = Some 1)"
  by (cases ev; cases gr) (auto simp: on_message_frame on_exit_def split: option.splits)

text \<open>The flag is only ever cleared, by an exit with a code other than 1.\<close>

lemma run_events_force_extract:
  "force_extract (fst (run_events t evs gr)) \<longleftrightarrow>
     force_extract (fst gr) \<and> (\<forall>c. Exit c \<in> set evs \<longrightarrow> c = Some 1)"
  by (induction evs arbitrary: gr) (auto simp: handle_event_force_extract)

lemma handle_event_outcome_settled:
  "outcome (snd gr) \<noteq> Pending \<Longrightarrow> outcome (snd (handle_event t ev gr)) = outcome (snd gr)"
  by (cases ev; cases gr) (auto simp: on_message_frame on_exit_def split: option.splits)

lemma handle_event_outcome_pending:
  "outcome (snd gr) = Pending \<Longrightarrow>
     outcome (snd (handle_event t ev gr)) = Pending \<longleftrightarrow> (\<forall>c. ev \<noteq> Exit c)"
  by (cases ev; cases gr) (auto simp: on_message_frame on_exit_def split: option.splits)

text \<open>The promise of a call settles at most once: once settled, no later
  message or exit of the worker changes it.\<close>

theorem run_events_settled:
  "outcome (snd gr) \<noteq> Pending \<Longrightarrow> outcome (snd (run_events t evs gr)) = outcome (snd gr)"
  by (induction evs arbitrary: gr) (auto simp: handle_event_outcome_settled)

text \<open>C3: The promise of a call stays pending exactly as long as the worker has
  not exited: it settles on the first \<open>exit\<close> event and never without one.\<close>

theorem run_events_pending:
  "outcome (snd gr) = Pending \<Longrightarrow>
     outcome (snd (run_events t evs gr)) = Pending \<longleftrightarrow> (\<forall>c. Exit c \<notin> set evs)"
proof (induction evs arbitrary: gr)
  case (Cons ev evs)
  show ?case
  proof (cases "\<exists>c. ev = Exit c")
    case True
    with Cons.prems have "outcome (snd (handle_event t ev gr)) \<noteq> Pending"
      using handle_event_outcome_pending by blast
    with True show ?thesis by (auto simp: run_events_settled)
  next
    case False
    with Cons.prems have "outcome (snd (handle_event t ev gr)) = Pending"
      using handle_event_outcome_pending by blast
    with Cons.IH False show ?thesis by auto
  qed
qed simp


section \<open>A stream of messages\<close>

text \<open>The messages of a stream as the handler reads them, first match wins:
  the template infos, the progress payloads, the error payloads.\<close>

definition template_infos :: "json list \<Rightarrow> json list" where
  "template_infos ms = List.map_filter (\<lambda>m. truthy_prop m ''templateInfo'') ms"

definition progress_payloads :: "json list \<Rightarrow> json list" where
  "progress_payloads ms = List.map_filter (\<lambda>m.
     if truthy_prop m ''templateInfo'' = None then truthy_prop m ''progress'' else None) ms"

definition error_payloads :: "json list \<Rightarrow> json list" where
  "error_payloads ms = List.map_filter (\<lambda>m.
     if truthy_prop m ''templateInfo'' = None \<and> truthy_prop m ''progress'' = None
     then truthy_prop m ''error'' else None) ms"

lemma run_messages_cache:
  "cache (fst (run_events t (map Message ms) (g, r))) =
     (if template_infos ms = [] then cache g
      else (cache g)(cache_key t \<mapsto> json_stringify (last (template_infos ms))))"
proof (induction ms rule: rev_induct)
  case (snoc m ms)
  obtain g' r' where gr: "run_events t (map Message ms) (g, r) = (g', r')" by fastforce
  with snoc.IH show ?case
    by (auto simp: run_events_snoc template_infos_def map_filter_snoc on_message_def
        send_to_all_windows_def console_log_msg_def split: option.splits)
qed (simp add: template_infos_def)

lemma run_messages_latest:
  "latest_template_version (snd (run_events t (map Message ms) (g, r))) =
     (if template_infos ms = [] then latest_template_version r
      else js_get (last (template_infos ms)) ''version'')"
proof (induction ms rule: rev_induct)
  case (snoc m ms)
  obtain g' r' where gr: "run_events t (map Message ms) (g, r) = (g', r')" by fastforce
  with snoc.IH show ?case
    by (auto simp: run_events_snoc template_infos_def map_filter_snoc on_message_def
        split: option.splits)
qed (simp add: template_infos_def)

text \<open>C4: Progress relay: over a stream of messages, the broadcasts to the
  windows are exactly the progress payloads, verbatim and in order, of the messages
  without a truthy \<open>templateInfo\<close>; a message with both fields is only a
  template info update.\<close>

theorem run_messages_broadcasts:
  "broadcasts (fx (fst (run_events t (map Message ms) (g, r)))) =
     broadcasts (fx g) @ map (Pair ''update-installation-progress'') (progress_payloads ms)"
proof (induction ms rule: rev_induct)
  case (snoc m ms)
  obtain g' r' where gr: "run_events t (map Message ms) (g, r) = (g', r')" by fastforce
  with snoc.IH show ?case
    by (auto simp: run_events_snoc progress_payloads_def map_filter_snoc on_message_def
        send_to_all_windows_def console_log_msg_def split: option.splits)
qed (simp add: progress_payloads_def)

lemma run_messages_err:
  "err (snd (run_events t (map Message ms) (g, r))) =
     (if error_payloads ms = [] then err r else Some (worker_error_of (last (error_payloads ms))))"
proof (induction ms rule: rev_induct)
  case (snoc m ms)
  obtain g' r' where gr: "run_events t (map Message ms) (g, r) = (g', r')" by fastforce
  with snoc.IH show ?case
    by (auto simp: run_events_snoc error_payloads_def map_filter_snoc on_message_def
        split: option.splits)
qed (simp add: error_payloads_def)


lemma handle_event_frame:
  "breadcrumbs (fx (fst (handle_event t ev gr))) = breadcrumbs (fx (fst gr))"
  "forks (fx (fst (handle_event t ev gr))) = forks (fx (fst gr))"
  by (cases ev; cases gr; simp add: on_message_def on_exit_def send_to_all_windows_def
        console_log_msg_def split: option.splits)+

lemma run_events_frame:
  "breadcrumbs (fx (fst (run_events t evs gr))) = breadcrumbs (fx (fst gr))"
  "forks (fx (fst (run_events t evs gr))) = forks (fx (fst gr))"
  by (induction evs arbitrary: gr) (simp_all add: handle_event_frame)

lemma run_messages_outcome:
  "outcome (snd (run_events t (map Message ms) gr)) = outcome (snd gr)"
  by (induction ms arbitrary: gr) (simp_all add: on_message_frame)

lemma run_messages_force_extract:
  "force_extract (fst (run_events t (map Message ms) gr)) = force_extract (fst gr)"
  by (auto simp: run_events_force_extract)

text \<open>A worker that sends messages and then exits settles the promise: rejected
  with the last reported error (or the generic failure) on exit code 1,
  fulfilled with the version of the last template info (or \<open>0.0.0\<close>) otherwise.\<close>

theorem worker_run_outcome:
  "outcome (snd (run_events t (map Message ms @ [Exit c]) (g, init_run))) =
     (if c = Some 1 then
        Rejected (if error_payloads ms = [] then ForkedScriptFailed
                  else WorkerReported (worker_error_of (last (error_payloads ms))))
      else Fulfilled (if template_infos ms = [] then Some (JStr ''0.0.0'')
                      else js_get (last (template_infos ms)) ''version''))"
proof -
  obtain g' r' where gr: "run_events t (map Message ms) (g, init_run) = (g', r')" by fastforce
  have "outcome r' = Pending"
    using run_messages_outcome [of t ms "(g, init_run)"] gr by (simp add: init_run_def)
  moreover have "err r' = (if error_payloads ms = [] then None
      else Some (worker_error_of (last (error_payloads ms))))"
    using run_messages_err [of t ms g init_run] gr by (simp add: init_run_def)
  moreover have "latest_template_version r' = (if template_infos ms = [] then Some (JStr ''0.0.0'')
      else js_get (last (template_infos ms)) ''version'')"
    using run_messages_latest [of t ms g init_run] gr by (simp add: init_run_def)
  ultimately show ?thesis
    using gr by (simp add: run_events_append on_exit_def)
qed


section \<open>Witnesses\<close>

theorem run_events_settled_witness:
  "outcome (snd (initial_global, init_run\<lparr>outcome := Fulfilled None\<rparr>)) \<noteq> Pending \<and>
   outcome (snd (run_events ''v1.0.0'' [Exit (Some 1)]
      (initial_global, init_run\<lparr>outcome := Fulfilled None\<rparr>))) = Fulfilled None"
  using run_events_settled [of "(initial_global, init_run\<lparr>outcome := Fulfilled None\<rparr>)"
      "''v1.0.0''" "[Exit (Some 1)]"]
  by simp

theorem run_events_pending_witness:
  "outcome (snd (initial_global, init_run)) = Pending \<and>
   outcome (snd (run_events ''v1.0.0'' [Message JNull] (initial_global, init_run))) = Pending \<and>
   outcome (snd (run_events ''v1.0.0'' [Exit (Some 0)] (initial_global, init_run))) \<noteq> Pending"
  using run_events_pending [of "(initial_global, init_run)" "''v1.0.0''" "[Message JNull]"]
    run_events_pending [of "(initial_global, init_run)" "''v1.0.0''" "[Exit (Some 0)]"]
  by (simp add: init_run_def)

end
