(* ===== verification/Orchestrator.thy ===== *)
theory Orchestrator
  imports TagResolver WorkerProtocol
begin

text \<open>
  \<open>prepareEngineAsync\<close> (src/main-src/libs/app-management/prepare-engine-async/
  index.js, lines 136--137): resolve the tag, then download and extract the
  template for it. The module's top level (lines 16--19) gives the initial
  process state: \<open>global.forceExtract = true\<close> and an empty \<open>NodeCache\<close>.
  A call's inputs are what the environment decides: the \<open>allowPrerelease\<close>
  preference, the network's answers, the scheduling of the two concurrent
  requests and the worker's behaviour. A session is a sequence of calls, each
  started after the previous one settled; the relation \<open>session\<close> records the
  events each call's worker delivered.
\<close>

datatype engine_error = ResolutionError resolve_error | WorkerError prepare_error

datatype prepare_result = PrepPending | PrepRejected engine_error | PrepFulfilled "json option"

record prepare_input =
  allow_prerelease :: bool
  fetch_fn :: fetcher
  stable_first :: bool
  worker_fn :: worker

definition record_requests :: "string list \<Rightarrow> engine_global \<Rightarrow> engine_global" where
  "record_requests urls g = g\<lparr>fx := (fx g)\<lparr>requests := requests (fx g) @ urls\<rparr>\<rparr>"

fun result_of :: "json option promise \<Rightarrow> prepare_result" where
  "result_of Pending = PrepPending"
| "result_of (Rejected e) = PrepRejected (WorkerError e)"
| "result_of (Fulfilled v) = PrepFulfilled v"

definition prepare_engine :: "app_env \<Rightarrow> prepare_input \<Rightarrow> engine_global \<Rightarrow> engine_global \<times> prepare_result" where
  "prepare_engine e inp g =
     (case get_tag_name (allow_prerelease inp) (fetch_fn inp) (stable_first inp) of
        (Inl re, urls) \<Rightarrow> (record_requests urls g, PrepRejected (ResolutionError re))
      | (Inr tag_name, urls) \<Rightarrow>
          (let (g', r) = download_extract_template e (worker_fn inp) tag_name (record_requests urls g)
           in (g', result_of (outcome r))))"

text \<open>The events the worker of a call delivers (none when the resolution fails).\<close>

definition delivered :: "app_env \<Rightarrow> prepare_input \<Rightarrow> engine_global \<Rightarrow> worker_event list" where
  "delivered e inp g =
     (case fst (get_tag_name (allow_prerelease inp) (fetch_fn inp) (stable_first inp)) of
        Inl re \<Rightarrow> []
      | Inr tag_name \<Rightarrow>
          worker_fn inp (launch_args e tag_name (cache g)) (launch_env e (force_extract g)))"

inductive session :: "app_env \<Rightarrow> engine_global \<Rightarrow> worker_event list list \<Rightarrow> bool" for e where
  start: "session e initial_global []"
| step: "session e g h \<Longrightarrow> session e (fst (prepare_engine e inp g)) (h @ [delivered e inp g])"

section \<open>One call\<close>

lemma launch_frame [engine_simps]:
  "force_extract (fork_child p a v (add_breadcrumb b (record_requests u g))) = force_extract g"
  "cache (fork_child p a v (add_breadcrumb b (record_requests u g))) = cache g"
  by (simp_all add: fork_child_def add_breadcrumb_def record_requests_def)

lemma record_requests_frame [engine_simps]:
  "force_extract (record_requests u g) = force_extract g"
  "cache (record_requests u g) = cache g"
  by (simp_all add: record_requests_def)

lemma download_extract_template_eq:
  "download_extract_template e w t g =
     run_events t (w (launch_args e t (cache g)) (launch_env e (force_extract g)))
       (fork_child (script_path e) (launch_args e t (cache g)) (launch_env e (force_extract g))
          (add_breadcrumb (launch_breadcrumb e) g), init_run)"
  by (simp add: download_extract_template_def Let_def add_breadcrumb_def)

lemma prepare_engine_resolved:
  assumes "get_tag_name (allow_prerelease inp) (fetch_fn inp) (stable_first inp) = (Inr t, urls)"
  shows "prepare_engine e inp g =
     (let (g', r) = run_events t (delivered e inp g)
        (fork_child (script_path e) (launch_args e t (cache g)) (launch_env e (force_extract g))
          (add_breadcrumb (launch_breadcrumb e) (record_requests urls g)), init_run)
      in (g', result_of (outcome r)))"
  using assms
  by (simp add: prepare_engine_def delivered_def download_extract_template_eq engine_simps)

lemma prepare_engine_failed:
  assumes "get_tag_name (allow_prerelease inp) (fetch_fn inp) (stable_first inp) = (Inl re, urls)"
  shows "prepare_engine e inp g = (record_requests urls g, PrepRejected (ResolutionError re))"
    and "delivered e inp g = []"
  using assms by (simp_all add: prepare_engine_def delivered_def)

lemma prepare_engine_force_extract:
  "force_extract (fst (prepare_engine e inp g)) \<longleftrightarrow>
     force_extract g \<and> (\<forall>c. Exit c \<in> set (delivered e inp g) \<longrightarrow> c = Some 1)"
proof (cases "get_tag_name (allow_prerelease inp) (fetch_fn inp) (stable_first inp)")
  case (Pair res urls)
  show ?thesis
  proof (cases res)
    case (Inl re)
    with Pair show ?thesis by (simp add: prepare_engine_failed engine_simps)
  next
    case (Inr t)
    with Pair show ?thesis
      by (simp add: prepare_engine_resolved split_beta run_events_force_extract engine_simps)
  qed
qed


section \<open>The template cache\<close>

text \<open>Every entry of the cache is keyed by \<open>templateInfoJson.<tag>\<close> and holds a
  \<open>JSON.stringify\<close> result.\<close>

definition cache_inv :: "(cache_key \<rightharpoonup> string) \<Rightarrow> bool" where
  "cache_inv c \<longleftrightarrow> (\<forall>k v. c k = Some v \<longrightarrow> (\<exists>t. k = cache_key t) \<and> (\<exists>j. v = json_stringify j))"

lemma handle_event_cache:
  "cache (fst (handle_event t ev gr)) = cache (fst gr) \<or>
     (\<exists>j. cache (fst (handle_event t ev gr)) = (cache (fst gr))(cache_key t \<mapsto> json_stringify j))"
  by (cases ev; cases gr)
    (auto simp: on_message_def on_exit_def send_to_all_windows_def console_log_msg_def
      split: option.splits)

lemma cache_inv_upd: "cache_inv c \<Longrightarrow> cache_inv (c(cache_key t \<mapsto> json_stringify j))"
  by (auto simp: cache_inv_def)

lemma run_events_cache_inv:
  "cache_inv (cache (fst gr)) \<Longrightarrow> cache_inv (cache (fst (run_events t evs gr)))"
proof (induction evs arbitrary: gr)
  case (Cons ev evs)
  have "cache_inv (cache (fst (handle_event t ev gr)))"
    using handle_event_cache [of t ev gr] Cons.prems cache_inv_upd by auto
  then show ?case using Cons.IH by simp
qed simp

lemma run_events_cache_mono:
  "cache (fst gr) k = Some v \<Longrightarrow> \<exists>v'. cache (fst (run_events t evs gr)) k = Some v'"
proof (induction evs arbitrary: gr v)
  case (Cons ev evs)
  obtain v' where "cache (fst (handle_event t ev gr)) k = Some v'"
    using handle_event_cache [of t ev gr] Cons.prems by fastforce
  then have "\<exists>v''. cache (fst (run_events t evs (handle_event t ev gr))) k = Some v''"
    by (rule Cons.IH)
  then show ?case by simp
qed simp

lemma prepare_engine_cache:
  "cache_inv (cache g) \<Longrightarrow> cache_inv (cache (fst (prepare_engine e inp g)))"
  "cache g k = Some v \<Longrightarrow> \<exists>v'. cache (fst (prepare_engine e inp g)) k = Some v'"
proof -
  obtain res urls where P: "get_tag_name (allow_prerelease inp) (fetch_fn inp) (stable_first inp) = (res, urls)"
    by fastforce
  show "cache_inv (cache g) \<Longrightarrow> cache_inv (cache (fst (prepare_engine e inp g)))"
    using P run_events_cache_inv
    by (cases res) (auto simp: prepare_engine_failed prepare_engine_resolved split_beta engine_simps)
  show "cache g k = Some v \<Longrightarrow> \<exists>v'. cache (fst (prepare_engine e inp g)) k = Some v'"
    using P run_events_cache_mono
    by (cases res) (auto simp: prepare_engine_failed prepare_engine_resolved split_beta engine_simps)
qed

section \<open>Sessions\<close>

text \<open>C2: In every state reachable by successive calls, \<open>global.forceExtract\<close>
  is set exactly when no worker of the session has exited with a code other than 1:
  only a successful exit clears it and nothing sets it again.\<close>

theorem session_force_extract:
  "session e g h \<Longrightarrow>
     force_extract g \<longleftrightarrow> (\<forall>evs \<in> set h. \<forall>c. Exit c \<in> set evs \<longrightarrow> c = Some 1)"
proof (induction rule: session.induct)
  case start
  then show ?case by (simp add: initial_global_def)
next
  case (step g h inp)
  then show ?case by (auto simp: prepare_engine_force_extract)
qed



section \<open>A call whose worker sends messages and exits\<close>

text \<open>C1: A call whose tag resolves and whose worker sends messages and then
  exits rejects with the last reported worker error (or the generic failure) on
  exit code 1, and otherwise fulfils with the version of the last template info
  received, \<open>0.0.0\<close> when there was none.\<close>

theorem prepare_engine_outcome:
  assumes "get_tag_name (allow_prerelease inp) (fetch_fn inp) (stable_first inp) = (Inr t, urls)"
    and "delivered e inp g = map Message ms @ [Exit c]"
  shows "snd (prepare_engine e inp g) =
     (if c = Some 1 then
        PrepRejected (WorkerError (if error_payloads ms = [] then ForkedScriptFailed
                                   else WorkerReported (worker_error_of (last (error_payloads ms)))))
      else PrepFulfilled (if template_infos ms = [] then Some (JStr ''0.0.0'')
                          else js_get (last (template_infos ms)) ''version''))"
  using assms worker_run_outcome
  by (simp add: prepare_engine_resolved split_beta)

text \<open>C14: After such a call the cache holds, under the tag's key, the
  stringified last template info the worker sent: a later template info for the
  same tag overwrites an earlier one.\<close>

theorem prepare_engine_cache_entry:
  assumes "get_tag_name (allow_prerelease inp) (fetch_fn inp) (stable_first inp) = (Inr t, urls)"
    and "delivered e inp g = map Message ms @ [Exit c]" and "template_infos ms \<noteq> []"
  shows "cache (fst (prepare_engine e inp g)) (cache_key t) =
           Some (json_stringify (last (template_infos ms)))"
  using assms run_messages_cache
  by (simp add: prepare_engine_resolved split_beta run_events_append on_exit_cache engine_simps)


text \<open>C19: A call whose resolution fails rejects with the resolution error and
  launches nothing: no breadcrumb, no fork, the flag and the cache unchanged.\<close>

theorem prepare_engine_resolution_failure:
  assumes "fst (get_tag_name (allow_prerelease inp) (fetch_fn inp) (stable_first inp)) = Inl re"
  shows "snd (prepare_engine e inp g) = PrepRejected (ResolutionError re) \<and>
         forks (fx (fst (prepare_engine e inp g))) = forks (fx g) \<and>
         breadcrumbs (fx (fst (prepare_engine e inp g))) = breadcrumbs (fx g) \<and>
         force_extract (fst (prepare_engine e inp g)) = force_extract g \<and>
         cache (fst (prepare_engine e inp g)) = cache g"
proof -
  obtain urls where "get_tag_name (allow_prerelease inp) (fetch_fn inp) (stable_first inp) = (Inl re, urls)"
    using assms by (cases "get_tag_name (allow_prerelease inp) (fetch_fn inp) (stable_first inp)") auto
  then show ?thesis by (simp add: prepare_engine_failed record_requests_def)
qed

end
