(* ===== verification/Updater.thy ===== *)
theory Updater
  imports Json
begin

text \<open>
  The auto-updater wiring of src/public/libs/updater.js: one handler per
  \<open>autoUpdater\<close> event, each recording the status in \<open>global.updaterObj\<close>,
  sending it to every window and rebuilding the menu; \<open>update-available\<close>,
  \<open>update-not-available\<close> and \<open>error\<close> also show an informational dialog when
  \<open>global.updateSilent\<close> is false and then set it; \<open>update-downloaded\<close> asks
  whether to restart, and the answer 0 quits and installs.

  The state is \<open>updater_state\<close>: the two globals, the process environment, the
  main window, the restart prompts still open, and the observable effects. The
  events are those of \<open>autoUpdater\<close>, the user's answer to a restart prompt,
  and the writes of \<open>global.updateSilent\<close> by the menu's manual check (code
  outside this file). The handler of the restart answer runs in
  \<open>setImmediate\<close>; nothing else is scheduled in between here, so it is applied
  with the answer.
\<close>

record updater_obj =
  uo_status :: string
  uo_info :: "json option"

record updater_state =
  update_silent :: bool
  updater_object :: updater_obj
  proc_env :: "string \<rightharpoonup> string"
  main_window_open :: bool
  window_all_closed_listeners :: bool
  restart_prompts :: nat
  sent_updater :: "updater_obj list"
  sent_log :: "json list"
  menus_built :: nat
  dialogs_shown :: "(string \<times> string) list"
  uncaught :: "string list"
  quit_and_install_calls :: nat

datatype updater_event =
    CheckingForUpdate
  | UpdateAvailable json
  | UpdateNotAvailable json
  | UpdaterError json
  | UpdateCancelled
  | DownloadProgress json
  | UpdateDownloaded json
  | RestartAnswer nat
  | SetUpdateSilent bool

section \<open>Effects\<close>

definition publish :: "updater_obj \<Rightarrow> updater_state \<Rightarrow> updater_state" where
  "publish obj s =
     s\<lparr>updater_object := obj, sent_updater := sent_updater s @ [obj],
       menus_built := Suc (menus_built s)\<rparr>"

definition show_dialog :: "string \<Rightarrow> string \<Rightarrow> updater_state \<Rightarrow> updater_state" where
  "show_dialog title msg s = s\<lparr>dialogs_shown := dialogs_shown s @ [(title, msg)]\<rparr>"

text \<open>\<open>if (!global.updateSilent) { dialog.showMessageBox(...); global.updateSilent = true; }\<close>\<close>

definition notify_unless_silent :: "string \<Rightarrow> string \<Rightarrow> updater_state \<Rightarrow> updater_state" where
  "notify_unless_silent title msg s =
     (if \<not> update_silent s then (show_dialog title msg s)\<lparr>update_silent := True\<rparr> else s)"

section \<open>Handlers\<close>

definition on_checking_for_update :: "updater_state \<Rightarrow> updater_state" where
  "on_checking_for_update s = publish \<lparr>uo_status = ''checking-for-update'', uo_info = None\<rparr> s"

definition on_update_available :: "json \<Rightarrow> updater_state \<Rightarrow> updater_state" where
  "on_update_available info s =
     publish \<lparr>uo_status = ''update-available'', uo_info = Some info\<rparr>
       (notify_unless_silent ''An Update is Available''
          ''There is an available update. It is being downloaded. We will let you know when it is ready.'' s)"

definition on_update_not_available :: "json \<Rightarrow> updater_state \<Rightarrow> updater_state" where
  "on_update_not_available info s =
     publish \<lparr>uo_status = ''update-not-available'', uo_info = Some info\<rparr>
       (notify_unless_silent ''No Updates'' ''There are currently no updates available.'' s)"

definition on_error :: "json \<Rightarrow> updater_state \<Rightarrow> updater_state" where
  "on_error e s =
     (let s1 = notify_unless_silent ''Failed to Check for Updates''
                 ''Failed to check for updates. Please check your Internet connection.'' s;
          s2 = s1\<lparr>sent_log := sent_log s1 @ [e]\<rparr>
      in publish \<lparr>uo_status = ''error'', uo_info = Some e\<rparr> s2)"

definition on_update_cancelled :: "updater_state \<Rightarrow> updater_state" where
  "on_update_cancelled s = publish \<lparr>uo_status = ''update-cancelled'', uo_info = None\<rparr> s"

definition on_download_progress :: "json \<Rightarrow> updater_state \<Rightarrow> updater_state" where
  "on_download_progress p s = publish \<lparr>uo_status = ''download-progress'', uo_info = Some p\<rparr> s"

text \<open>The AppImageLauncher workaround: \<open>process.env\<close> stores strings, so an unset
  \<open>ARGV0\<close> is stored as \<open>"undefined"\<close>.\<close>

definition appimage_fix :: "(string \<rightharpoonup> string) \<Rightarrow> (string \<rightharpoonup> string)" where
  "appimage_fix env =
     (if env ''DESKTOPINTEGRATION'' = Some ''AppImageLauncher''
      then env(''APPIMAGE'' \<mapsto> (case env ''ARGV0'' of None \<Rightarrow> ''undefined'' | Some v \<Rightarrow> v))
      else env)"

text \<open>\<open>`A new version (${info.version}) has been downloaded. ...`\<close>; reading a
  property of \<open>null\<close> throws before the prompt is shown.\<close>

definition restart_detail :: "json \<Rightarrow> string option" where
  "restart_detail info =
     (if info = JNull then None
      else Some (''A new version ('' @ js_opt_to_string (js_get info ''version'') @
                 '') has been downloaded. Restart the application to apply the updates.''))"

definition on_update_downloaded :: "json \<Rightarrow> updater_state \<Rightarrow> updater_state" where
  "on_update_downloaded info s =
     (let s1 = publish \<lparr>uo_status = ''update-downloaded'', uo_info = Some info\<rparr>
                 (s\<lparr>proc_env := appimage_fix (proc_env s)\<rparr>)
      in case restart_detail info of
           None \<Rightarrow> s1\<lparr>uncaught := uncaught s1 @ [''TypeError'']\<rparr>
         | Some d \<Rightarrow> (show_dialog ''Application Update'' d s1)\<lparr>restart_prompts := Suc (restart_prompts s1)\<rparr>)"

text \<open>The \<open>.then(({ response }) => ...)\<close> of the restart prompt, with its
  \<open>setImmediate\<close> body.\<close>

definition on_restart_answer :: "nat \<Rightarrow> updater_state \<Rightarrow> updater_state" where
  "on_restart_answer response s =
     (if restart_prompts s = 0 then s
      else
        let s1 = s\<lparr>restart_prompts := restart_prompts s - 1\<rparr> in
        if response = 0 then
          s1\<lparr>window_all_closed_listeners := False, main_window_open := False,
             quit_and_install_calls := Suc (quit_and_install_calls s1)\<rparr>
        else s1)"

fun updater_step :: "updater_state \<Rightarrow> updater_event \<Rightarrow> updater_state" where
  "updater_step s CheckingForUpdate = on_checking_for_update s"
| "updater_step s (UpdateAvailable i) = on_update_available i s"
| "updater_step s (UpdateNotAvailable i) = on_update_not_available i s"
| "updater_step s (UpdaterError e) = on_error e s"
| "updater_step s UpdateCancelled = on_update_cancelled s"
| "updater_step s (DownloadProgress p) = on_download_progress p s"
| "updater_step s (UpdateDownloaded i) = on_update_downloaded i s"
| "updater_step s (RestartAnswer r) = on_restart_answer r s"
| "updater_step s (SetUpdateSilent b) = s\<lparr>update_silent := b\<rparr>"

definition updater_run :: "updater_state \<Rightarrow> updater_event list \<Rightarrow> updater_state" where
  "updater_run s evs = foldl updater_step s evs"

text \<open>Module load (lines 9--11): \<open>updateSilent = true\<close>, \<open>updaterObj = {}\<close>.\<close>

definition updater_init :: "(string \<rightharpoonup> string) \<Rightarrow> updater_state" where
  "updater_init env =
     \<lparr>update_silent = True, updater_object = \<lparr>uo_status = [], uo_info = None\<rparr>,
      proc_env = env, main_window_open = True, window_all_closed_listeners = True,
      restart_prompts = 0, sent_updater = [], sent_log = [], menus_built = 0,
      dialogs_shown = [], uncaught = [], quit_and_install_calls = 0\<rparr>"

text \<open>The events raised by \<open>autoUpdater\<close> itself, as opposed to the user's answer
  to a prompt and the writes of \<open>global.updateSilent\<close>.\<close>

fun is_updater_event :: "updater_event \<Rightarrow> bool" where
  "is_updater_event (RestartAnswer _) = False"
| "is_updater_event (SetUpdateSilent _) = False"
| "is_updater_event _ = True"

fun is_set_silent :: "updater_event \<Rightarrow> bool" where
  "is_set_silent (SetUpdateSilent _) = True"
| "is_set_silent _ = False"

definition restart_title :: string where
  "restart_title = ''Application Update''"

definition info_dialog_count :: "updater_state \<Rightarrow> nat" where
  "info_dialog_count s = length (filter (\<lambda>d. fst d \<noteq> restart_title) (dialogs_shown s))"

definition restart_dialog_count :: "updater_state \<Rightarrow> nat" where
  "restart_dialog_count s = length (filter (\<lambda>d. fst d = restart_title) (dialogs_shown s))"

section \<open>Properties\<close>

lemmas updater_defs = publish_def show_dialog_def notify_unless_silent_def
  on_checking_for_update_def on_update_available_def on_update_not_available_def
  on_error_def on_update_cancelled_def on_download_progress_def
  on_update_downloaded_def on_restart_answer_def

lemma updater_run_Nil [simp]: "updater_run s [] = s"
  by (simp add: updater_run_def)

lemma updater_run_snoc [simp]: "updater_run s (evs @ [e]) = updater_step (updater_run s evs) e"
  by (simp add: updater_run_def)

lemma updater_run_Cons [simp]: "updater_run s (e # evs) = updater_run (updater_step s e) evs"
  by (simp add: updater_run_def)

lemma updater_step_sent:
  "sent_updater (updater_step s e) =
     sent_updater s @ (if is_updater_event e then [updater_object (updater_step s e)] else [])"
  by (cases e) (simp_all add: updater_defs Let_def split: option.splits)

lemma updater_step_menus:
  "menus_built (updater_step s e) = menus_built s + (if is_updater_event e then 1 else 0)"
  by (cases e) (simp_all add: updater_defs Let_def split: option.splits)

lemma updater_step_object_other:
  "\<not> is_updater_event e \<Longrightarrow> updater_object (updater_step s e) = updater_object s"
  by (cases e) (simp_all add: updater_defs Let_def)

lemma updater_step_silent_set:
  "\<not> is_set_silent e \<Longrightarrow> update_silent s \<Longrightarrow> update_silent (updater_step s e)"
  by (cases e) (simp_all add: updater_defs Let_def split: option.splits)

text \<open>A handler shows at most one informational dialog, and only when it finds
  \<open>updateSilent\<close> false, which it then sets: the potential below never grows.\<close>

lemma updater_step_info_dialogs:
  assumes "\<not> is_set_silent e"
  shows "info_dialog_count (updater_step s e) + (if update_silent (updater_step s e) then 0 else 1)
         \<le> info_dialog_count s + (if update_silent s then 0 else 1)"
  using assms
  by (cases e)
     (simp_all add: updater_defs info_dialog_count_def restart_title_def Let_def
        split: option.splits)

lemma updater_step_restart_dialogs:
  "quit_and_install_calls s + restart_prompts s \<le> restart_dialog_count s \<Longrightarrow>
   quit_and_install_calls (updater_step s e) + restart_prompts (updater_step s e)
     \<le> restart_dialog_count (updater_step s e)"
  by (cases e)
     (auto simp: updater_defs restart_dialog_count_def restart_title_def Let_def
        split: option.splits)

lemma updater_step_view:
  "sent_updater s = [] \<or> last (sent_updater s) = updater_object s \<Longrightarrow>
   sent_updater (updater_step s e) = [] \<or>
   last (sent_updater (updater_step s e)) = updater_object (updater_step s e)"
  using updater_step_sent [of s e] updater_step_object_other [of e s]
  by (cases "is_updater_event e") auto

lemma updater_run_info_potential:
  "\<forall>e\<in>set evs. \<not> is_set_silent e \<Longrightarrow>
   info_dialog_count (updater_run s evs) + (if update_silent (updater_run s evs) then 0 else 1)
     \<le> info_dialog_count s + (if update_silent s then 0 else 1)"
proof (induction evs arbitrary: s)
  case Nil
  then show ?case by simp
next
  case (Cons e evs)
  then have "info_dialog_count (updater_run (updater_step s e) evs)
               + (if update_silent (updater_run (updater_step s e) evs) then 0 else 1)
             \<le> info_dialog_count (updater_step s e) + (if update_silent (updater_step s e) then 0 else 1)"
    by simp
  also have "\<dots> \<le> info_dialog_count s + (if update_silent s then 0 else 1)"
    using Cons.prems by (intro updater_step_info_dialogs) simp
  finally show ?case by simp
qed

text \<open>Every event raised by \<open>autoUpdater\<close> sends the updater object to all
  windows exactly once and rebuilds the menu exactly once; the user's answers to
  prompts and the writes of \<open>updateSilent\<close> do neither.\<close>

theorem updater_run_broadcasts:
  "length (sent_updater (updater_run s evs)) =
     length (sent_updater s) + length (filter is_updater_event evs) \<and>
   menus_built (updater_run s evs) = menus_built s + length (filter is_updater_event evs)"
  by (induction evs rule: rev_induct) (simp_all add: updater_step_sent updater_step_menus)

text \<open>C22: Whatever events arrive, the last updater object sent to the windows is
  the current \<open>global.updaterObj\<close>: the windows never show a stale status.\<close>

theorem updater_windows_see_current:
  "sent_updater (updater_run (updater_init env) evs) = [] \<or>
   last (sent_updater (updater_run (updater_init env) evs)) =
     updater_object (updater_run (updater_init env) evs)"
  by (induction evs rule: rev_induct) (simp_all add: updater_init_def updater_step_view)

text \<open>C20: Between two writes of \<open>updateSilent\<close>, the handlers show at most one
  informational dialog (update available, no update, failure), and none when
  \<open>updateSilent\<close> was already set: a manual check is answered once, and the
  background checks are silent.\<close>

theorem updater_one_dialog_per_check:
  "\<forall>e\<in>set evs. \<not> is_set_silent e \<Longrightarrow>
   info_dialog_count (updater_run s evs) \<le> info_dialog_count s + (if update_silent s then 0 else 1)"
  using updater_run_info_potential [of evs s] by simp


text \<open>The \<open>error\<close> handler shows the failure dialog exactly when
  \<open>updateSilent\<close> is false, then sets it; it always logs the error to the windows
  and records the status \<open>error\<close> with the error as its info.\<close>

theorem updater_error_handler:
  "dialogs_shown (updater_step s (UpdaterError e)) =
     dialogs_shown s @ (if update_silent s then []
       else [(''Failed to Check for Updates'',
              ''Failed to check for updates. Please check your Internet connection.'')]) \<and>
   update_silent (updater_step s (UpdaterError e)) \<and>
   sent_log (updater_step s (UpdaterError e)) = sent_log s @ [e] \<and>
   updater_object (updater_step s (UpdaterError e)) = \<lparr>uo_status = ''error'', uo_info = Some e\<rparr>"
  by (simp add: updater_defs)

text \<open>Under AppImageLauncher, a downloaded update copies \<open>ARGV0\<close> into
  \<open>APPIMAGE\<close>; when \<open>ARGV0\<close> is unset, \<open>APPIMAGE\<close> becomes the string
  \<open>"undefined"\<close>.\<close>

theorem updater_appimage_unset_argv0:
  "proc_env s ''DESKTOPINTEGRATION'' = Some ''AppImageLauncher'' \<Longrightarrow>
   proc_env s ''ARGV0'' = None \<Longrightarrow>
   proc_env (updater_step s (UpdateDownloaded info)) ''APPIMAGE'' = Some ''undefined''"
  by (simp add: updater_defs appimage_fix_def Let_def split: option.splits)

section \<open>Witnesses\<close>

definition launcher_env :: "string \<rightharpoonup> string" where
  "launcher_env = [''DESKTOPINTEGRATION'' \<mapsto> ''AppImageLauncher'']"

theorem updater_one_dialog_per_check_witness:
  "info_dialog_count (updater_run ((updater_init launcher_env)\<lparr>update_silent := False\<rparr>)
      [UpdateNotAvailable JNull, UpdaterError JNull]) \<le> 1"
  using updater_one_dialog_per_check
          [of "[UpdateNotAvailable JNull, UpdaterError JNull]"
              "(updater_init launcher_env)\<lparr>update_silent := False\<rparr>"]
  by (simp add: updater_init_def info_dialog_count_def)

theorem updater_appimage_unset_argv0_witness:
  "proc_env (updater_init launcher_env) ''DESKTOPINTEGRATION'' = Some ''AppImageLauncher'' \<and>
   proc_env (updater_init launcher_env) ''ARGV0'' = None \<and>
   proc_env (updater_step (updater_init launcher_env) (UpdateDownloaded (JObj [])))
     ''APPIMAGE'' = Some ''undefined''"
  using updater_appimage_unset_argv0 [of "updater_init launcher_env" "JObj []"]
  by (simp add: updater_init_def launcher_env_def)

end
