(* ===== verification/AuthPopup.thy ===== *)
theory AuthPopup
  imports Json
begin

text \<open>
  The sign-in popup of src/main-src/libs/get-auth-token-with-popup-async.js.
  \<open>getAuthTokenWithPopupAsync\<close> opens a window on a fresh session whose user
  agent is Electron's fallback without the app and Electron tokens
  (\<open>getChromeUserAgent\<close>), and returns a promise settled by the window's
  events: a window-open request for the success page resolves it with the
  \<open>token\<close> query parameter (or rejects when there is none), a failed load
  or the window's closing rejects it. Child windows that navigate to a Google
  sign-in page are reloaded once with a Firefox user agent.

  The state is \<open>popup_state\<close>; the events are those of the window and of its
  child windows, delivered one at a time. The URL parser (\<open>new URL\<close>) is a
  parameter \<open>url_parser\<close> of the handlers: the lemmas hold for every parser,
  and the witnesses use a small one.
\<close>

section \<open>User agents\<close>

text \<open>\<open>app.userAgentFallback.replace(` ${name without spaces}/${version}`, '')
  .replace(` Electron/${process.versions.electron}`, '')\<close>\<close>

definition get_chrome_user_agent :: "string \<Rightarrow> string \<Rightarrow> string \<Rightarrow> string \<Rightarrow> string" where
  "get_chrome_user_agent fallback app_name version electron_version =
     replace_first (CHR '' '' # ''Electron/'' @ electron_version) []
       (replace_first (CHR '' '' # filter (\<lambda>c. c \<noteq> CHR '' '') app_name @ ''/'' @ version) []
          fallback)"

definition get_fake_firefox_user_agent :: string where
  "get_fake_firefox_user_agent =
     ''Mozilla/5.0 (Macintosh; Intel Mac OS X 10.15; rv:90.0) Gecko/20100101 Firefox/90.0''"

section \<open>State and events\<close>

text \<open>What \<open>new URL(details.url)\<close> yields that the handler reads: the pathname
  and the query's parameters in order (\<open>searchParams.get\<close> returns the first).
  \<open>None\<close> is the \<open>TypeError\<close> of an invalid URL.\<close>

record url =
  url_pathname :: string
  url_params :: "(string \<times> string) list"

type_synonym url_parser = "string \<Rightarrow> url option"

datatype auth_outcome = AuthPending | AuthResolved string | AuthRejected string

datatype open_action = Deny | Allow

datatype popup_event =
    WindowOpen "string option"
  | DidFailLoad
  | Closed
  | DidCreateWindow nat
  | WillNavigate nat string

record popup_state =
  auth_outcome :: auth_outcome
  close_calls :: nat
  session_user_agent :: string
  child_user_agent :: "nat \<rightharpoonup> string"
  child_loads :: "(nat \<times> string) list"
  open_actions :: "open_action list"
  popup_uncaught :: "string list"

text \<open>\<open>resolve\<close> and \<open>reject\<close> of a promise: only the first call counts.\<close>

definition settle_auth :: "auth_outcome \<Rightarrow> popup_state \<Rightarrow> popup_state" where
  "settle_auth r s =
     (if auth_outcome s = AuthPending then s\<lparr>auth_outcome := r\<rparr> else s)"

definition win_close :: "popup_state \<Rightarrow> popup_state" where
  "win_close s = s\<lparr>close_calls := Suc (close_calls s)\<rparr>"

section \<open>Handlers\<close>

definition success_path :: string where
  "success_path = ''/account/token/in-app/success''"

text \<open>\<open>win.webContents.setWindowOpenHandler((details) => ...)\<close>\<close>

definition on_window_open :: "url_parser \<Rightarrow> string option \<Rightarrow> popup_state \<Rightarrow> popup_state" where
  "on_window_open parse du s =
     (case du of
        Some u \<Rightarrow>
          if u = [] then s\<lparr>open_actions := open_actions s @ [Allow]\<rparr>
          else (case parse u of
                  None \<Rightarrow> s\<lparr>popup_uncaught := popup_uncaught s @ [''TypeError: Invalid URL'']\<rparr>
                | Some url_obj \<Rightarrow>
                    if url_pathname url_obj = success_path then
                      (let s1 = (case map_of (url_params url_obj) ''token'' of
                                   Some t \<Rightarrow> if t \<noteq> [] then win_close (settle_auth (AuthResolved t) s)
                                             else win_close (settle_auth (AuthRejected ''token is not retrieved'') s)
                                 | None \<Rightarrow> win_close (settle_auth (AuthRejected ''token is not retrieved'') s))
                       in s1\<lparr>open_actions := open_actions s1 @ [Deny]\<rparr>)
                    else s\<lparr>open_actions := open_actions s @ [Allow]\<rparr>)
      | None \<Rightarrow> s\<lparr>open_actions := open_actions s @ [Allow]\<rparr>)"

text \<open>\<open>win.on('did-fail-load', ...)\<close> and \<open>win.on('closed', ...)\<close>\<close>

definition on_did_fail_load :: "popup_state \<Rightarrow> popup_state" where
  "on_did_fail_load s = win_close (settle_auth (AuthRejected ''did-fail-load'') s)"

definition on_closed :: "popup_state \<Rightarrow> popup_state" where
  "on_closed s = settle_auth (AuthRejected ''Window is closed'') s"

text \<open>\<open>did-create-window\<close>: the child shares the popup's session, and so its
  user agent, and gets a \<open>will-navigate\<close> listener.\<close>

definition on_did_create_window :: "nat \<Rightarrow> popup_state \<Rightarrow> popup_state" where
  "on_did_create_window c s =
     s\<lparr>child_user_agent := (child_user_agent s)(c \<mapsto> session_user_agent s)\<rparr>"

definition on_will_navigate :: "nat \<Rightarrow> string \<Rightarrow> popup_state \<Rightarrow> popup_state" where
  "on_will_navigate c u s =
     (case child_user_agent s c of
        None \<Rightarrow> s
      | Some ua \<Rightarrow>
          if u \<noteq> [] \<and> js_includes ''providerId=google.com'' u
             \<and> ua \<noteq> get_fake_firefox_user_agent
          then s\<lparr>child_user_agent := (child_user_agent s)(c \<mapsto> get_fake_firefox_user_agent),
                 child_loads := child_loads s @ [(c, u)]\<rparr>
          else s)"

fun popup_step :: "url_parser \<Rightarrow> popup_state \<Rightarrow> popup_event \<Rightarrow> popup_state" where
  "popup_step parse s (WindowOpen du) = on_window_open parse du s"
| "popup_step parse s DidFailLoad = on_did_fail_load s"
| "popup_step parse s Closed = on_closed s"
| "popup_step parse s (DidCreateWindow c) = on_did_create_window c s"
| "popup_step parse s (WillNavigate c u) = on_will_navigate c u s"

definition popup_run :: "url_parser \<Rightarrow> popup_state \<Rightarrow> popup_event list \<Rightarrow> popup_state" where
  "popup_run parse s evs = foldl (popup_step parse) s evs"

text \<open>The state once \<open>getAuthTokenWithPopupAsync\<close> has opened the window.\<close>

definition get_auth_token_init :: "string \<Rightarrow> string \<Rightarrow> string \<Rightarrow> string \<Rightarrow> popup_state" where
  "get_auth_token_init fallback app_name version electron_version =
     \<lparr>auth_outcome = AuthPending, close_calls = 0,
      session_user_agent = get_chrome_user_agent fallback app_name version electron_version,
      child_user_agent = Map.empty, child_loads = [], open_actions = [], popup_uncaught = []\<rparr>"

section \<open>Specification of the promise\<close>

text \<open>The outcome an event decides when it reaches a pending promise: the
  success page decides the token (or its absence), a failed load and the
  window's closing decide a rejection; other events decide nothing.\<close>

fun popup_decision :: "url_parser \<Rightarrow> popup_event \<Rightarrow> auth_outcome option" where
  "popup_decision parse (WindowOpen (Some u)) =
     (if u = [] then None
      else case parse u of
             None \<Rightarrow> None
           | Some url_obj \<Rightarrow>
               if url_pathname url_obj \<noteq> success_path then None
               else case map_of (url_params url_obj) ''token'' of
                      Some t \<Rightarrow> if t \<noteq> [] then Some (AuthResolved t)
                                else Some (AuthRejected ''token is not retrieved'')
                    | None \<Rightarrow> Some (AuthRejected ''token is not retrieved''))"
| "popup_decision parse DidFailLoad = Some (AuthRejected ''did-fail-load'')"
| "popup_decision parse Closed = Some (AuthRejected ''Window is closed'')"
| "popup_decision parse _ = None"

fun first_decision :: "url_parser \<Rightarrow> popup_event list \<Rightarrow> auth_outcome" where
  "first_decision parse [] = AuthPending"
| "first_decision parse (e # evs) =
     (case popup_decision parse e of Some r \<Rightarrow> r | None \<Rightarrow> first_decision parse evs)"

definition child_reloads :: "nat \<Rightarrow> popup_state \<Rightarrow> nat" where
  "child_reloads c s = length (filter (\<lambda>l. fst l = c) (child_loads s))"

text \<open>A child is reloaded only while its user agent is not the Firefox one,
  and the reload sets it: the potential below grows only with a new window.\<close>

definition reload_potential :: "nat \<Rightarrow> popup_state \<Rightarrow> nat" where
  "reload_potential c s =
     child_reloads c s +
       (case child_user_agent s c of
          Some ua \<Rightarrow> if ua \<noteq> get_fake_firefox_user_agent then 1 else 0
        | None \<Rightarrow> 0)"

section \<open>Concrete inputs\<close>

text \<open>A small URL parser for the witnesses: \<open>https\<close> URLs without fragment or
  percent-escapes, parameters split on \<open>&\<close> and \<open>=\<close>.\<close>

definition simple_url_parse :: url_parser where
  "simple_url_parse u =
     (if take 8 u = ''https://'' then
        let path_q = dropWhile (\<lambda>c. c \<noteq> CHR ''/'') (drop 8 u);
            path = takeWhile (\<lambda>c. c \<noteq> CHR ''?'') path_q;
            q = drop 1 (dropWhile (\<lambda>c. c \<noteq> CHR ''?'') path_q)
        in Some \<lparr>url_pathname = (if path = [] then ''/'' else path),
                 url_params = map (\<lambda>kv. (takeWhile (\<lambda>c. c \<noteq> CHR ''='') kv,
                                        drop 1 (dropWhile (\<lambda>c. c \<noteq> CHR ''='') kv)))
                                (filter (\<lambda>kv. kv \<noteq> []) (split_on CHR ''&'' q))\<rparr>
      else None)"

definition success_url :: string where
  "success_url = ''https://webcatalog.io/account/token/in-app/success?token=abc''"

definition electron_fallback_ua :: string where
  "electron_fallback_ua = ''Mozilla/5.0 (X11; Linux x86_64) AppleWebKit/537.36 (KHTML, like Gecko) GoogleChat/8.1.1 Chrome/91.0.4472.164 Electron/13.1.7 Safari/537.36''"

section \<open>Properties\<close>

lemmas popup_defs = on_window_open_def on_did_fail_load_def on_closed_def
  on_did_create_window_def on_will_navigate_def settle_auth_def win_close_def

lemma popup_run_Nil [simp]: "popup_run parse s [] = s"
  by (simp add: popup_run_def)

lemma popup_run_Cons [simp]:
  "popup_run parse s (e # evs) = popup_run parse (popup_step parse s e) evs"
  by (simp add: popup_run_def)

lemma popup_step_outcome:
  "auth_outcome (popup_step parse s e) =
     (if auth_outcome s = AuthPending
      then (case popup_decision parse e of Some r \<Rightarrow> r | None \<Rightarrow> AuthPending)
      else auth_outcome s)"
  by (cases e) (simp_all add: popup_defs Let_def split: option.splits)

lemma popup_decision_not_pending:
  "popup_decision parse e = Some r \<Longrightarrow> r \<noteq> AuthPending"
  by (cases "(parse, e)" rule: popup_decision.cases) (auto split: option.splits if_splits)

lemma first_decision_settled:
  "Closed \<in> set evs \<Longrightarrow> first_decision parse evs \<noteq> AuthPending"
  by (induction evs) (auto dest: popup_decision_not_pending split: option.splits)

lemma popup_run_outcome:
  "auth_outcome (popup_run parse s evs) =
     (if auth_outcome s = AuthPending then first_decision parse evs else auth_outcome s)"
  by (induction evs arbitrary: s)
     (auto simp: popup_step_outcome dest: popup_decision_not_pending split: option.splits)

lemma popup_step_reload_potential:
  "reload_potential c (popup_step parse s e)
     \<le> reload_potential c s + (if e = DidCreateWindow c then 1 else 0)"
  by (cases e)
     (auto simp: popup_defs reload_potential_def child_reloads_def Let_def
        split: option.splits)

lemma popup_run_reload_potential:
  "reload_potential c (popup_run parse s evs) \<le> reload_potential c s + count_list evs (DidCreateWindow c)"
proof (induction evs arbitrary: s)
  case Nil
  then show ?case by simp
next
  case (Cons e evs)
  have "reload_potential c (popup_run parse (popup_step parse s e) evs)
        \<le> reload_potential c (popup_step parse s e) + count_list evs (DidCreateWindow c)"
    by (rule Cons.IH)
  also have "\<dots> \<le> reload_potential c s + count_list (e # evs) (DidCreateWindow c)"
    using popup_step_reload_potential [of c parse s e] by auto
  finally show ?case by simp
qed


text \<open>C24: The popup's promise never stays pending once the window has closed,
  whatever happened before.\<close>

theorem popup_settles_on_close:
  "Closed \<in> set evs \<Longrightarrow> auth_outcome (popup_run parse s evs) \<noteq> AuthPending"
  by (simp add: popup_run_outcome first_decision_settled)

text \<open>A window-open request for the success page whose \<open>token\<close> parameter is
  non-empty resolves a pending promise with that token, denies the new window
  and closes the popup; no later event changes the outcome.\<close>

theorem popup_token_resolves:
  assumes "u \<noteq> []" and "parse u = Some url_obj"
    and "url_pathname url_obj = success_path"
    and "map_of (url_params url_obj) ''token'' = Some t" and "t \<noteq> []"
    and "auth_outcome s = AuthPending"
  shows "auth_outcome (popup_run parse s (WindowOpen (Some u) # evs)) = AuthResolved t \<and>
         open_actions (popup_step parse s (WindowOpen (Some u))) = open_actions s @ [Deny] \<and>
         close_calls (popup_step parse s (WindowOpen (Some u))) = Suc (close_calls s)"
  using assms by (simp add: popup_run_outcome popup_defs Let_def)

text \<open>C25: A child window is reloaded with the Firefox user agent at most once
  for each time it is created: the reload sets the user agent the test
  compares against, so a Google sign-in page never reloads in a loop.\<close>

theorem popup_one_reload_per_child:
  "length (filter (\<lambda>l. fst l = c)
      (child_loads (popup_run parse (get_auth_token_init fallback app_name version ev) evs)))
   \<le> count_list evs (DidCreateWindow c)"
  using popup_run_reload_potential [of c parse "get_auth_token_init fallback app_name version ev" evs]
  by (simp add: reload_potential_def child_reloads_def get_auth_token_init_def)

text \<open>When the fallback user agent carries the app's token
  \<open>" <name without spaces>/<version>"\<close> and then \<open>" Electron/<version>"\<close>,
  with no earlier occurrence of either, \<open>getChromeUserAgent\<close> removes exactly
  those two tokens.\<close>

theorem chrome_user_agent_strips_tokens:
  assumes "app_tok = CHR '' '' # filter (\<lambda>c. c \<noteq> CHR '' '') app_name @ ''/'' @ version"
    and "el_tok = CHR '' '' # ''Electron/'' @ ev"
    and "\<not> js_includes app_tok (a @ butlast app_tok)"
    and "\<not> js_includes el_tok (a @ b @ butlast el_tok)"
  shows "get_chrome_user_agent (a @ app_tok @ b @ el_tok @ c) app_name version ev = a @ b @ c"
proof -
  have ua: "get_chrome_user_agent x app_name version ev = replace_first el_tok [] (replace_first app_tok [] x)"
    for x by (simp add: get_chrome_user_agent_def assms(1,2))
  have "replace_first app_tok [] (a @ app_tok @ (b @ el_tok @ c)) = a @ [] @ (b @ el_tok @ c)"
    by (rule replace_first_split) (simp add: assms(1), rule assms(3))
  moreover have "replace_first el_tok [] ((a @ b) @ el_tok @ c) = (a @ b) @ [] @ c"
    by (rule replace_first_split) (simp add: assms(2), simp add: assms(4))
  ultimately show ?thesis
    by (simp add: ua)
qed

section \<open>Witnesses\<close>

theorem popup_token_resolves_witness:
  "success_url \<noteq> [] \<and> simple_url_parse success_url =
      Some \<lparr>url_pathname = success_path, url_params = [(''token'', ''abc'')]\<rparr> \<and>
   auth_outcome (popup_run simple_url_parse (get_auth_token_init [] [] [] [])
      [WindowOpen (Some success_url), Closed]) = AuthResolved ''abc'' \<and>
   open_actions (popup_step simple_url_parse (get_auth_token_init [] [] [] [])
      (WindowOpen (Some success_url))) = [Deny]"
proof -
  have p: "simple_url_parse success_url =
      Some \<lparr>url_pathname = success_path, url_params = [(''token'', ''abc'')]\<rparr>"
    by (simp add: simple_url_parse_def success_url_def success_path_def)
  show ?thesis
    using popup_token_resolves [of success_url simple_url_parse
        "\<lparr>url_pathname = success_path, url_params = [(''token'', ''abc'')]\<rparr>" "''abc''"
        "get_auth_token_init [] [] [] []" "[Closed]"] p
    by (simp add: success_url_def get_auth_token_init_def)
qed

theorem popup_settles_on_close_witness:
  "Closed \<in> set [DidCreateWindow 1, Closed] \<and>
   auth_outcome (popup_run simple_url_parse (get_auth_token_init [] [] [] [])
      [DidCreateWindow 1, Closed]) \<noteq> AuthPending"
  using popup_settles_on_close [of "[DidCreateWindow 1, Closed]" simple_url_parse
      "get_auth_token_init [] [] [] []"]
  by simp

theorem chrome_user_agent_strips_tokens_witness:
  "get_chrome_user_agent electron_fallback_ua ''Google Chat'' ''8.1.1'' ''13.1.7'' =
     ''Mozilla/5.0 (X11; Linux x86_64) AppleWebKit/537.36 (KHTML, like Gecko) Chrome/91.0.4472.164 Safari/537.36''"
  using chrome_user_agent_strips_tokens
    [of "'' GoogleChat/8.1.1''" "''Google Chat''" "''8.1.1''" "'' Electron/13.1.7''" "''13.1.7''"
        "''Mozilla/5.0 (X11; Linux x86_64) AppleWebKit/537.36 (KHTML, like Gecko)''"
        "'' Chrome/91.0.4472.164''" "'' Safari/537.36''"]
  by (simp add: electron_fallback_ua_def)

end
