(* ===== verification/ReduxState.thy ===== *)
theory ReduxState
  imports Json
begin

text \<open>
  The renderer's Redux state of src/src/state: the root reducer's slices
  (state/index.js), the action creators and thunks of the dialogs
  (dialog-set-installation-path, dialog-proxy, dialog-backup-restore,
  dialog-upgrade) and the managed-apps reducer (user/apps/managed).

  The state a thunk reads with \<open>getState()\<close> is the JavaScript object tree,
  a \<open>json\<close> value, and every property read of the thunk is a \<open>js_member\<close> that
  throws on \<open>undefined\<close>; a thunk returns the actions it dispatches, the
  preference writes it sends to the main process (\<open>requestSetPreference\<close>) and
  the message boxes it shows, or the error it throws. The managed-apps reducer
  mutates the object it is given; it is modelled on an explicit heap of
  objects so that the aliasing of the previous state is visible.
\<close>

section \<open>The store\<close>

text \<open>The slices of \<open>combineReducers({...})\<close>: the root state object has exactly
  these keys.\<close>

definition root_reducer_keys :: "string list" where
  "root_reducer_keys =
     [''appManagement'', ''dialogAbout'', ''dialogAddSpace'', ''dialogCatalogAppDetails'',
      ''dialogCreateCustomApp'', ''dialogEditApp'', ''dialogBackupRestore'', ''dialogBackup'',
      ''dialogRestore'', ''dialogLicenseRegistration'', ''dialogOpenSourceNotices'',
      ''dialogSetInstallationPath'', ''general'', ''installed'', ''preferences'', ''router'',
      ''systemPreferences'', ''updater'']"

definition root_state_wf :: "json \<Rightarrow> bool" where
  "root_state_wf st = (case st of JObj kvs \<Rightarrow> map fst kvs = root_reducer_keys | _ \<Rightarrow> False)"

section \<open>Actions and thunks\<close>

datatype redux_action =
    DialogSetInstallationPathClose
  | DialogSetInstallationPathOpen json
  | DialogSetInstallationPathFormUpdate json
  | DialogBackupRestoreClose
  | DialogBackupRestoreOpen
  | DialogUpgradeClose
  | DialogUpgradeOpen
  | DialogProxyClose
  | DialogProxyOpen
  | DialogProxyFormUpdate "(string \<times> json) list"
  | ManagedAppSet string string json
  | ManagedAppRemove string

record thunk_out =
  dispatched :: "redux_action list"
  pref_requests :: "(string \<times> json option) list"
  message_boxes :: "(string \<times> string) list"

definition no_out :: thunk_out where
  "no_out = \<lparr>dispatched = [], pref_requests = [], message_boxes = []\<rparr>"

definition dispatch :: "redux_action \<Rightarrow> thunk_out \<Rightarrow> thunk_out" where
  "dispatch a out = out\<lparr>dispatched := dispatched out @ [a]\<rparr>"

definition request_set_preference :: "string \<Rightarrow> json option \<Rightarrow> thunk_out \<Rightarrow> thunk_out" where
  "request_set_preference k v out = out\<lparr>pref_requests := pref_requests out @ [(k, v)]\<rparr>"

definition show_message_box :: "string \<Rightarrow> string \<Rightarrow> thunk_out \<Rightarrow> thunk_out" where
  "show_message_box title msg out = out\<lparr>message_boxes := message_boxes out @ [(title, msg)]\<rparr>"

text \<open>An object literal; a property holding \<open>undefined\<close> is left out, which
  no reader of these objects can tell apart.\<close>

definition js_object :: "(string \<times> json option) list \<Rightarrow> json" where
  "js_object kvs = JObj (List.map_filter (\<lambda>(k, v). map_option (\<lambda>x. (k, x)) v) kvs)"

definition obj_kvs :: "json option \<Rightarrow> (string \<times> json) list" where
  "obj_kvs v = (case v of Some (JObj kvs) \<Rightarrow> kvs | _ \<Rightarrow> [])"

subsection \<open>dialog-backup-restore and dialog-upgrade\<close>

definition dialog_backup_restore_close :: redux_action where
  "dialog_backup_restore_close = DialogBackupRestoreClose"

definition dialog_backup_restore_open :: redux_action where
  "dialog_backup_restore_open = DialogBackupRestoreOpen"

definition dialog_upgrade_close :: redux_action where
  "dialog_upgrade_close = DialogUpgradeClose"

definition dialog_upgrade_open :: redux_action where
  "dialog_upgrade_open = DialogUpgradeOpen"

subsection \<open>dialog-set-installation-path\<close>

definition set_installation_path_close :: redux_action where
  "set_installation_path_close = DialogSetInstallationPathClose"

definition set_installation_path_open :: "json \<Rightarrow> string + thunk_out" where
  "set_installation_path_open st =
     bind_sum (js_member (Some st) ''preferences'') (\<lambda>prefs.
     bind_sum (js_member prefs ''installationPath'') (\<lambda>ip.
     bind_sum (js_member prefs ''requireAdmin'') (\<lambda>ra.
       Inr (dispatch (DialogSetInstallationPathOpen
              (js_object [(''installationPath'', ip), (''requireAdmin'', ra)])) no_out))))"

definition set_installation_path_update_form :: "json \<Rightarrow> redux_action" where
  "set_installation_path_update_form changes = DialogSetInstallationPathFormUpdate changes"

definition uninstall_first_title :: string where
  "uninstall_first_title = ''Uninstall all of WebCatalog apps first''"

definition uninstall_first_message :: string where
  "uninstall_first_message =
     ''You need to uninstall all of your WebCatalog apps before changing this preference.''"

definition set_installation_path_save :: "json \<Rightarrow> string + thunk_out" where
  "set_installation_path_save st =
     bind_sum (js_member (Some st) ''dialogSetInstallationPath'') (\<lambda>dsip.
     bind_sum (js_member dsip ''form'') (\<lambda>form.
     bind_sum (js_member form ''installationPath'') (\<lambda>ip.
     bind_sum (js_member form ''requireAdmin'') (\<lambda>ra.
     bind_sum (js_member (Some st) ''appManagement'') (\<lambda>am.
     bind_sum (js_member am ''apps'') (\<lambda>apps.
     bind_sum (obj_keys apps) (\<lambda>ks.
       let out = (if 0 < length ks
                  then show_message_box uninstall_first_title uninstall_first_message no_out
                  else request_set_preference ''installationPath'' ip
                         (request_set_preference ''requireAdmin'' ra no_out))
       in Inr (dispatch set_installation_path_close out))))))))"

subsection \<open>dialog-proxy\<close>

definition proxy_close :: redux_action where
  "proxy_close = DialogProxyClose"

definition proxy_open :: redux_action where
  "proxy_open = DialogProxyOpen"

text \<open>A rule: the field's display name and whether it is required.\<close>

type_synonym validation_rules = "(string \<times> (string \<times> bool)) list"

definition get_validation_rules :: "json option \<Rightarrow> validation_rules" where
  "get_validation_rules proxy_type =
     (if proxy_type = Some (JStr ''rules'') then [(''proxyRules'', (''Proxy address'', True))]
      else if proxy_type = Some (JStr ''pacScript'') then [(''proxyPacScript'', (''Script URL'', True))]
      else [])"

text \<open>helpers/validate (not among the sources): every key of the changes gets
  a \<open><key>Error\<close> entry, the message of its first failing rule or \<open>null\<close>; a
  required value fails when it is falsy.\<close>

definition validate_field :: "validation_rules \<Rightarrow> (string \<times> json) list \<Rightarrow> string \<Rightarrow> json" where
  "validate_field rules changes k =
     (case map_of rules k of
        Some (field_name, True) \<Rightarrow>
          if truthy (map_of changes k) then JNull else JStr (field_name @ '' is required.'')
      | _ \<Rightarrow> JNull)"

definition validate :: "(string \<times> json) list \<Rightarrow> validation_rules \<Rightarrow> (string \<times> json) list" where
  "validate changes rules =
     foldl (\<lambda>acc k. obj_set acc (k @ ''Error'') (validate_field rules changes k))
       (obj_spread [] changes) (map fst changes)"

text \<open>helpers/has-errors (not among the sources): some \<open>...Error\<close> entry is truthy.\<close>

definition has_errors :: "(string \<times> json) list \<Rightarrow> bool" where
  "has_errors kvs = (\<exists>kv\<in>set kvs. drop (length (fst kv) - 5) (fst kv) = ''Error'' \<and> truthy (Some (snd kv)))"

definition proxy_update_form :: "(string \<times> json) list \<Rightarrow> json \<Rightarrow> string + thunk_out" where
  "proxy_update_form changes st =
     bind_sum (js_member (Some st) ''dialogProxy'') (\<lambda>dp.
     bind_sum (js_member dp ''form'') (\<lambda>form.
       if truthy (map_of changes ''proxyType'')
       then Inr (dispatch (DialogProxyFormUpdate
                   (validate (obj_spread (obj_kvs form) changes)
                      (get_validation_rules (map_of changes ''proxyType'')))) no_out)
       else bind_sum (js_member form ''proxyType'') (\<lambda>pt.
              Inr (dispatch (DialogProxyFormUpdate (validate changes (get_validation_rules pt)))
                     no_out))))"

definition proxy_save :: "json \<Rightarrow> string + thunk_out" where
  "proxy_save st =
     bind_sum (js_member (Some st) ''dialogProxy'') (\<lambda>dp.
     bind_sum (js_member dp ''form'') (\<lambda>form.
     bind_sum (js_member form ''proxyType'') (\<lambda>pt.
       let vc = validate (obj_kvs form) (get_validation_rules pt) in
       if has_errors vc then proxy_update_form vc st
       else
         bind_sum (js_member form ''proxyRules'') (\<lambda>rules.
         bind_sum (js_member form ''proxyBypassRules'') (\<lambda>bypass.
         bind_sum (js_member form ''proxyPacScript'') (\<lambda>pac.
           Inr (dispatch proxy_close
                 (request_set_preference ''proxyType'' pt
                   (request_set_preference ''proxyPacScript'' pac
                     (request_set_preference ''proxyBypassRules'' bypass
                       (request_set_preference ''proxyRules'' rules no_out)))))))))))"

section \<open>The managed-apps reducer\<close>

text \<open>Objects live in a heap; a state is the address of its object. The
  reducer's default parameter is the module's single object
  \<open>appsInitialState\<close>, at address 0.\<close>

type_synonym addr = nat

record managed_app =
  ma_status :: string
  ma_app :: json

type_synonym apps_obj = "(string \<times> managed_app) list"

record apps_heap =
  heap_objs :: "addr \<Rightarrow> apps_obj"
  heap_next :: addr

definition apps_initial_state :: addr where
  "apps_initial_state = 0"

definition managed_init_heap :: apps_heap where
  "managed_init_heap = \<lparr>heap_objs = (\<lambda>_. []), heap_next = 1\<rparr>"

definition heap_alloc :: "apps_obj \<Rightarrow> apps_heap \<Rightarrow> apps_heap \<times> addr" where
  "heap_alloc obj h =
     (h\<lparr>heap_objs := (heap_objs h)(heap_next h := obj), heap_next := Suc (heap_next h)\<rparr>,
      heap_next h)"

definition heap_write :: "addr \<Rightarrow> apps_obj \<Rightarrow> apps_heap \<Rightarrow> apps_heap" where
  "heap_write a obj h = h\<lparr>heap_objs := (heap_objs h)(a := obj)\<rparr>"

text \<open>\<open>const updatedManagedApps = state; updatedManagedApps[id] = ...; return
  { ...state, ...updatedManagedApps }\<close>: the write goes to the given object.\<close>

fun managed_apps_reducer_at :: "apps_heap \<Rightarrow> addr \<Rightarrow> redux_action \<Rightarrow> apps_heap \<times> addr" where
  "managed_apps_reducer_at h a (ManagedAppSet i st ap) =
     (let h1 = heap_write a (obj_set (heap_objs h a) i \<lparr>ma_status = st, ma_app = ap\<rparr>) h
      in heap_alloc (obj_spread (heap_objs h1 a) (heap_objs h1 a)) h1)"
| "managed_apps_reducer_at h a (ManagedAppRemove i) =
     (let h1 = heap_write a (obj_delete (heap_objs h a) i) h
      in heap_alloc (obj_spread (heap_objs h1 a) (heap_objs h1 a)) h1)"
| "managed_apps_reducer_at h a _ = (h, a)"

text \<open>\<open>(state = appsInitialState, action) => ...\<close>; \<open>None\<close> is \<open>undefined\<close>.\<close>

definition managed_apps_reducer :: "apps_heap \<Rightarrow> addr option \<Rightarrow> redux_action \<Rightarrow> apps_heap \<times> addr" where
  "managed_apps_reducer h sa act =
     managed_apps_reducer_at h (case sa of None \<Rightarrow> apps_initial_state | Some a \<Rightarrow> a) act"

text \<open>What the reducer promises: the apps keyed by id, updated by the action.\<close>

fun managed_apps_abs :: "(string \<rightharpoonup> managed_app) \<Rightarrow> redux_action \<Rightarrow> (string \<rightharpoonup> managed_app)" where
  "managed_apps_abs m (ManagedAppSet i st ap) = m(i \<mapsto> \<lparr>ma_status = st, ma_app = ap\<rparr>)"
| "managed_apps_abs m (ManagedAppRemove i) = m(i := None)"
| "managed_apps_abs m _ = m"

text \<open>Objects of the managed-apps heap have distinct keys, as JavaScript objects do.\<close>

definition heap_wf :: "apps_heap \<Rightarrow> bool" where
  "heap_wf h = (\<forall>a. distinct (map fst (heap_objs h a)))"

section \<open>Concrete inputs\<close>

text \<open>A store state with one installed app and an installation-path form, and
  a state with a proxy dialog whose form asks for proxy rules but has none.\<close>

definition store_slice :: "string \<Rightarrow> json" where
  "store_slice k =
     (if k = ''dialogSetInstallationPath'' then
        JObj [(''open'', JBool True),
              (''form'', JObj [(''installationPath'', JStr ''~/Applications/WebCatalog Apps''),
                               (''requireAdmin'', JBool False)])]
      else if k = ''appManagement'' then JObj [(''apps'', JObj [(''example-app'', JObj [])])]
      else JObj [])"

definition store_state :: json where
  "store_state = JObj (map (\<lambda>k. (k, store_slice k)) root_reducer_keys)"

definition proxy_form :: "(string \<times> json) list" where
  "proxy_form = [(''proxyType'', JStr ''rules''), (''proxyRules'', JStr []),
                 (''proxyBypassRules'', JStr []), (''proxyPacScript'', JStr [])]"

definition proxy_state :: json where
  "proxy_state = JObj [(''dialogProxy'', JObj [(''form'', JObj proxy_form)])]"

definition one_app_heap :: apps_heap where
  "one_app_heap = \<lparr>heap_objs = (\<lambda>_. []), heap_next = 1\<rparr>"

section \<open>Properties\<close>

lemmas thunk_defs = no_out_def dispatch_def request_set_preference_def show_message_box_def

lemma js_member_get:
  "js_get v k = Some w \<Longrightarrow> js_member (Some v) k' = Inr (js_get v k')"
  by (cases v) simp_all

lemma distinct_foldl_obj_set:
  "distinct (map fst acc) \<Longrightarrow>
   distinct (map fst (foldl (\<lambda>acc kv. obj_set acc (fst kv) (snd kv)) acc xs))"
  by (induction xs arbitrary: acc) (simp_all add: distinct_obj_set)

lemma distinct_obj_spread: "distinct (map fst (obj_spread a b))"
  by (simp add: obj_spread_def distinct_foldl_obj_set)

lemma distinct_obj_delete: "distinct (map fst kvs) \<Longrightarrow> distinct (map fst (obj_delete kvs k))"
  by (simp add: obj_delete_def distinct_map_filter)

lemma map_of_rev_distinct: "distinct (map fst xs) \<Longrightarrow> map_of (rev xs) = map_of xs"
  by (simp add: map_of_inject_set distinct_rev rev_map [symmetric])

lemma map_of_obj_spread_self:
  "distinct (map fst x) \<Longrightarrow> map_of (obj_spread x x) = map_of x"
  by (simp add: map_of_rev_distinct)

lemma managed_apps_reducer_at_wf:
  "heap_wf h \<Longrightarrow> heap_wf (fst (managed_apps_reducer_at h a act))"
  by (cases act)
     (simp_all add: heap_wf_def heap_alloc_def heap_write_def distinct_obj_spread
        distinct_obj_set distinct_obj_delete Let_def)

lemma managed_apps_reducer_at_abs:
  assumes "heap_wf h"
  shows "map_of (heap_objs (fst (managed_apps_reducer_at h a act)) (snd (managed_apps_reducer_at h a act)))
         = managed_apps_abs (map_of (heap_objs h a)) act"
proof -
  have d: "distinct (map fst (heap_objs h a))" using assms by (simp add: heap_wf_def)
  then show ?thesis
    by (cases act)
       (simp_all add: heap_alloc_def heap_write_def Let_def map_of_rev_distinct
          distinct_obj_set distinct_obj_delete)
qed

text \<open>C26: Saving the installation-path dialog while any app is installed
  (\<open>Object.keys(state.appManagement.apps).length > 0\<close>) writes no preference
  and shows the uninstall-first message box; otherwise it writes
  \<open>requireAdmin\<close> then \<open>installationPath\<close> from the form. Either way it closes
  the dialog.\<close>

theorem set_installation_path_save_guard:
  assumes "js_get st ''dialogSetInstallationPath'' = Some d" and "js_get d ''form'' = Some (JObj f)"
    and "js_get st ''appManagement'' = Some am" and "js_get am ''apps'' = Some (JObj apps)"
  shows "set_installation_path_save st =
     Inr (if apps \<noteq> []
          then \<lparr>dispatched = [DialogSetInstallationPathClose], pref_requests = [],
                message_boxes = [(uninstall_first_title, uninstall_first_message)]\<rparr>
          else \<lparr>dispatched = [DialogSetInstallationPathClose],
                pref_requests = [(''requireAdmin'', map_of f ''requireAdmin''),
                                 (''installationPath'', map_of f ''installationPath'')],
                message_boxes = []\<rparr>)"
  using assms
  by (simp add: set_installation_path_save_def js_member_get [OF assms(1)] js_member_get [OF assms(2)]
        js_member_get [OF assms(3)] js_member_get [OF assms(4)] thunk_defs set_installation_path_close_def)

text \<open>C27: The store's root reducer has no \<open>dialogProxy\<close> slice, so on every
  state of the store the proxy dialog's \<open>save\<close> and \<open>updateForm\<close> thunks throw a
  \<open>TypeError\<close> on \<open>state.dialogProxy.form\<close> before doing anything.\<close>

theorem proxy_thunks_throw_on_store:
  "root_state_wf st \<Longrightarrow>
   proxy_save st = Inl ''TypeError'' \<and> proxy_update_form changes st = Inl ''TypeError''"
proof -
  assume "root_state_wf st"
  then obtain kvs where st: "st = JObj kvs" and keys: "map fst kvs = root_reducer_keys"
    by (cases st) (simp_all add: root_state_wf_def)
  have "''dialogProxy'' \<notin> fst ` set kvs"
    using keys by (simp add: root_reducer_keys_def flip: set_map)
  then have "map_of kvs ''dialogProxy'' = None"
    by (simp add: map_of_eq_None_iff)
  then show ?thesis
    by (simp add: st proxy_save_def proxy_update_form_def)
qed

text \<open>On a state that has a proxy dialog form, \<open>save\<close> writes the four proxy
  preferences (rules, bypass rules, PAC script, type, in that order) exactly when
  validating the form against the rules of its proxy type finds no error, and
  writes nothing otherwise.\<close>

theorem proxy_save_writes_iff_valid:
  assumes "js_get st ''dialogProxy'' = Some (JObj d)" and "map_of d ''form'' = Some (JObj f)"
  shows "\<exists>out. proxy_save st = Inr out \<and>
     pref_requests out =
       (if has_errors (validate f (get_validation_rules (map_of f ''proxyType''))) then []
        else [(''proxyRules'', map_of f ''proxyRules''), (''proxyBypassRules'', map_of f ''proxyBypassRules''),
              (''proxyPacScript'', map_of f ''proxyPacScript''), (''proxyType'', map_of f ''proxyType'')])"
proof -
  have m: "js_member (Some st) k = Inr (js_get st k)" for k
    using js_member_get [OF assms(1)] .
  show ?thesis
    using assms
    by (simp add: proxy_save_def proxy_update_form_def m obj_kvs_def thunk_defs proxy_close_def Let_def)
qed

text \<open>C29: The managed-apps reducer refines the map update it is meant to be:
  the state it returns maps the action's app id to the new entry (set) or to
  nothing (remove), and is otherwise the previous state; it keeps every object
  free of duplicate keys.\<close>

theorem managed_apps_reducer_refines:
  assumes "heap_wf h"
  shows "map_of (heap_objs (fst (managed_apps_reducer h (Some a) act)) (snd (managed_apps_reducer h (Some a) act)))
           = managed_apps_abs (map_of (heap_objs h a)) act \<and>
         heap_wf (fst (managed_apps_reducer h (Some a) act))"
  using managed_apps_reducer_at_abs [OF assms] managed_apps_reducer_at_wf [OF assms]
  by (simp add: managed_apps_reducer_def)

text \<open>C28: The reducer writes into the previous state object: after a set, the
  object of the previous state holds the new entry and reads the same as the
  returned one, and the module's \<open>appsInitialState\<close> is no longer empty once a
  store started from it has set an app.\<close>

theorem managed_apps_reducer_mutates_previous:
  assumes "heap_wf h" and "a < heap_next h"
  shows "heap_objs (fst (managed_apps_reducer h (Some a) (ManagedAppSet i st ap))) a =
           obj_set (heap_objs h a) i \<lparr>ma_status = st, ma_app = ap\<rparr> \<and>
         map_of (heap_objs (fst (managed_apps_reducer h (Some a) (ManagedAppSet i st ap))) a) =
           map_of (heap_objs (fst (managed_apps_reducer h (Some a) (ManagedAppSet i st ap)))
                     (snd (managed_apps_reducer h (Some a) (ManagedAppSet i st ap)))) \<and>
         heap_objs (fst (managed_apps_reducer managed_init_heap None (ManagedAppSet i st ap)))
           apps_initial_state \<noteq> []"
proof -
  have d: "distinct (map fst (heap_objs h a))" using assms(1) by (simp add: heap_wf_def)
  have "distinct (map fst (obj_set (heap_objs h a) i \<lparr>ma_status = st, ma_app = ap\<rparr>))"
    using d by (rule distinct_obj_set)
  then show ?thesis
    using assms(2)
    by (simp add: managed_apps_reducer_def heap_alloc_def heap_write_def map_of_rev_distinct
          managed_init_heap_def apps_initial_state_def)
qed

section \<open>Witnesses\<close>

theorem set_installation_path_save_guard_witness:
  "set_installation_path_save store_state =
     Inr \<lparr>dispatched = [DialogSetInstallationPathClose], pref_requests = [],
          message_boxes = [(uninstall_first_title, uninstall_first_message)]\<rparr>"
  using set_installation_path_save_guard
    [of store_state "store_slice ''dialogSetInstallationPath''"
        "[(''installationPath'', JStr ''~/Applications/WebCatalog Apps''), (''requireAdmin'', JBool False)]"
        "store_slice ''appManagement''" "[(''example-app'', JObj [])]"]
  by (simp add: store_state_def store_slice_def root_reducer_keys_def)

theorem proxy_thunks_throw_on_store_witness:
  "proxy_save store_state = Inl ''TypeError''"
  using proxy_thunks_throw_on_store [of store_state "[]"]
  by (simp add: root_state_wf_def store_state_def comp_def)

theorem proxy_save_writes_iff_valid_witness:
  "\<exists>out. proxy_save proxy_state = Inr out \<and> pref_requests out = []"
  using proxy_save_writes_iff_valid [of proxy_state "[(''form'', JObj proxy_form)]" proxy_form]
  by (simp add: proxy_state_def proxy_form_def has_errors_def validate_def validate_field_def
        get_validation_rules_def obj_spread_def)

theorem managed_apps_reducer_refines_witness:
  "map_of (heap_objs (fst (managed_apps_reducer one_app_heap (Some 0) (ManagedAppSet ''a'' ''INSTALLED'' JNull)))
     (snd (managed_apps_reducer one_app_heap (Some 0) (ManagedAppSet ''a'' ''INSTALLED'' JNull)))) ''a''
   = Some \<lparr>ma_status = ''INSTALLED'', ma_app = JNull\<rparr>"
  using managed_apps_reducer_refines [of one_app_heap 0 "ManagedAppSet ''a'' ''INSTALLED'' JNull"]
  by (simp add: heap_wf_def one_app_heap_def)

theorem managed_apps_reducer_mutates_previous_witness:
  "heap_objs (fst (managed_apps_reducer one_app_heap (Some 0) (ManagedAppSet ''a'' ''INSTALLED'' JNull))) 0
     = [(''a'', \<lparr>ma_status = ''INSTALLED'', ma_app = JNull\<rparr>)]"
  using managed_apps_reducer_mutates_previous [of one_app_heap 0 "''a''" "''INSTALLED''" JNull]
  by (simp add: heap_wf_def one_app_heap_def)

end
