(* ===== verification/OpenApp.thy ===== *)
theory OpenApp
  imports Json
begin

text \<open>
  \<open>openApp(id, name)\<close> of src/main-src/libs/app-management/open-app.js: on
  macOS it opens \<open><installationPath>/<name>.app\<close>, on Linux it shows the
  binary \<open><installationPath>/<name>/<name>\<close> in the file manager, on Windows it
  opens the shortcut \<open><name>.lnk\<close> of the app's folder when it exists and the
  executable \<open><name>.exe\<close> otherwise. On macOS and Linux the first \<open>~\<close> of the
  preference is replaced with the home directory.

  The platform, the preference, the home directory and the file system's
  \<open>existsSync\<close> are parameters; the result is the list of shell calls made.
  \<open>path.join\<close> is Node's: the non-empty parts joined with the platform's
  separator, runs of separators collapsed (and, on Windows, \<open>/\<close> read as
  \<open>\\<close>); \<open>.\<close> and \<open>..\<close> segments, which app names and the installation path
  do not contain, are not resolved here.
\<close>

fun collapse_sep :: "char \<Rightarrow> string \<Rightarrow> string" where
  "collapse_sep c (x # y # xs) =
     (if x = c \<and> y = c then collapse_sep c (y # xs) else x # collapse_sep c (y # xs))"
| "collapse_sep c xs = xs"

definition path_join_with :: "char \<Rightarrow> string list \<Rightarrow> string" where
  "path_join_with sep parts =
     (let j = join_with sep (filter (\<lambda>p. p \<noteq> []) parts)
      in if j = [] then ''.'' else collapse_sep sep j)"

definition path_join_posix :: "string list \<Rightarrow> string" where
  "path_join_posix parts = path_join_with CHR ''/'' parts"

definition path_join_win32 :: "string list \<Rightarrow> string" where
  "path_join_win32 parts =
     path_join_with (CHR 92) (map (map (\<lambda>c. if c = CHR ''/'' then CHR 92 else c)) parts)"

datatype shell_call = OpenPath string | ShowItemInFolder string

text \<open>\<open>getPreference('installationPath').replace('~', app.getPath('home'))\<close>\<close>

definition expand_home :: "string \<Rightarrow> string \<Rightarrow> string" where
  "expand_home installation_path home = replace_first ''~'' home installation_path"

definition open_app ::
  "string \<Rightarrow> string \<Rightarrow> string \<Rightarrow> (string \<Rightarrow> bool) \<Rightarrow> string \<Rightarrow> string \<Rightarrow> shell_call list" where
  "open_app platform installation_path home exists_sync app_id name =
     (if platform = ''darwin'' then
        [OpenPath (path_join_posix [expand_home installation_path home, name @ ''.app''])]
      else if platform = ''linux'' then
        [ShowItemInFolder (path_join_posix [expand_home installation_path home, name, name])]
      else if platform = ''win32'' then
        (let shortcut_path = path_join_win32 [installation_path, name, name @ ''.lnk''] in
         if exists_sync shortcut_path then [OpenPath shortcut_path]
         else [OpenPath (path_join_win32 [installation_path, name, name @ ''.exe''])])
      else [])"

section \<open>Properties\<close>

text \<open>On Windows, \<open>openApp\<close> makes exactly one \<open>openPath\<close> call: the app's
  \<open>.lnk\<close> shortcut when the file exists, its \<open>.exe\<close> otherwise; the
  installation path is used as it is, without expanding \<open>~\<close>.\<close>

theorem open_app_win32:
  "open_app ''win32'' ip home ex app_id name =
     [OpenPath (if ex (path_join_win32 [ip, name, name @ ''.lnk''])
                then path_join_win32 [ip, name, name @ ''.lnk'']
                else path_join_win32 [ip, name, name @ ''.exe''])]"
  by (simp add: open_app_def Let_def)

text \<open>\<open>String.prototype.replace\<close> replaces the first \<open>~\<close> wherever it is: an
  installation path with a \<open>~\<close> inside a folder name is rewritten there.\<close>

theorem open_app_tilde_inside_path:
  "open_app ''darwin'' ''/Volumes/a~b/Apps'' ''/Users/me'' ex app_id ''Mail'' =
     [OpenPath ''/Volumes/a/Users/meb/Apps/Mail.app'']"
  by (simp add: open_app_def expand_home_def path_join_posix_def path_join_with_def)

text \<open>On macOS a preference that starts with \<open>~\<close> is read below the home
  directory.\<close>

theorem open_app_darwin_home:
  "open_app ''darwin'' (CHR ''~'' # rest) home ex app_id name =
     [OpenPath (path_join_posix [home @ rest, name @ ''.app''])]"
  by (simp add: open_app_def expand_home_def)

end
