(* ===== verification/Preferences.thy ===== *)
theory Preferences
  imports Json
begin

text \<open>
  The preferences page, src/src/components/pages/preferences/index.js: the
  helpers \<open>getFileManagerName\<close>, \<open>formatBytes\<close> and \<open>getUpdaterDesc\<close>, the
  sidebar of sections, and every control of the page with what it shows and
  what its handler sends to the main process (\<open>requestSetPreference\<close>,
  \<open>requestSetSystemPreference\<close>, \<open>enqueueRequestRestartSnackbar\<close>, ...) or
  dispatches (the dialogs' \<open>open\<close> actions).

  The page's props (\<open>mapStateToProps\<close>) are the record \<open>pref_props\<close>; a user
  action is a \<open>pref_event\<close>, and \<open>pref_handle\<close> gives the effects of its
  handler, in call order, as \<open>pref_effect\<close> values. A disabled or hidden
  control has no handler to run. Material-UI's \<open>Select\<close> calls \<open>onChange\<close> only
  when the picked value differs from the current one, and runs the picked
  item's own \<open>onClick\<close> first.

  Numbers: \<open>formatBytes\<close> receives byte counts, which are integers.
  \<open>toFixed\<close> rounds the exact quotient \<open>bytes / 1024^i\<close> (a dyadic number, so
  the division is exact) half up, and \<open>parseFloat\<close> then \<open>String\<close> print it
  without trailing zeros; the unit index \<open>Math.floor(Math.log(b) /
  Math.log(1024))\<close> is taken as the exact \<open>floor (log 1024 b)\<close>.
\<close>

section \<open>Helpers\<close>

definition get_file_manager_name :: "string \<Rightarrow> string" where
  "get_file_manager_name platform =
     (if platform = ''darwin'' then ''Finder''
      else if platform = ''win32'' then ''File Explorer''
      else ''file manager'')"

function floor_log :: "nat \<Rightarrow> nat \<Rightarrow> nat" where
  "floor_log k n = (if k \<le> 1 \<or> n < k then 0 else Suc (floor_log k (n div k)))"
  by pat_completeness auto
termination
  by (relation "measure snd") auto

declare floor_log.simps [simp del]

definition strip_trailing_zeros :: "string \<Rightarrow> string" where
  "strip_trailing_zeros s = rev (dropWhile (\<lambda>c. c = CHR ''0'') (rev s))"

text \<open>\<open>String(parseFloat((num / den).toFixed(dm)))\<close> for \<open>num / den < 10^21\<close>.\<close>

definition to_fixed_trimmed :: "nat \<Rightarrow> nat \<Rightarrow> nat \<Rightarrow> string" where
  "to_fixed_trimmed num den dm =
     (let q = 10 ^ dm;
          n = (2 * num * q + den) div (2 * den);
          ds = nat_to_digits (n mod q);
          frac = strip_trailing_zeros (replicate (dm - length ds) CHR ''0'' @ ds)
      in nat_to_digits (n div q) @ (if n mod q = 0 then [] else CHR ''.'' # frac))"

definition byte_sizes :: "string list" where
  "byte_sizes = [''Bytes'', ''KB'', ''MB'', ''GB'', ''TB'', ''PB'', ''EB'', ''ZB'', ''YB'']"

text \<open>A negative count has no logarithm: \<open>Math.log\<close> gives \<open>NaN\<close>, printed
  \<open>NaN\<close>, and \<open>sizes[NaN]\<close> is \<open>undefined\<close>.\<close>

definition format_bytes :: "int \<Rightarrow> int \<Rightarrow> string" where
  "format_bytes bytes decimals =
     (if bytes = 0 then ''0 Bytes''
      else if bytes < 0 then ''NaN undefined''
      else
        let k = 1024;
            dm = nat (max 0 decimals);
            b = nat bytes;
            i = floor_log k b
        in to_fixed_trimmed b (k ^ i) dm @ CHR '' '' #
           (if i < length byte_sizes then byte_sizes ! i else ''undefined''))"

text \<open>\<open>formatBytes(x)\<close> of a field destructured from the updater's info:
  \<open>undefined\<close>, \<open>null\<close> and \<open>false\<close> give \<open>NaN undefined\<close>, \<open>true\<close> is 1;
  strings and arrays, which the updater never sends, are read as \<open>NaN\<close>.\<close>

fun format_bytes_value :: "json option \<Rightarrow> string" where
  "format_bytes_value (Some (JNum n)) = format_bytes n 2"
| "format_bytes_value (Some (JBool True)) = format_bytes 1 2"
| "format_bytes_value _ = ''NaN undefined''"

text \<open>\<open>getUpdaterDesc(status, info)\<close>; \<open>None\<close> is \<open>null\<close>.\<close>

definition get_updater_desc :: "string option \<Rightarrow> json option \<Rightarrow> string option" where
  "get_updater_desc status info =
     (if status = Some ''download-progress'' then
        (if info \<noteq> None \<and> info \<noteq> Some JNull then
           (let v = the info in
            Some (''Downloading updates ('' @ format_bytes_value (js_get v ''transferred'') @ ''/'' @
                  format_bytes_value (js_get v ''total'') @ '' at '' @
                  format_bytes_value (js_get v ''bytesPerSecond'') @ ''/s)...''))
         else Some ''Downloading updates...'')
      else if status = Some ''checking-for-update'' then Some ''Checking for updates...''
      else if status = Some ''update-available'' then Some ''Downloading updates...''
      else if status = Some ''update-downloaded'' then
        (if truthy info \<and> truthy (js_get (the info) ''version'')
         then Some (''A new version ('' @ js_opt_to_string (js_get (the info) ''version'') @
                    '') has been downloaded.'')
         else Some ''A new version has been downloaded.'')
      else None)"

section \<open>Sections and the sidebar\<close>

definition pref_sections :: "(string \<times> string) list" where
  "pref_sections =
     [(''licensing'', ''Licensing''), (''general'', ''General''),
      (''appManagement'', ''App Management''), (''privacy'', ''Privacy & Security''),
      (''advanced'', ''Advanced''), (''updates'', ''Updates''), (''reset'', ''Reset''),
      (''miscs'', ''Miscellaneous'')]"

text \<open>\<open>Object.keys(sections).map((sectionKey, i) => ...)\<close>: no section is
  hidden; a divider precedes every entry but the first.\<close>

definition sidebar_entries :: "(string \<times> string \<times> bool) list" where
  "sidebar_entries = map (\<lambda>(i, (k, t)). (k, t, 0 < i)) (enumerate 0 pref_sections)"

section \<open>Props, effects and controls\<close>

record pref_props =
  pp_platform :: string
  pp_home :: string
  pp_allow_prerelease :: bool
  pp_always_on_top :: bool
  pp_app_count :: nat
  pp_attach_to_menubar :: bool
  pp_create_desktop_shortcut :: bool
  pp_create_start_menu_shortcut :: bool
  pp_default_home :: string
  pp_installation_path :: string
  pp_installing_app_count :: nat
  pp_open_at_login :: string
  pp_require_admin :: bool
  pp_sentry :: bool
  pp_telemetry :: bool
  pp_theme_source :: string
  pp_tray_icon :: bool
  pp_updater_info :: "json option"
  pp_updater_status :: "string option"
  pp_use_hardware_acceleration :: bool
  pp_use_system_title_bar :: bool

datatype pref_effect =
    SetPreference string "json option"
  | SetSystemPreference string string
  | EnqueueRestartSnackbar
  | CheckForUpdates bool
  | OpenInBrowser string
  | OpenInstallLocation
  | RequestQuit
  | ResetPreferences
  | ShowMessageBox string string
  | ShowConfirm string
  | ListenOnceSetPreferences
  | OpenDialog string
  | ScrollIntoView string

datatype pref_switch =
    TrayIconSwitch | AttachToMenubarSwitch | DesktopShortcutSwitch | StartMenuShortcutSwitch
  | SentrySwitch | TelemetrySwitch | AlwaysOnTopSwitch | SystemTitleBarSwitch
  | HardwareAccelerationSwitch | AllowPrereleaseSwitch

subsection \<open>General\<close>

definition tray_icon_label :: "string \<Rightarrow> string" where
  "tray_icon_label platform =
     (if platform = ''darwin'' then ''Show menu bar icon'' else ''Show tray (notification area) icon'')"

definition attach_to_menubar_label :: "string \<Rightarrow> string" where
  "attach_to_menubar_label platform =
     (if platform = ''darwin'' then ''Attach window to menu bar''
      else ''Pin window to system tray (notification area)'')"

text \<open>The \<open>checked\<close> and \<open>disabled\<close> props of each switch.\<close>

fun switch_checked :: "pref_props \<Rightarrow> pref_switch \<Rightarrow> bool" where
  "switch_checked p TrayIconSwitch = (pp_tray_icon p \<or> pp_attach_to_menubar p)"
| "switch_checked p AttachToMenubarSwitch = pp_attach_to_menubar p"
| "switch_checked p DesktopShortcutSwitch = pp_create_desktop_shortcut p"
| "switch_checked p StartMenuShortcutSwitch = pp_create_start_menu_shortcut p"
| "switch_checked p SentrySwitch = pp_sentry p"
| "switch_checked p TelemetrySwitch = pp_telemetry p"
| "switch_checked p AlwaysOnTopSwitch = pp_always_on_top p"
| "switch_checked p SystemTitleBarSwitch = pp_use_system_title_bar p"
| "switch_checked p HardwareAccelerationSwitch = pp_use_hardware_acceleration p"
| "switch_checked p AllowPrereleaseSwitch = pp_allow_prerelease p"

fun switch_disabled :: "pref_props \<Rightarrow> pref_switch \<Rightarrow> bool" where
  "switch_disabled p TrayIconSwitch = pp_attach_to_menubar p"
| "switch_disabled p _ = False"

text \<open>The shortcut switches exist on Windows only, the title-bar switch
  everywhere but macOS.\<close>

fun switch_visible :: "string \<Rightarrow> pref_switch \<Rightarrow> bool" where
  "switch_visible platform DesktopShortcutSwitch = (platform = ''win32'')"
| "switch_visible platform StartMenuShortcutSwitch = (platform = ''win32'')"
| "switch_visible platform SystemTitleBarSwitch = (platform \<noteq> ''darwin'')"
| "switch_visible platform _ = True"

text \<open>The \<open>onChange\<close> of each switch, with \<open>e.target.checked\<close>.\<close>

fun switch_on_change :: "pref_switch \<Rightarrow> bool \<Rightarrow> pref_effect list" where
  "switch_on_change TrayIconSwitch c =
     [SetPreference ''trayIcon'' (Some (JBool c)), EnqueueRestartSnackbar]"
| "switch_on_change AttachToMenubarSwitch c =
     [SetPreference ''attachToMenubar'' (Some (JBool c)), EnqueueRestartSnackbar]"
| "switch_on_change DesktopShortcutSwitch c =
     [SetPreference ''createDesktopShortcut'' (Some (JBool c))]"
| "switch_on_change StartMenuShortcutSwitch c =
     [SetPreference ''createStartMenuShortcut'' (Some (JBool c))]"
| "switch_on_change SentrySwitch c = [SetPreference ''sentry'' (Some (JBool c))]"
| "switch_on_change TelemetrySwitch c =
     [SetPreference ''telemetry'' (Some (JBool c)), EnqueueRestartSnackbar]"
| "switch_on_change AlwaysOnTopSwitch c =
     [SetPreference ''alwaysOnTop'' (Some (JBool c)), EnqueueRestartSnackbar]"
| "switch_on_change SystemTitleBarSwitch c =
     [SetPreference ''useSystemTitleBar'' (Some (JBool c)), EnqueueRestartSnackbar]"
| "switch_on_change HardwareAccelerationSwitch c =
     [SetPreference ''useHardwareAcceleration'' (Some (JBool c)), EnqueueRestartSnackbar]"
| "switch_on_change AllowPrereleaseSwitch c =
     [SetPreference ''allowPrerelease'' (Some (JBool c)), EnqueueRestartSnackbar]"

datatype pref_select = ThemeSelect | DefaultHomeSelect | OpenAtLoginSelect

text \<open>The menu items of a select, as (value, label).\<close>

fun select_options :: "string \<Rightarrow> pref_select \<Rightarrow> (string \<times> string) list" where
  "select_options platform ThemeSelect =
     [(''system'', ''System default''), (''light'', ''Light''), (''dark'', ''Dark'')]"
| "select_options platform DefaultHomeSelect =
     [(''home'', ''Catalog''), (''spaces'', ''Spaces''), (''installed'', ''Installed''),
      (''preferences'', ''Settings'')]"
| "select_options platform OpenAtLoginSelect =
     [(''yes'', ''Yes'')] @ (if platform \<noteq> ''win32'' then [(''yes-hidden'', ''Yes, but minimized'')] else []) @
     [(''no'', ''No'')]"

fun select_value :: "pref_props \<Rightarrow> pref_select \<Rightarrow> string" where
  "select_value p ThemeSelect = pp_theme_source p"
| "select_value p DefaultHomeSelect = pp_default_home p"
| "select_value p OpenAtLoginSelect = pp_open_at_login p"

fun select_on_change :: "pref_select \<Rightarrow> string \<Rightarrow> pref_effect list" where
  "select_on_change ThemeSelect v = [SetPreference ''themeSource'' (Some (JStr v))]"
| "select_on_change DefaultHomeSelect v = [SetPreference ''defaultHome'' (Some (JStr v))]"
| "select_on_change OpenAtLoginSelect v = [SetSystemPreference ''openAtLogin'' v]"

subsection \<open>App Management\<close>

definition mac_default_path :: string where
  "mac_default_path = ''~/Applications/WebCatalog Apps''"

definition mac_sudo_path :: string where
  "mac_sudo_path = ''/Applications/WebCatalog Apps''"

definition linux_default_path :: string where
  "linux_default_path = ''~/.webcatalog''"

definition win_default_path :: "string \<Rightarrow> string" where
  "win_default_path home = home @ CHR 92 # ''WebCatalog Apps''"

text \<open>\<open>renderValue\<close> of the installation-path select.\<close>

definition installation_path_render :: "pref_props \<Rightarrow> string" where
  "installation_path_render p =
     pp_installation_path p @ CHR '' '' #
       (if pp_require_admin p \<and> pp_installation_path p \<noteq> mac_default_path
           \<and> pp_installation_path p \<noteq> mac_sudo_path
        then ''(require sudo)'' else [])"

definition path_choice :: "string \<Rightarrow> bool \<Rightarrow> json" where
  "path_choice path require_admin =
     JObj [(''installationPath'', JStr path), (''requireAdmin'', JBool require_admin)]"

text \<open>The menu items of the installation-path select, as (label, value, whether
  the item has its own \<open>onClick\<close>). The current path is listed first, without
  a usable value, unless it is one of the platform's defaults; on Linux its
  item has no \<open>value\<close> at all.\<close>

definition installation_path_items :: "string \<Rightarrow> string \<Rightarrow> string \<Rightarrow> (string \<times> json option \<times> bool) list" where
  "installation_path_items platform home ip =
     (if platform = ''win32'' then
        (if ip \<noteq> win_default_path home then [(ip, Some JNull, False)] else []) @
        [(win_default_path home, Some (path_choice (win_default_path home) False), False)]
      else []) @
     (if platform = ''darwin'' then
        (if ip \<noteq> mac_default_path \<and> ip \<noteq> mac_sudo_path then [(ip, Some JNull, False)] else []) @
        [(mac_default_path @ '' (default)'', Some (path_choice mac_default_path False), False),
         (mac_sudo_path, Some (path_choice mac_sudo_path True), False)]
      else []) @
     (if platform = ''linux'' then
        (if ip \<noteq> linux_default_path then [(ip, None, False)] else []) @
        [(linux_default_path @ '' (default)'', Some (path_choice linux_default_path False), False)]
      else []) @
     [(''Custom'', None, True)]"

definition uninstall_first :: "string \<times> string" where
  "uninstall_first =
     (''Uninstall all of WebCatalog apps first'',
      ''You need to uninstall all of your WebCatalog apps before changing this preference.'')"

text \<open>The select's \<open>onChange\<close>, with \<open>e.target.value\<close>.\<close>

definition installation_path_on_change :: "pref_props \<Rightarrow> json option \<Rightarrow> pref_effect list" where
  "installation_path_on_change p val =
     (if val = None \<or> val = Some JNull then []
      else if 0 < pp_app_count p then [ShowMessageBox (fst uninstall_first) (snd uninstall_first)]
      else [SetPreference ''requireAdmin'' (js_get (the val) ''requireAdmin''),
            SetPreference ''installationPath'' (js_get (the val) ''installationPath'')])"

definition open_install_location_label :: "string \<Rightarrow> string" where
  "open_install_location_label platform = ''Open installation path in '' @ get_file_manager_name platform"

subsection \<open>Updates, Reset, Miscellaneous\<close>

definition updates_item_disabled :: "pref_props \<Rightarrow> bool" where
  "updates_item_disabled p =
     (pp_updater_status p = Some ''checking-for-update''
      \<or> pp_updater_status p = Some ''download-progress''
      \<or> pp_updater_status p = Some ''download-progress''
      \<or> pp_updater_status p = Some ''update-available'')"

definition updates_item_label :: "pref_props \<Rightarrow> string" where
  "updates_item_label p =
     (if pp_updater_status p = Some ''update-downloaded'' then ''Restart to Apply Updates''
      else ''Check for Updates'')"

definition reset_message :: string where
  "reset_message = ''Are you sure? All preferences will be restored to their original defaults. Browsing data won't be affected. This action cannot be undone.''"

datatype pref_button =
    OpenInstallLocationItem | BackupRestoreItem | PrivacyPolicyItem | CheckForUpdatesItem
  | ResetItem | AboutItem | WebsiteItem | HelpItem | OpenSourceNoticesItem | TwitterItem
  | LinkedInItem | GitHubItem | QuitItem

fun button_on_click :: "pref_button \<Rightarrow> pref_effect list" where
  "button_on_click OpenInstallLocationItem = [OpenInstallLocation]"
| "button_on_click BackupRestoreItem = [OpenDialog ''backupRestore'']"
| "button_on_click PrivacyPolicyItem =
     [OpenInBrowser ''https://webcatalog.io/privacy/?utm_source=webcatalog_app'']"
| "button_on_click CheckForUpdatesItem = [CheckForUpdates False]"
| "button_on_click ResetItem = [ShowConfirm reset_message]"
| "button_on_click AboutItem = [OpenDialog ''about'']"
| "button_on_click WebsiteItem =
     [OpenInBrowser ''https://webcatalog.io/webcatalog-classic/?utm_source=webcatalog_app'']"
| "button_on_click HelpItem = [OpenInBrowser ''https://docs.webcatalog.io?utm_source=webcatalog_app'']"
| "button_on_click OpenSourceNoticesItem = [OpenDialog ''openSourceNotices'']"
| "button_on_click TwitterItem = [OpenInBrowser ''https://twitter.com/webcatalog_app'']"
| "button_on_click LinkedInItem = [OpenInBrowser ''https://www.linkedin.com/company/webcatalogapp'']"
| "button_on_click GitHubItem = [OpenInBrowser ''https://github.com/webcatalog'']"
| "button_on_click QuitItem = [RequestQuit]"

section \<open>The page's handlers\<close>

text \<open>The confirmations of the reset prompt not yet answered, and the
  \<open>ipcRenderer.once('set-preferences', ...)\<close> listeners not yet run.\<close>

record pref_page_state =
  pending_confirms :: nat
  once_listeners :: nat

datatype pref_event =
    ToggleSwitch pref_switch bool
  | PickSelect pref_select string
  | PickInstallationPath nat
  | ClickButton pref_button
  | ResetAnswer nat
  | SetPreferencesReply
  | ClickSidebar string

fun pref_handle :: "pref_props \<Rightarrow> pref_page_state \<Rightarrow> pref_event \<Rightarrow> pref_page_state \<times> pref_effect list" where
  "pref_handle p st (ToggleSwitch sw c) =
     (st, if switch_visible (pp_platform p) sw \<and> \<not> switch_disabled p sw then switch_on_change sw c else [])"
| "pref_handle p st (PickSelect sel v) =
     (st, if v \<in> fst ` set (select_options (pp_platform p) sel) \<and> v \<noteq> select_value p sel
          then select_on_change sel v else [])"
| "pref_handle p st (PickInstallationPath i) =
     (let items = installation_path_items (pp_platform p) (pp_home p) (pp_installation_path p) in
      (st, if 0 < pp_installing_app_count p \<or> length items \<le> i then []
           else (if snd (snd (items ! i)) then [OpenDialog ''setInstallationPath''] else []) @
                installation_path_on_change p (fst (snd (items ! i)))))"
| "pref_handle p st (ClickButton b) =
     (if b = CheckForUpdatesItem \<and> updates_item_disabled p then (st, [])
      else if b = ResetItem then (st\<lparr>pending_confirms := Suc (pending_confirms st)\<rparr>, button_on_click b)
      else (st, button_on_click b))"
| "pref_handle p st (ResetAnswer r) =
     (if pending_confirms st = 0 then (st, [])
      else if r = 0 then
        (st\<lparr>pending_confirms := pending_confirms st - 1, once_listeners := Suc (once_listeners st)\<rparr>,
         [ListenOnceSetPreferences, ResetPreferences])
      else (st\<lparr>pending_confirms := pending_confirms st - 1\<rparr>, []))"
| "pref_handle p st SetPreferencesReply =
     (st\<lparr>once_listeners := 0\<rparr>, replicate (once_listeners st) EnqueueRestartSnackbar)"
| "pref_handle p st (ClickSidebar k) =
     (st, if k \<in> fst ` set pref_sections then [ScrollIntoView k] else [])"

section \<open>Concrete props\<close>

text \<open>A macOS page with two apps installed, the window attached to the menu
  bar and a downloaded update.\<close>

definition example_props :: pref_props where
  "example_props =
     \<lparr>pp_platform = ''darwin'', pp_home = ''/Users/me'', pp_allow_prerelease = False,
      pp_always_on_top = False, pp_app_count = 2, pp_attach_to_menubar = True,
      pp_create_desktop_shortcut = False, pp_create_start_menu_shortcut = False,
      pp_default_home = ''home'', pp_installation_path = ''~/Applications/WebCatalog Apps'',
      pp_installing_app_count = 0, pp_open_at_login = ''no'', pp_require_admin = False,
      pp_sentry = True, pp_telemetry = False, pp_theme_source = ''system'', pp_tray_icon = False,
      pp_updater_info = Some (JObj [(''version'', JStr ''35.0.0'')]),
      pp_updater_status = Some ''update-downloaded'',
      pp_use_hardware_acceleration = True, pp_use_system_title_bar = False\<rparr>"

definition no_pending :: pref_page_state where
  "no_pending = \<lparr>pending_confirms = 0, once_listeners = 0\<rparr>"

section \<open>Properties\<close>

lemmas format_bytes_eval_defs = to_fixed_trimmed_def strip_trailing_zeros_def nat_to_digits.simps
  floor_log.simps

lemma floor_log_bounds:
  "1 < k \<Longrightarrow> 0 < n \<Longrightarrow> k ^ floor_log k n \<le> n \<and> n < k ^ Suc (floor_log k n)"
proof (induction k n rule: floor_log.induct)
  case (1 k n)
  show ?case
  proof (cases "n < k")
    case True
    then show ?thesis using "1.prems" by (simp add: floor_log.simps)
  next
    case False
    define m where "m = n div k"
    define i where "i = floor_log k m"
    have fl: "floor_log k n = Suc i"
      using False "1.prems" by (simp add: i_def m_def floor_log.simps)
    have "0 < m" using False "1.prems" by (simp add: m_def div_greater_zero_iff)
    with "1.IH" False "1.prems" have ih: "k ^ i \<le> m \<and> m < k ^ Suc i"
      by (simp add: i_def m_def)
    have lo: "m * k \<le> n" unfolding m_def by (rule div_times_less_eq_dividend)
    have hi: "n < k + k * m"
      unfolding m_def using "1.prems" by (simp add: dividend_less_times_div)
    have "k ^ Suc i = k * k ^ i" by simp
    also have "\<dots> \<le> k * m" using ih by simp
    also have "\<dots> \<le> n" using lo by (simp add: mult.commute)
    finally have "k ^ Suc i \<le> n" .
    moreover have "n < k * k ^ Suc i"
    proof -
      have "Suc m \<le> k ^ Suc i" using ih by simp
      then have le: "k * Suc m \<le> k * k ^ Suc i" by (rule mult_le_mono2)
      have "k + k * m = k * Suc m" by simp
      with hi le show ?thesis by linarith
    qed
    ultimately show ?thesis by (simp only: fl power_Suc [of k "Suc i"] simp_thms)
  qed
qed

lemma to_fixed_trimmed_2:
  "to_fixed_trimmed num den 2 =
     nat_to_digits ((2 * num * 100 + den) div (2 * den) div 100) @
       (if (2 * num * 100 + den) div (2 * den) mod 100 = 0 then []
        else CHR ''.'' # strip_trailing_zeros
               (replicate (2 - length (nat_to_digits ((2 * num * 100 + den) div (2 * den) mod 100))) CHR ''0''
                @ nat_to_digits ((2 * num * 100 + den) div (2 * den) mod 100)))"
  by (simp add: to_fixed_trimmed_def Let_def)

text \<open>Rounding a quotient in \<open>[1, 1024)\<close> to hundredths gives a number of
  hundredths in \<open>[100, 102400]\<close>.\<close>

lemma hundredths_bounds:
  fixes p b :: nat
  assumes "0 < p" and "p \<le> b" and "b < 1024 * p"
  shows "100 \<le> (2 * b * 100 + p) div (2 * p) \<and> (2 * b * 100 + p) div (2 * p) \<le> 102400"
proof
  have "100 * (2 * p) \<le> 2 * b * 100 + p" using assms(2) by simp
  then have "100 * (2 * p) div (2 * p) \<le> (2 * b * 100 + p) div (2 * p)"
    by (rule div_le_mono)
  then show "100 \<le> (2 * b * 100 + p) div (2 * p)"
    using assms(1) by simp
next
  have "2 * b * 100 + p < 102401 * (2 * p)" using assms(3) by simp
  then have "(2 * b * 100 + p) div (2 * p) < 102401"
    by (rule less_mult_imp_div_less)
  then show "(2 * b * 100 + p) div (2 * p) \<le> 102400" by simp
qed


text \<open>While the window is attached to the menu bar, the tray-icon switch is
  shown checked and is disabled: toggling it does nothing.\<close>

theorem tray_switch_locked:
  "pp_attach_to_menubar p \<Longrightarrow>
   switch_checked p TrayIconSwitch \<and> pref_handle p st (ToggleSwitch TrayIconSwitch c) = (st, [])"
  by simp

text \<open>\<open>formatBytes(1048575)\<close> is \<open>1024 KB\<close>, not \<open>1 MB\<close>.\<close>

theorem format_bytes_1024_kb: "format_bytes 1048575 2 = ''1024 KB''"
  by (simp add: format_bytes_def Let_def byte_sizes_def floor_log.simps, simp add: format_bytes_eval_defs)

text \<open>Once an update is downloaded, the updates item reads \<open>Restart to Apply
  Updates\<close>, but clicking it requests another check for updates.\<close>

theorem restart_item_requests_check:
  "pp_updater_status p = Some ''update-downloaded'' \<Longrightarrow>
   updates_item_label p = ''Restart to Apply Updates'' \<and>
   pref_handle p st (ClickButton CheckForUpdatesItem) = (st, [CheckForUpdates False])"
  by (simp add: updates_item_label_def updates_item_disabled_def)

section \<open>Witnesses\<close>


theorem tray_switch_locked_witness:
  "pp_attach_to_menubar example_props \<and>
   pref_handle example_props no_pending (ToggleSwitch TrayIconSwitch False) = (no_pending, [])"
  using tray_switch_locked [of example_props no_pending False] by (simp add: example_props_def)

theorem restart_item_requests_check_witness:
  "pref_handle example_props no_pending (ClickButton CheckForUpdatesItem) = (no_pending, [CheckForUpdates False])"
  using restart_item_requests_check [of example_props no_pending] by (simp add: example_props_def)

end
