(* ===== verification/JsonParse.thy ===== *)
theory JsonParse
  imports Json
begin

text \<open>
  \<open>JSON.parse\<close>, as the renderer's readers of the files this program writes use
  it (the backup file of the backup dialog is read back by the restore
  dialog). The reader works on the JSON values of \<open>Json\<close>: integers and 8-bit
  characters. A number written with a fraction or an exponent, or a \<open>\u\<close>
  escape above 255, is \<open>OutOfModel\<close>; any other malformed text is the
  \<open>SyntaxError\<close> that \<open>JSON.parse\<close> throws. An object's members are assigned
  in order (\<open>obj[k] = v\<close>), so a repeated key keeps its first place and its
  last value, as in \<open>JSON.parse\<close>.

  Containers nest, so the reader is three mutually recursive functions over a
  fuel bound; \<open>json_parse\<close> gives them \<open>2 * length s + 1\<close>, which the lemmas
  show is never exhausted: the fuel is a proof device, and \<open>OutOfFuel\<close> never
  comes out of \<open>json_parse\<close>.
\<close>

datatype parse_error = SyntaxError | OutOfModel | OutOfFuel

section \<open>Scanners\<close>

definition is_json_ws :: "char \<Rightarrow> bool" where
  "is_json_ws c \<longleftrightarrow> c = CHR '' '' \<or> c = CHR 0x09 \<or> c = CHR 0x0A \<or> c = CHR 0x0D"

definition skip_ws :: "string \<Rightarrow> string" where
  "skip_ws s = dropWhile is_json_ws s"

definition hex_value :: "char \<Rightarrow> nat option" where
  "hex_value c =
     (if is_digit c then Some (digit_value c)
      else if CHR ''a'' \<le> c \<and> c \<le> CHR ''f'' then Some (of_char c - 87)
      else if CHR ''A'' \<le> c \<and> c \<le> CHR ''F'' then Some (of_char c - 55)
      else None)"

definition hex4_value :: "string \<Rightarrow> nat" where
  "hex4_value s = foldl (\<lambda>acc c. 16 * acc + the (hex_value c)) 0 s"

text \<open>The one-character escapes \<open>\" \\ \/ \b \f \n \r \t\<close>.\<close>

definition escape_char :: "char \<Rightarrow> char option" where
  "escape_char e =
     (if e = CHR ''\"'' then Some (CHR ''\"'')
      else if e = CHR 0x5C then Some (CHR 0x5C)
      else if e = CHR ''/'' then Some (CHR ''/'')
      else if e = CHR ''b'' then Some (CHR 0x08)
      else if e = CHR ''f'' then Some (CHR 0x0C)
      else if e = CHR ''n'' then Some (CHR 0x0A)
      else if e = CHR ''r'' then Some (CHR 0x0D)
      else if e = CHR ''t'' then Some (CHR 0x09)
      else None)"

text \<open>The characters of a string literal after its opening quote, up to and
  including the closing one; \<open>acc\<close> holds the characters read, last first.\<close>

fun parse_string :: "string \<Rightarrow> string \<Rightarrow> parse_error + (string \<times> string)" where
  "parse_string [] acc = Inl SyntaxError"
| "parse_string (c # r) acc =
     (if c = CHR ''\"'' then Inr (rev acc, r)
      else if c = CHR 0x5C then
        (case r of
           [] \<Rightarrow> Inl SyntaxError
         | e # r' \<Rightarrow>
             if e = CHR ''u'' then
               (if 4 \<le> length r' \<and> list_all (\<lambda>h. hex_value h \<noteq> None) (take 4 r')
                then (if hex4_value (take 4 r') < 256
                      then parse_string (drop 4 r') (char_of (hex4_value (take 4 r')) # acc)
                      else Inl OutOfModel)
                else Inl SyntaxError)
             else (case escape_char e of
                     None \<Rightarrow> Inl SyntaxError
                   | Some d \<Rightarrow> parse_string r' (d # acc)))
      else if of_char c < (32::nat) then Inl SyntaxError
      else parse_string r (c # acc))"

text \<open>A number: an optional minus, then \<open>0\<close> or digits not starting with \<open>0\<close>.\<close>

definition parse_number :: "string \<Rightarrow> parse_error + (json \<times> string)" where
  "parse_number s =
     (let neg = (s \<noteq> [] \<and> hd s = CHR ''-'');
          s1 = (if neg then tl s else s);
          ds = takeWhile is_digit s1;
          r = dropWhile is_digit s1
      in if ds = [] then Inl SyntaxError
         else if hd ds = CHR ''0'' \<and> 1 < length ds then Inl SyntaxError
         else if r \<noteq> [] \<and> (hd r = CHR ''.'' \<or> hd r = CHR ''e'' \<or> hd r = CHR ''E'') then Inl OutOfModel
         else Inr (JNum (if neg then - int (digits_to_nat ds) else int (digits_to_nat ds)), r))"

definition parse_literal :: "string \<Rightarrow> parse_error + (json \<times> string)" where
  "parse_literal s =
     (if take 4 s = ''null'' then Inr (JNull, drop 4 s)
      else if take 4 s = ''true'' then Inr (JBool True, drop 4 s)
      else if take 5 s = ''false'' then Inr (JBool False, drop 5 s)
      else Inl SyntaxError)"

section \<open>Values\<close>

text \<open>\<open>parse_elems\<close> reads the elements of an array after its \<open>[\<close>,
  \<open>parse_members\<close> the members of an object after its \<open>{\<close>.\<close>

fun parse_value :: "nat \<Rightarrow> string \<Rightarrow> parse_error + (json \<times> string)"
and parse_elems :: "nat \<Rightarrow> string \<Rightarrow> json list \<Rightarrow> parse_error + (json \<times> string)"
and parse_members :: "nat \<Rightarrow> string \<Rightarrow> (string \<times> json) list \<Rightarrow> parse_error + (json \<times> string)" where
  "parse_value 0 s = Inl OutOfFuel"
| "parse_value (Suc n) s =
     (case skip_ws s of
        [] \<Rightarrow> Inl SyntaxError
      | c # r \<Rightarrow>
          if c = CHR ''['' then
            (if skip_ws r \<noteq> [] \<and> hd (skip_ws r) = CHR '']'' then Inr (JArr [], tl (skip_ws r))
             else parse_elems n r [])
          else if c = CHR ''{'' then
            (if skip_ws r \<noteq> [] \<and> hd (skip_ws r) = CHR ''}'' then Inr (JObj [], tl (skip_ws r))
             else parse_members n r [])
          else if c = CHR ''\"'' then
            (case parse_string r [] of Inl e \<Rightarrow> Inl e | Inr (str, r') \<Rightarrow> Inr (JStr str, r'))
          else if c = CHR ''-'' \<or> is_digit c then parse_number (c # r)
          else parse_literal (c # r))"
| "parse_elems 0 s acc = Inl OutOfFuel"
| "parse_elems (Suc n) s acc =
     (case parse_value n s of
        Inl e \<Rightarrow> Inl e
      | Inr (v, r) \<Rightarrow>
          (case skip_ws r of
             [] \<Rightarrow> Inl SyntaxError
           | c # r' \<Rightarrow>
               if c = CHR '','' then parse_elems n r' (acc @ [v])
               else if c = CHR '']'' then Inr (JArr (acc @ [v]), r')
               else Inl SyntaxError))"
| "parse_members 0 s acc = Inl OutOfFuel"
| "parse_members (Suc n) s acc =
     (case skip_ws s of
        [] \<Rightarrow> Inl SyntaxError
      | c # r \<Rightarrow>
          if c \<noteq> CHR ''\"'' then Inl SyntaxError
          else (case parse_string r [] of
                  Inl e \<Rightarrow> Inl e
                | Inr (k, r1) \<Rightarrow>
                    (case skip_ws r1 of
                       [] \<Rightarrow> Inl SyntaxError
                     | d # r2 \<Rightarrow>
                         if d \<noteq> CHR '':'' then Inl SyntaxError
                         else (case parse_value n r2 of
                                 Inl e \<Rightarrow> Inl e
                               | Inr (v, r3) \<Rightarrow>
                                   (case skip_ws r3 of
                                      [] \<Rightarrow> Inl SyntaxError
                                    | e # r4 \<Rightarrow>
                                        if e = CHR '','' then parse_members n r4 (obj_set acc k v)
                                        else if e = CHR ''}'' then Inr (JObj (obj_set acc k v), r4)
                                        else Inl SyntaxError)))))"

definition json_parse :: "string \<Rightarrow> parse_error + json" where
  "json_parse s =
     (case parse_value (Suc (2 * length s)) s of
        Inl e \<Rightarrow> Inl e
      | Inr (v, r) \<Rightarrow> if skip_ws r = [] then Inr v else Inl SyntaxError)"

text \<open>What may follow a value inside the text \<open>JSON.stringify\<close> writes.\<close>

definition value_end :: "string \<Rightarrow> bool" where
  "value_end r \<longleftrightarrow> r = [] \<or> hd r = CHR '','' \<or> hd r = CHR '']'' \<or> hd r = CHR ''}''"

text \<open>The values \<open>JSON.stringify\<close> writes and reads back: object keys are
  distinct at every level (a JavaScript object cannot hold a key twice).\<close>

fun json_wf :: "json \<Rightarrow> bool" where
  "json_wf (JArr xs) = list_all json_wf xs"
| "json_wf (JObj kvs) = (distinct (map fst kvs) \<and> list_all (\<lambda>kv. json_wf (snd kv)) kvs)"
| "json_wf _ = True"

text \<open>The fuel reading a value takes: one unit per container and per element.\<close>

fun json_need :: "json \<Rightarrow> nat" where
  "json_need (JArr xs) = Suc (sum_list (map (\<lambda>x. Suc (json_need x)) xs))"
| "json_need (JObj kvs) = Suc (sum_list (map (\<lambda>kv. Suc (json_need (snd kv))) kvs))"
| "json_need _ = 1"

section \<open>The reader consumes its input\<close>

lemma length_skip_ws: "length (skip_ws s) \<le> length s"
  by (simp add: skip_ws_def length_dropWhile_le)

lemma skip_ws_Cons_len: "skip_ws s = c # r \<Longrightarrow> length r < length s"
  using length_skip_ws [of s] by simp

lemma parse_string_progress:
  "parse_string s acc = Inr (str, r) \<Longrightarrow> length r < length s"
  apply (induction s acc rule: parse_string.induct)
   apply simp
  apply (simp split: if_splits list.splits option.splits)
  apply fastforce
  done

lemma parse_number_progress:
  assumes "parse_number s = Inr (v, r)"
  shows "length r < length s"
proof -
  let ?neg = "s \<noteq> [] \<and> hd s = CHR ''-''"
  let ?s1 = "if ?neg then tl s else s"
  have ds: "takeWhile is_digit ?s1 \<noteq> []" and r: "r = dropWhile is_digit ?s1"
    using assms by (auto simp: parse_number_def Let_def split: if_splits)
  have "length (takeWhile is_digit ?s1) + length (dropWhile is_digit ?s1) = length ?s1"
    by (metis length_append takeWhile_dropWhile_id)
  with ds have "length (dropWhile is_digit ?s1) < length ?s1" by (cases "takeWhile is_digit ?s1") auto
  moreover have "length ?s1 \<le> length s" by simp
  ultimately show ?thesis unfolding r by linarith
qed

lemma parse_literal_progress:
  "parse_literal s = Inr (v, r) \<Longrightarrow> length r < length s"
proof -
  assume a: "parse_literal s = Inr (v, r)"
  have "4 \<le> length s \<and> r = drop 4 s \<or> 5 \<le> length s \<and> r = drop 5 s"
    using a unfolding parse_literal_def
    by (auto split: if_splits dest: arg_cong [where f = length])
  then show ?thesis by auto
qed

lemma parse_progress:
  "(parse_value n s = Inr (v, r) \<longrightarrow> length r < length s) \<and>
   (parse_elems n s acc = Inr (v, r) \<longrightarrow> length r < length s) \<and>
   (parse_members n s acc' = Inr (v, r) \<longrightarrow> length r < length s)"
proof (induction n arbitrary: s acc acc' v r)
  case 0
  then show ?case by simp
next
  case (Suc n)
  have ihv: "\<And>s v r. parse_value n s = Inr (v, r) \<Longrightarrow> length r < length s"
    using Suc.IH by blast
  have ihe: "\<And>s acc v r. parse_elems n s acc = Inr (v, r) \<Longrightarrow> length r < length s"
    using Suc.IH by blast
  have ihm: "\<And>s acc v r. parse_members n s acc = Inr (v, r) \<Longrightarrow> length r < length s"
    using Suc.IH by blast
  show ?case
  proof (intro conjI impI)
    assume a: "parse_value (Suc n) s = Inr (v, r)"
    then obtain c t where ws: "skip_ws s = c # t"
      by (cases "skip_ws s") auto
    have lt: "length t < length s" using skip_ws_Cons_len [OF ws] .
    have "length r < length (c # t)"
      using a ws ihe ihm length_skip_ws [of t]
        parse_string_progress [of t "[]"] parse_number_progress [of "c # t" v r]
        parse_literal_progress [of "c # t" v r]
      by (fastforce split: if_splits sum.splits prod.splits list.splits
               dest: skip_ws_Cons_len)
    with lt show "length r < length s" by simp
  next
    assume a: "parse_elems (Suc n) s acc = Inr (v, r)"
    then obtain v1 r1 where pv: "parse_value n s = Inr (v1, r1)"
      by (auto split: sum.splits)
    then have "length r1 < length s" by (rule ihv)
    then show "length r < length s"
      using a pv ihe
      by (fastforce split: if_splits list.splits dest: skip_ws_Cons_len)
  next
    assume a: "parse_members (Suc n) s acc' = Inr (v, r)"
    then show "length r < length s"
      using ihv ihm
      by (fastforce split: if_splits list.splits sum.splits prod.splits
               dest: skip_ws_Cons_len parse_string_progress)
  qed
qed

section \<open>The fuel of \<open>json_parse\<close> is never exhausted\<close>

lemma parse_string_not_fuel [simp]: "parse_string s acc \<noteq> Inl OutOfFuel"
  by (induction s acc rule: parse_string.induct) (auto split: list.splits option.splits)

lemma parse_number_not_fuel [simp]: "parse_number s \<noteq> Inl OutOfFuel"
  by (simp add: parse_number_def Let_def)

lemma parse_literal_not_fuel [simp]: "parse_literal s \<noteq> Inl OutOfFuel"
  by (simp add: parse_literal_def)

lemmas parse_progress_value = parse_progress [THEN conjunct1, rule_format]
lemmas parse_progress_elems = parse_progress [THEN conjunct2, THEN conjunct1, rule_format]
lemmas parse_progress_members = parse_progress [THEN conjunct2, THEN conjunct2, rule_format]

lemma parse_fuel_enough:
  "(2 * length s < n \<longrightarrow> parse_value n s \<noteq> Inl OutOfFuel) \<and>
   (2 * length s + 1 < n \<longrightarrow> parse_elems n s acc \<noteq> Inl OutOfFuel) \<and>
   (2 * length s + 1 < n \<longrightarrow> parse_members n s acc' \<noteq> Inl OutOfFuel)"
proof (induction n arbitrary: s acc acc')
  case 0
  then show ?case by simp
next
  case (Suc n)
  have ihv: "\<And>s. 2 * length s < n \<Longrightarrow> parse_value n s \<noteq> Inl OutOfFuel"
    using Suc.IH by blast
  have ihe: "\<And>s acc. 2 * length s + 1 < n \<Longrightarrow> parse_elems n s acc \<noteq> Inl OutOfFuel"
    using Suc.IH by blast
  have ihm: "\<And>s acc. 2 * length s + 1 < n \<Longrightarrow> parse_members n s acc \<noteq> Inl OutOfFuel"
    using Suc.IH by blast
  show ?case
  proof (intro conjI impI)
    assume f: "2 * length s < Suc n"
    show "parse_value (Suc n) s \<noteq> Inl OutOfFuel"
    proof (cases "skip_ws s")
      case (Cons c t)
      then have "2 * length t + 1 < n" using f skip_ws_Cons_len [OF Cons] by linarith
      then show ?thesis using Cons ihe ihm by (auto split: sum.splits)
    qed simp
  next
    assume f: "2 * length s + 1 < Suc n"
    show "parse_elems (Suc n) s acc \<noteq> Inl OutOfFuel"
    proof (cases "parse_value n s")
      case (Inl e)
      then show ?thesis using ihv [of s] f by simp
    next
      case (Inr vr)
      obtain v r where vr: "vr = (v, r)" by fastforce
      have "length r < length s" using Inr vr parse_progress_value by blast
      then have "\<And>c r'. skip_ws r = c # r' \<Longrightarrow> 2 * length r' + 1 < n"
        using f skip_ws_Cons_len by fastforce
      then show ?thesis using Inr vr ihe by (auto split: list.splits)
    qed
  next
    assume f: "2 * length s + 1 < Suc n"
    show "parse_members (Suc n) s acc' \<noteq> Inl OutOfFuel"
    proof (cases "skip_ws s")
      case (Cons c r)
      have l0: "length r < length s" using skip_ws_Cons_len [OF Cons] .
      show ?thesis
      proof (cases "c = CHR ''\"''")
        case True
        show ?thesis
        proof (cases "parse_string r []")
          case (Inr kr)
          obtain k r1 where kr: "kr = (k, r1)" by fastforce
          have l1: "length r1 < length r" using Inr kr parse_string_progress by blast
          show ?thesis
          proof (cases "skip_ws r1")
            case (Cons d r2)
            have l2: "length r2 < length r1" using skip_ws_Cons_len [OF Cons] .
            have pv: "parse_value n r2 \<noteq> Inl OutOfFuel"
              using ihv l0 l1 l2 f by simp
            have "\<And>v r3 e r4. parse_value n r2 = Inr (v, r3) \<Longrightarrow> skip_ws r3 = e # r4 \<Longrightarrow>
                2 * length r4 + 1 < n"
              using l0 l1 l2 f by (fastforce dest: parse_progress_value skip_ws_Cons_len)
            then show ?thesis using True Inr kr Cons \<open>skip_ws s = c # r\<close> pv ihm
              by (auto split: sum.splits list.splits)
          qed (use True Inr kr \<open>skip_ws s = c # r\<close> in simp)
        qed (use True \<open>skip_ws s = c # r\<close> in auto)
      qed (simp add: Cons)
    qed simp
  qed
qed

theorem json_parse_never_out_of_fuel: "json_parse s \<noteq> Inl OutOfFuel"
proof -
  have "parse_value (Suc (2 * length s)) s \<noteq> Inl OutOfFuel"
    by (rule parse_fuel_enough [THEN conjunct1, rule_format]) simp
  then show ?thesis by (auto simp: json_parse_def split: sum.splits)
qed

section \<open>Reading back what \<open>JSON.stringify\<close> wrote\<close>

lemma hex_value_hex_digit [simp]: "d < 16 \<Longrightarrow> hex_value (hex_digit d) = Some d"
  by (auto simp: hex_digit_def hex_value_def is_digit_def less_eq_char_def of_char_digit_char)

lemma hex_value_zero [simp]: "hex_value (CHR ''0'') = Some 0"
  by (simp add: hex_value_def is_digit_def digit_value_def)

lemma hex4_value_control:
  assumes "d < 32"
  shows "hex4_value [CHR ''0'', CHR ''0'', hex_digit (d div 16), hex_digit (d mod 16)] = d"
  using assms by (simp add: hex4_value_def)

lemma control_chars_below_32:
  "c \<in> {CHR ''\"'', CHR 0x5C} \<Longrightarrow> \<not> of_char c < (32::nat)"
  "c \<in> {CHR 0x08, CHR 0x09, CHR 0x0A, CHR 0x0C, CHR 0x0D} \<Longrightarrow> of_char c < (32::nat)"
  by auto

lemma parse_string_escape_char:
  "parse_string (json_escape_char c @ t) acc = parse_string t (c # acc)"
proof -
  consider "c = CHR ''\"''" | "c = CHR 0x5C" | "c = CHR 0x08" | "c = CHR 0x09" | "c = CHR 0x0A"
    | "c = CHR 0x0C" | "c = CHR 0x0D"
    | (ctl) "of_char c < (32::nat)" "c \<notin> {CHR 0x08, CHR 0x09, CHR 0x0A, CHR 0x0C, CHR 0x0D}"
    | (plain) "\<not> of_char c < (32::nat)" "c \<noteq> CHR ''\"''" "c \<noteq> CHR 0x5C"
    by blast
  then show ?thesis
  proof cases
    case ctl
    let ?d = "of_char c :: nat"
    have ne: "c \<noteq> CHR ''\"''" "c \<noteq> CHR 0x5C" using ctl control_chars_below_32(1) by auto
    have "hex4_value [CHR ''0'', CHR ''0'', hex_digit (?d div 16), hex_digit (?d mod 16)] = ?d"
      using ctl by (intro hex4_value_control) simp
    with ctl ne show ?thesis
      by (simp add: json_escape_char_def)
  next
    case plain
    have "c \<notin> {CHR 0x08, CHR 0x09, CHR 0x0A, CHR 0x0C, CHR 0x0D}"
      using plain(1) control_chars_below_32(2) by blast
    with plain show ?thesis by (simp add: json_escape_char_def)
  qed (simp_all add: json_escape_char_def escape_char_def)
qed

lemma parse_string_escaped:
  "parse_string (concat (map json_escape_char s) @ CHR ''\"'' # rest) acc = Inr (rev acc @ s, rest)"
  by (induction s arbitrary: acc) (simp_all add: parse_string_escape_char)

lemma parse_string_quote:
  "parse_string (tl (json_quote k) @ rest) [] = Inr (k, rest)"
  by (simp add: json_quote_def parse_string_escaped)

lemma value_end_not_digit: "value_end r \<Longrightarrow> r = [] \<or> \<not> is_digit (hd r)"
  by (auto simp: value_end_def is_digit_def)

lemma takeWhile_digits_append:
  assumes "list_all is_digit ds" "r = [] \<or> \<not> is_digit (hd r)"
  shows "takeWhile is_digit (ds @ r) = ds \<and> dropWhile is_digit (ds @ r) = r"
proof -
  have "takeWhile is_digit r = [] \<and> dropWhile is_digit r = r"
    using assms(2) by (cases r) auto
  then show ?thesis using assms(1) by (induction ds) auto
qed

lemma parse_number_digits:
  assumes "value_end r"
  shows "parse_number (nat_to_digits n @ r) = Inr (JNum (int n), r) \<and>
         parse_number (CHR ''-'' # nat_to_digits n @ r) = Inr (JNum (- int n), r)"
proof -
  have hd_dig: "is_digit (hd (nat_to_digits n))"
    using nat_to_digits_all_digits [of n] by (cases "nat_to_digits n") auto
  then have hd: "hd (nat_to_digits n @ r) \<noteq> CHR ''-''" by (auto simp: is_digit_def)
  have tw: "takeWhile is_digit (nat_to_digits n @ r) = nat_to_digits n"
       and dw: "dropWhile is_digit (nat_to_digits n @ r) = r"
    using takeWhile_digits_append [OF nat_to_digits_all_digits value_end_not_digit [OF assms]]
    by simp_all
  have "\<not> (r \<noteq> [] \<and> (hd r = CHR ''.'' \<or> hd r = CHR ''e'' \<or> hd r = CHR ''E''))"
    using assms by (auto simp: value_end_def)
  then show ?thesis
    using nat_to_digits_hd_nonzero [of n] hd
    by (auto simp add: parse_number_def Let_def tw dw)
qed

lemma parse_number_int:
  assumes "value_end r"
  shows "parse_number (int_to_string i @ r) = Inr (JNum i, r)"
  using parse_number_digits [OF assms, of "nat (- i)"] parse_number_digits [OF assms, of "nat i"]
  by (simp add: int_to_string_def)

lemma skip_ws_not_ws [simp]: "\<not> is_json_ws c \<Longrightarrow> skip_ws (c # s) = c # s"
  by (simp add: skip_ws_def)

lemma skip_ws_Nil [simp]: "skip_ws [] = []"
  by (simp add: skip_ws_def)

lemma obj_set_fresh: "k \<notin> set (map fst acc) \<Longrightarrow> obj_set acc k v = acc @ [(k, v)]"
  by (induction acc k v rule: obj_set.induct) auto

lemma int_to_string_nonempty [simp]: "int_to_string i \<noteq> []"
  using json_stringify_nonempty [of "JNum i"] by simp

lemma int_to_string_first:
  "\<exists>t. int_to_string i = CHR ''-'' # t \<or> (\<exists>c. int_to_string i = c # t \<and> is_digit c)"
proof -
  have dig: "\<exists>c t. nat_to_digits n = c # t \<and> is_digit c" for n
    using nat_to_digits_all_digits [of n] nat_to_digits_nonempty [of n]
    by (cases "nat_to_digits n") auto
  then show ?thesis by (fastforce simp: int_to_string_def)
qed

text \<open>The first character of a printed value opens it: never blank, never a closing bracket.\<close>

lemma stringify_first:
  "\<exists>c t. json_stringify v = c # t \<and> \<not> is_json_ws c \<and> c \<noteq> CHR '']'' \<and> c \<noteq> CHR ''}'' \<and>
     (c = CHR ''-'' \<or> is_digit c \<longleftrightarrow> (\<exists>i. v = JNum i))"
proof (cases v)
  case (JNum i)
  then show ?thesis using int_to_string_first [of i]
    by (auto simp: is_digit_def is_json_ws_def)
qed (auto simp: json_quote_def is_digit_def is_json_ws_def)

lemma parse_value_num:
  assumes "value_end rest"
  shows "parse_value (Suc m) (int_to_string i @ rest) = Inr (JNum i, rest)"
proof -
  obtain c t where ct: "int_to_string i = c # t" "\<not> is_json_ws c" "c = CHR ''-'' \<or> is_digit c"
    using stringify_first [of "JNum i"] by auto
  moreover have "c \<noteq> CHR ''['' \<and> c \<noteq> CHR ''{'' \<and> c \<noteq> CHR ''\"''"
    using ct(3) by (auto simp: is_digit_def)
  ultimately show ?thesis using parse_number_int [OF assms, of i] by simp
qed

lemma parse_value_scalar:
  assumes "value_end rest"
    and "v \<in> {JNull, JBool True, JBool False} \<or> (\<exists>i. v = JNum i) \<or> (\<exists>s. v = JStr s)"
  shows "parse_value (Suc m) (json_stringify v @ rest) = Inr (v, rest)"
  using assms(2)
proof (elim disjE exE)
  fix i assume "v = JNum i"
  then show ?thesis by (simp add: parse_value_num [OF assms(1)] del: parse_value.simps)
qed (auto simp: is_json_ws_def is_digit_def parse_literal_def json_quote_def parse_string_escaped)

lemma skip_ws_stringify:
  "skip_ws (json_stringify v @ rest) = json_stringify v @ rest \<and>
   hd (json_stringify v @ rest) \<noteq> CHR '']'' \<and> hd (json_stringify v @ rest) \<noteq> CHR ''}''"
  using stringify_first [of v] by auto

lemma parse_elems_stringify:
  assumes "xs \<noteq> []"
    and "\<And>x n rest. x \<in> set xs \<Longrightarrow> json_need x \<le> n \<Longrightarrow> value_end rest \<Longrightarrow>
           parse_value n (json_stringify x @ rest) = Inr (x, rest)"
    and "sum_list (map (\<lambda>x. Suc (json_need x)) xs) \<le> n"
  shows "parse_elems n (join_with CHR '','' (map json_stringify xs) @ CHR '']'' # rest) acc =
           Inr (JArr (acc @ xs), rest)"
  using assms
proof (induction xs arbitrary: n acc)
  case (Cons x xs)
  obtain m where n: "n = Suc m" and m: "json_need x + sum_list (map (\<lambda>x. Suc (json_need x)) xs) \<le> m"
    using Cons.prems(3) by (cases n) auto
  show ?case
  proof (cases xs)
    case Nil
    have "parse_value m (json_stringify x @ CHR '']'' # rest) = Inr (x, CHR '']'' # rest)"
      using Cons.prems(2) [of x m "CHR '']'' # rest"] m by (simp add: value_end_def)
    then show ?thesis using n Nil by (simp add: is_json_ws_def)
  next
    case (Cons y ys)
    let ?tail = "join_with CHR '','' (map json_stringify xs) @ CHR '']'' # rest"
    have pv: "parse_value m (json_stringify x @ CHR '','' # ?tail) = Inr (x, CHR '','' # ?tail)"
      using Cons.prems(2) [of x m "CHR '','' # ?tail"] m by (simp add: value_end_def)
    have ih: "parse_elems m ?tail (acc @ [x]) = Inr (JArr ((acc @ [x]) @ xs), rest)"
      using Cons.IH [where n = m and acc = "acc @ [x]"] Cons.prems m \<open>xs = y # ys\<close> by auto
    show ?thesis using n pv ih \<open>xs = y # ys\<close> by (simp add: is_json_ws_def)
  qed
qed simp

lemma parse_members_stringify:
  assumes "kvs \<noteq> []"
    and "\<And>kv n rest. kv \<in> set kvs \<Longrightarrow> json_need (snd kv) \<le> n \<Longrightarrow> value_end rest \<Longrightarrow>
           parse_value n (json_stringify (snd kv) @ rest) = Inr (snd kv, rest)"
    and "distinct (map fst (acc @ kvs))"
    and "sum_list (map (\<lambda>kv. Suc (json_need (snd kv))) kvs) \<le> n"
  shows "parse_members n (join_with CHR '',''
            (map (\<lambda>(k, v). json_quote k @ CHR '':'' # json_stringify v) kvs) @ CHR ''}'' # rest) acc =
           Inr (JObj (acc @ kvs), rest)"
  using assms
proof (induction kvs arbitrary: n acc)
  case (Cons kv kvs)
  obtain k v where kv: "kv = (k, v)" by fastforce
  obtain m where n: "n = Suc m" and m: "json_need v + sum_list (map (\<lambda>kv. Suc (json_need (snd kv))) kvs) \<le> m"
    using Cons.prems(4) kv by (cases n) auto
  have fresh: "obj_set acc k v = acc @ [(k, v)]"
    using Cons.prems(3) kv by (intro obj_set_fresh) auto
  let ?members = "join_with CHR '','' (map (\<lambda>(k, v). json_quote k @ CHR '':'' # json_stringify v) kvs)"
  show ?case
  proof (cases kvs)
    case Nil
    have "parse_value m (json_stringify v @ CHR ''}'' # rest) = Inr (v, CHR ''}'' # rest)"
      using Cons.prems(2) [of "(k, v)" m "CHR ''}'' # rest"] kv m by (simp add: value_end_def)
    then show ?thesis using n Nil kv fresh
      by (simp add: is_json_ws_def json_quote_def parse_string_escaped)
  next
    case (Cons y ys)
    let ?tail = "?members @ CHR ''}'' # rest"
    have pv: "parse_value m (json_stringify v @ CHR '','' # ?tail) = Inr (v, CHR '','' # ?tail)"
      using Cons.prems(2) [of "(k, v)" m "CHR '','' # ?tail"] kv m by (simp add: value_end_def)
    have ih: "parse_members m ?tail (acc @ [(k, v)]) = Inr (JObj ((acc @ [(k, v)]) @ kvs), rest)"
      using Cons.IH [where n = m and acc = "acc @ [(k, v)]"] Cons.prems m kv \<open>kvs = y # ys\<close> by auto
    show ?thesis using n pv ih kv fresh \<open>kvs = y # ys\<close>
      by (simp add: is_json_ws_def json_quote_def parse_string_escaped)
  qed
qed simp

lemma parse_value_stringify_arr:
  assumes ih: "\<And>x n rest. x \<in> set xs \<Longrightarrow> json_need x \<le> n \<Longrightarrow> value_end rest \<Longrightarrow>
           parse_value n (json_stringify x @ rest) = Inr (x, rest)"
    and need: "json_need (JArr xs) \<le> n"
  shows "parse_value n (json_stringify (JArr xs) @ rest) = Inr (JArr xs, rest)"
proof -
  obtain m where n: "n = Suc m" and m: "sum_list (map (\<lambda>x. Suc (json_need x)) xs) \<le> m"
    using need by (cases n) auto
  show ?thesis
  proof (cases xs)
    case Nil
    then show ?thesis using n by (simp add: is_json_ws_def)
  next
    case (Cons x xs')
    let ?r = "join_with CHR '','' (map json_stringify xs) @ CHR '']'' # rest"
    have r: "skip_ws ?r = ?r \<and> hd ?r \<noteq> CHR '']''"
      using skip_ws_stringify [of x] Cons by (cases xs') auto
    have "parse_elems m ?r [] = Inr (JArr ([] @ xs), rest)"
      by (rule parse_elems_stringify [where xs = xs and acc = "[]" and n = m and rest = rest])
         (use Cons m in \<open>simp_all add: ih\<close>)
    then show ?thesis using n r by (simp add: is_json_ws_def)
  qed
qed

lemma parse_value_stringify_obj:
  assumes ih: "\<And>kv n rest. kv \<in> set kvs \<Longrightarrow> json_need (snd kv) \<le> n \<Longrightarrow> value_end rest \<Longrightarrow>
           parse_value n (json_stringify (snd kv) @ rest) = Inr (snd kv, rest)"
    and wf: "json_wf (JObj kvs)" and need: "json_need (JObj kvs) \<le> n" and ve: "value_end rest"
  shows "parse_value n (json_stringify (JObj kvs) @ rest) = Inr (JObj kvs, rest)"
proof -
  obtain m where n: "n = Suc m" and m: "sum_list (map (\<lambda>kv. Suc (json_need (snd kv))) kvs) \<le> m"
    using need by (cases n) auto
  let ?member = "\<lambda>(k, v). json_quote k @ CHR '':'' # json_stringify v"
  show ?thesis
  proof (cases kvs)
    case Nil
    then show ?thesis using n by (simp add: is_json_ws_def)
  next
    case (Cons kv kvs')
    let ?r = "join_with CHR '','' (map ?member kvs) @ CHR ''}'' # rest"
    have r: "skip_ws ?r = ?r \<and> hd ?r \<noteq> CHR ''}''"
      using Cons by (cases kvs'; cases kv) (auto simp: json_quote_def is_json_ws_def)
    have "parse_members m ?r [] = Inr (JObj ([] @ kvs), rest)"
      by (rule parse_members_stringify [where kvs = kvs and acc = "[]" and n = m and rest = rest])
         (use Cons wf m in \<open>simp_all add: ih\<close>)
    then show ?thesis using n r by (simp add: is_json_ws_def)
  qed
qed

lemma parse_value_stringify:
  "json_wf v \<Longrightarrow> json_need v \<le> n \<Longrightarrow> value_end rest \<Longrightarrow>
   parse_value n (json_stringify v @ rest) = Inr (v, rest)"
proof (induction v arbitrary: n rest)
  case (JArr xs)
  have ih: "\<And>x n rest. x \<in> set xs \<Longrightarrow> json_need x \<le> n \<Longrightarrow> value_end rest \<Longrightarrow>
           parse_value n (json_stringify x @ rest) = Inr (x, rest)"
    using JArr.IH JArr.prems(1) by (simp add: list_all_iff)
  show ?case by (rule parse_value_stringify_arr) (use JArr.prems(2) in \<open>simp_all add: ih\<close>)
next
  case (JObj kvs)
  have ih: "\<And>kv n rest. kv \<in> set kvs \<Longrightarrow> json_need (snd kv) \<le> n \<Longrightarrow> value_end rest \<Longrightarrow>
           parse_value n (json_stringify (snd kv) @ rest) = Inr (snd kv, rest)"
    using JObj.IH JObj.prems(1) by (fastforce simp: list_all_iff prod_set_simps)
  show ?case by (rule parse_value_stringify_obj) (use JObj.prems in \<open>simp_all add: ih\<close>)
next
  case JNull
  then show ?case using parse_value_scalar [of rest JNull] by (cases n) auto
next
  case (JBool b)
  then show ?case using parse_value_scalar [of rest "JBool b"] by (cases n) auto
next
  case (JNum i)
  then show ?case using parse_value_scalar [of rest "JNum i"] by (cases n) auto
next
  case (JStr s)
  then show ?case using parse_value_scalar [of rest "JStr s"] by (cases n) auto
qed

lemma length_join_with:
  "ws \<noteq> [] \<Longrightarrow> Suc (length (join_with d ws)) = sum_list (map (\<lambda>w. Suc (length w)) ws)"
  by (induction d ws rule: join_with.induct) auto

lemma json_need_le_length: "json_need v \<le> length (json_stringify v)"
proof (induction v)
  case (JArr xs)
  have "sum_list (map (\<lambda>x. Suc (json_need x)) xs) \<le> sum_list (map (\<lambda>x. Suc (length (json_stringify x))) xs)"
    using JArr.IH by (intro sum_list_mono) simp
  then show ?case
    using length_join_with [of "map json_stringify xs" "CHR '',''"]
    by (cases xs) (simp_all add: comp_def)
next
  case (JObj kvs)
  let ?member = "\<lambda>(k, v). json_quote k @ CHR '':'' # json_stringify v"
  have ih: "\<And>k v. (k, v) \<in> set kvs \<Longrightarrow> json_need v \<le> length (json_stringify v)"
    using JObj.IH by (fastforce simp: prod_set_simps)
  have "sum_list (map (\<lambda>kv. Suc (json_need (snd kv))) kvs) \<le>
        sum_list (map (\<lambda>kv. Suc (length (?member kv))) kvs)"
    by (intro sum_list_mono) (auto simp: json_quote_def dest: ih split: prod.splits)
  then show ?case
    using length_join_with [of "map ?member kvs" "CHR '',''"]
    by (cases kvs) (simp_all add: comp_def)
qed (simp_all add: json_quote_def Suc_le_eq)

theorem json_parse_stringify: "json_wf v \<Longrightarrow> json_parse (json_stringify v) = Inr v"
  using parse_value_stringify [of v "Suc (2 * length (json_stringify v))" "[]"] json_need_le_length [of v]
  by (simp add: json_parse_def value_end_def)

end
