(* ===== verification/BackupDialog.thy ===== *)
theory BackupDialog
  imports JsonParse "HOL-Library.Sublist" "HOL-Library.Multiset"
begin

text \<open>
  The backup dialog of src/src/components/dialogs/dialog-backup.js. It lists
  \<open>Object.entries(state.appManagement.apps)\<close>; the user ticks apps by their
  index in that list (\<open>selectedApps\<close>) or all of them (\<open>allAppsSelected\<close>),
  both React \<open>useState\<close> hooks. \<open>onBackup\<close> writes the selected entries as
  \<open>JSON.stringify\<close> text into a zip. For the custom apps it fetches each icon,
  adds it to the zip's images folder as each fetch completes, and then saves
  the zip and closes the dialog.

  The helpers that are not under src/ (\<open>isCustomApp\<close>, \<open>getFilename\<close>,
  \<open>getAssetPath\<close>, \<open>fetch\<close>, the file-name constants of
  \<open>constants/backups\<close>) and the platform are the fields of
  \<open>backup_env\<close>. An app's info is the five fields the dialog destructures, each
  \<open>undefined\<close> (\<open>None\<close>) or a JSON value. A fetch gives the chunks of the
  response body or the reason it rejected. The order in which the icon fetches
  complete is an explicit list of positions.
\<close>

section \<open>Apps and the environment\<close>

record app_info =
  app_id :: "json option"
  app_name :: "json option"
  app_url :: "json option"
  app_icon :: "json option"
  app_opts :: "json option"

type_synonym app_entry = "string \<times> app_info"

record backup_env =
  is_custom_app :: "string \<Rightarrow> bool"
  platform :: string
  get_filename :: "json option \<Rightarrow> string"
  get_asset_path :: "json option \<Rightarrow> string"
  fetch_asset :: "string \<Rightarrow> string + nat list list"
  details_filename :: string
  details_zip_filename :: string
  images_foldername :: string

section \<open>Selection\<close>

text \<open>\<open>Array.prototype.indexOf\<close>: the first position, or -1.\<close>

fun js_index_of :: "'a list \<Rightarrow> 'a \<Rightarrow> int" where
  "js_index_of [] x = -1"
| "js_index_of (y # ys) x =
     (if y = x then 0 else (let i = js_index_of ys x in if i = -1 then -1 else i + 1))"

record backup_dialog =
  selected_apps :: "nat list"
  all_apps_selected :: bool

definition backup_dialog_init :: backup_dialog where
  "backup_dialog_init = \<lparr>selected_apps = [], all_apps_selected = False\<rparr>"

text \<open>\<open>onAppSelected(appIndex)\<close> with \<open>n = appsList.length\<close>: an unticked index
  is pushed, a ticked one spliced out. Both \<open>setAllAppsSelected\<close> calls of
  the handler are batched, so the second, \<open>n = newSelectedApps.length\<close>, is
  the one that holds.\<close>

definition on_app_selected :: "nat \<Rightarrow> nat \<Rightarrow> backup_dialog \<Rightarrow> backup_dialog" where
  "on_app_selected n app_index d =
     (let current_app_index = js_index_of (selected_apps d) app_index;
          new_selected_apps =
            (if current_app_index = -1 then selected_apps d @ [app_index]
             else take (nat current_app_index) (selected_apps d) @
                  drop (Suc (nat current_app_index)) (selected_apps d))
      in d\<lparr>selected_apps := new_selected_apps,
           all_apps_selected := (n = length new_selected_apps)\<rparr>)"

text \<open>\<open>onAllAppSelected\<close>: both branches read the flag before it flips.\<close>

definition on_all_app_selected :: "nat \<Rightarrow> backup_dialog \<Rightarrow> backup_dialog" where
  "on_all_app_selected n d =
     (if all_apps_selected d then d\<lparr>all_apps_selected := False, selected_apps := []\<rparr>
      else d\<lparr>all_apps_selected := True, selected_apps := [0..<n]\<rparr>)"

text \<open>The row's checkbox and the Backup button, as rendered.\<close>

definition row_checked :: "backup_dialog \<Rightarrow> nat \<Rightarrow> bool" where
  "row_checked d app_index \<longleftrightarrow> js_index_of (selected_apps d) app_index \<noteq> -1"

definition backup_disabled :: "backup_dialog \<Rightarrow> bool" where
  "backup_disabled d \<longleftrightarrow> selected_apps d = []"

text \<open>The events of the dialog: a click on row \<open>i\<close> (there is a row for each
  app), on the All row, and the store's list of apps changing while the
  dialog is open (an install or an uninstall finishing in the background).\<close>

datatype backup_event = AppSelected nat | AllAppsSelected | AppsChanged "app_entry list"

record backup_view =
  apps_list :: "app_entry list"
  dialog :: backup_dialog

fun backup_step :: "backup_view \<Rightarrow> backup_event \<Rightarrow> backup_view" where
  "backup_step v (AppSelected i) =
     (if i < length (apps_list v)
      then v\<lparr>dialog := on_app_selected (length (apps_list v)) i (dialog v)\<rparr> else v)"
| "backup_step v AllAppsSelected =
     v\<lparr>dialog := on_all_app_selected (length (apps_list v)) (dialog v)\<rparr>"
| "backup_step v (AppsChanged apps) = v\<lparr>apps_list := apps\<rparr>"

fun is_click :: "backup_event \<Rightarrow> bool" where
  "is_click (AppsChanged apps) = False"
| "is_click _ = True"

text \<open>The states reached by clicks, for a fixed list of apps.\<close>

inductive backup_reachable :: "app_entry list \<Rightarrow> backup_view \<Rightarrow> bool" for apps where
  init: "backup_reachable apps \<lparr>apps_list = apps, dialog = backup_dialog_init\<rparr>"
| click: "backup_reachable apps v \<Longrightarrow> is_click ev \<Longrightarrow>
          backup_reachable apps (backup_step v ev)"

text \<open>The selection is a set of row indices, and the All box is ticked
  exactly when every row is (for a list of no apps the All box is free).\<close>

definition backup_sel_wf :: "nat \<Rightarrow> backup_dialog \<Rightarrow> bool" where
  "backup_sel_wf n d \<longleftrightarrow>
     distinct (selected_apps d) \<and> list_all (\<lambda>i. i < n) (selected_apps d) \<and>
     (if 0 < n then all_apps_selected d = (length (selected_apps d) = n)
      else selected_apps d = [])"

section \<open>The backup file\<close>

definition cdn_icon_url :: "string \<Rightarrow> string \<Rightarrow> string" where
  "cdn_icon_url plat app_key =
     ''https://cdn-1.webcatalog.io/catalog/'' @ app_key @ ''/'' @ app_key @ ''-icon'' @
     (if plat = ''win32'' then ''-unplated.png'' else ''.png'')"

text \<open>One entry of \<open>selectedAppsData\<close>: a catalog app's icon is replaced with
  its CDN URL, a custom app keeps its own.\<close>

definition backup_entry :: "backup_env \<Rightarrow> app_entry \<Rightarrow> app_entry" where
  "backup_entry env e =
     (case e of (app_key, info) \<Rightarrow>
        if \<not> is_custom_app env app_key
        then (app_key, info\<lparr>app_icon := Some (JStr (cdn_icon_url (platform env) app_key))\<rparr>)
        else (app_key, info))"

definition selected_apps_data :: "backup_env \<Rightarrow> app_entry list \<Rightarrow> nat list \<Rightarrow> app_entry list" where
  "selected_apps_data env apps_l sel =
     map (backup_entry env)
       (map snd (filter (\<lambda>(index, e). js_index_of sel index \<noteq> -1) (zip [0..<length apps_l] apps_l)))"

text \<open>\<open>{ id, name, url, icon, opts }\<close> as \<open>JSON.stringify\<close> sees it: an
  \<open>undefined\<close> property is left out.\<close>

definition info_fields :: "app_info \<Rightarrow> (string \<times> json option) list" where
  "info_fields info =
     [(''id'', app_id info), (''name'', app_name info), (''url'', app_url info),
      (''icon'', app_icon info), (''opts'', app_opts info)]"

definition app_info_json :: "app_info \<Rightarrow> json" where
  "app_info_json info = JObj (List.map_filter (\<lambda>(k, v). map_option (\<lambda>j. (k, j)) v) (info_fields info))"

definition backup_json :: "app_entry list \<Rightarrow> json" where
  "backup_json data = JArr (map (\<lambda>(k, info). JArr [JStr k, app_info_json info]) data)"

text \<open>The fields a reader of the file can rely on: each entry is a pair of the
  app's key and an object whose keys are among the five, in this order.\<close>

definition entry_typed :: "json \<Rightarrow> bool" where
  "entry_typed j \<longleftrightarrow>
     (case j of
        JArr [JStr k, JObj members] \<Rightarrow>
          subseq (map fst members) [''id'', ''name'', ''url'', ''icon'', ''opts'']
      | _ \<Rightarrow> False)"

text \<open>The values of the fields are JSON values the store holds: their objects
  have distinct keys.\<close>

definition app_info_wf :: "app_info \<Rightarrow> bool" where
  "app_info_wf info \<longleftrightarrow>
     list_all (\<lambda>kv. case snd kv of None \<Rightarrow> True | Some j \<Rightarrow> json_wf j) (info_fields info)"

section \<open>The zip\<close>

datatype zip_content = ZText string | ZChunk "nat list option"

datatype backup_effect = SaveAs string "(string \<times> zip_content) list" | DispatchClose

text \<open>\<open>`${name}-${getFilename(icon)}`\<close>\<close>

definition icon_filename :: "backup_env \<Rightarrow> app_info \<Rightarrow> string" where
  "icon_filename env info =
     js_opt_to_string (app_name info) @ ''-'' @ get_filename env (app_icon info)"

text \<open>The icon fetches of the custom apps among the selected entries, in list
  order: the file name and the fetch's outcome. Only the first chunk of the
  body is read (\<open>getReader().read()\<close> once); an empty body gives
  \<open>undefined\<close>.\<close>

definition icon_fetches :: "backup_env \<Rightarrow> app_entry list \<Rightarrow> (string \<times> (string + nat list option)) list" where
  "icon_fetches env data =
     map (\<lambda>(k, info).
            (icon_filename env info,
             (case fetch_asset env (get_asset_path env (app_icon info)) of
                Inl err \<Rightarrow> Inl err
              | Inr chunks \<Rightarrow> Inr (if chunks = [] then None else Some (hd chunks)))))
       (filter (\<lambda>e. is_custom_app env (fst e)) data)"

text \<open>\<open>zip.file(path, data)\<close>: a new path goes last, an existing one is overwritten in place.\<close>

definition zip_file :: "(string \<times> zip_content) list \<Rightarrow> string \<Rightarrow> zip_content \<Rightarrow> (string \<times> zip_content) list" where
  "zip_file z path c = obj_set z path c"

definition add_icons ::
  "string \<Rightarrow> (string \<times> (string + nat list option)) list \<Rightarrow> nat list \<Rightarrow>
   (string \<times> zip_content) list \<Rightarrow> (string \<times> zip_content) list" where
  "add_icons folder fetches order z =
     foldl (\<lambda>z i. case fetches ! i of
                    (name, Inr chunk) \<Rightarrow> zip_file z (folder @ ''/'' @ name) (ZChunk chunk)
                  | (name, Inl err) \<Rightarrow> z) z order"

text \<open>\<open>Promise.all\<close> rejects with the first rejection in completion order.\<close>

definition first_rejection :: "(string \<times> (string + nat list option)) list \<Rightarrow> nat list \<Rightarrow> string option" where
  "first_rejection fetches order =
     (case List.map_filter (\<lambda>i. case snd (fetches ! i) of Inl err \<Rightarrow> Some err | Inr _ \<Rightarrow> None) order of
        [] \<Rightarrow> None
      | err # _ \<Rightarrow> Some err)"

text \<open>\<open>onBackup\<close>; \<open>order\<close> lists the positions in \<open>icon_fetches\<close> in the
  order the fetches complete. A rejection ends \<open>onBackup\<close> with it: the zip is
  not saved and the dialog stays open.\<close>

definition on_backup :: "backup_env \<Rightarrow> nat list \<Rightarrow> app_entry list \<Rightarrow> nat list \<Rightarrow> string + backup_effect list" where
  "on_backup env order apps_l sel =
     (let selected_data = selected_apps_data env apps_l sel;
          z0 = zip_file [] (details_filename env) (ZText (json_stringify (backup_json selected_data)));
          fetches = icon_fetches env selected_data
      in case first_rejection fetches order of
           Some err \<Rightarrow> Inl err
         | None \<Rightarrow> Inr [SaveAs (details_zip_filename env) (add_icons (images_foldername env) fetches order z0),
                       DispatchClose])"

text \<open>The writes \<open>add_icons\<close> makes, in completion order.\<close>

definition icon_writes ::
  "string \<Rightarrow> (string \<times> (string + nat list option)) list \<Rightarrow> nat list \<Rightarrow> (string \<times> zip_content) list" where
  "icon_writes folder fetches order =
     List.map_filter (\<lambda>i. case fetches ! i of
                            (name, Inr chunk) \<Rightarrow> Some (folder @ ''/'' @ name, ZChunk chunk)
                          | (name, Inl err) \<Rightarrow> None) order"

text \<open>The zip \<open>onBackup\<close> saves, if it saves one.\<close>

definition saved_zip :: "string + backup_effect list \<Rightarrow> (string \<times> zip_content) list option" where
  "saved_zip r = (case r of Inr [SaveAs _ z, DispatchClose] \<Rightarrow> Some z | _ \<Rightarrow> None)"

section \<open>Example inputs\<close>

definition example_info :: "string \<Rightarrow> string \<Rightarrow> app_info" where
  "example_info name icon =
     \<lparr>app_id = Some (JStr name), app_name = Some (JStr name),
      app_url = Some (JStr (''https://'' @ name @ ''.com'')), app_icon = Some (JStr icon),
      app_opts = None\<rparr>"

definition example_apps :: "app_entry list" where
  "example_apps =
     [(''gmail'', example_info ''Gmail'' ''gmail.png''),
      (''custom-1'', example_info ''Notes'' ''file:///icons/notes.png''),
      (''slack'', example_info ''Slack'' ''slack.png''),
      (''custom-2'', example_info ''Todo'' ''file:///icons/todo.png'')]"

text \<open>Two custom apps of the same name whose icons have the same file name.\<close>

definition twin_apps :: "app_entry list" where
  "twin_apps =
     [(''custom-1'', example_info ''Notes'' ''file:///a/icon.png''),
      (''custom-2'', example_info ''Notes'' ''file:///b/icon.png'')]"

definition example_env :: "(string \<Rightarrow> string + nat list list) \<Rightarrow> backup_env" where
  "example_env fetch =
     \<lparr>is_custom_app = (\<lambda>k. take 7 k = ''custom-''), platform = ''darwin'',
      get_filename = (\<lambda>v. last (split_on CHR ''/'' (js_opt_to_string v))), get_asset_path = js_opt_to_string, fetch_asset = fetch,
      details_filename = ''app-details.json'', details_zip_filename = ''backup.zip'',
      images_foldername = ''images''\<rparr>"

definition example_view :: backup_view where
  "example_view = \<lparr>apps_list = example_apps, dialog = backup_dialog_init\<rparr>"

section \<open>Selection lemmas\<close>

lemma js_index_of_ge: "-1 \<le> js_index_of xs x"
  by (induction xs) (auto simp: Let_def)

lemma js_index_of_neg [simp]: "js_index_of xs x = -1 \<longleftrightarrow> x \<notin> set xs"
proof (induction xs)
  case (Cons y ys)
  then show ?case using js_index_of_ge [of ys x] by (auto simp: Let_def)
qed simp

lemma js_index_of_nonneg: "0 \<le> js_index_of xs x \<or> js_index_of xs x = -1"
  using js_index_of_ge [of xs x] by linarith

lemma js_index_of_splice:
  "x \<in> set xs \<Longrightarrow>
   take (nat (js_index_of xs x)) xs @ drop (Suc (nat (js_index_of xs x))) xs = remove1 x xs"
proof (induction xs)
  case (Cons y ys)
  show ?case
  proof (cases "y = x")
    case False
    then have "x \<in> set ys" using Cons.prems by simp
    moreover have "0 \<le> js_index_of ys x" using js_index_of_nonneg [of ys x] calculation by auto
    ultimately show ?thesis using Cons.IH False by (simp add: Let_def nat_add_distrib)
  qed simp
qed simp

text \<open>What the click on a row does, in terms of lists: \<open>indexOf\<close> then \<open>splice\<close>
  removes the index, a push appends it.\<close>

lemma on_app_selected_eq:
  "on_app_selected n i d =
     (let s = (if i \<in> set (selected_apps d) then remove1 i (selected_apps d)
               else selected_apps d @ [i])
      in d\<lparr>selected_apps := s, all_apps_selected := (n = length s)\<rparr>)"
  by (simp add: on_app_selected_def Let_def js_index_of_splice)

lemma row_checked_iff [simp]: "row_checked d i \<longleftrightarrow> i \<in> set (selected_apps d)"
  by (simp add: row_checked_def)

lemma sel_wf_init: "backup_sel_wf n backup_dialog_init"
  by (simp add: backup_sel_wf_def backup_dialog_init_def)

lemma sel_wf_app_selected:
  "backup_sel_wf n d \<Longrightarrow> i < n \<Longrightarrow> backup_sel_wf n (on_app_selected n i d)"
  by (auto simp: backup_sel_wf_def on_app_selected_eq Let_def list_all_iff dest: in_set_remove1)

lemma sel_wf_all_app_selected:
  "backup_sel_wf n d \<Longrightarrow> backup_sel_wf n (on_all_app_selected n d)"
  by (simp add: backup_sel_wf_def on_all_app_selected_def list_all_iff)

lemma backup_reachable_apps: "backup_reachable apps v \<Longrightarrow> apps_list v = apps"
proof (induction rule: backup_reachable.induct)
  case (click v ev)
  then show ?case by (cases ev) simp_all
qed simp

text \<open>The selection invariant holds in every state the clicks reach.\<close>

lemma backup_reachable_sel_wf:
  "backup_reachable apps v \<Longrightarrow> backup_sel_wf (length apps) (dialog v)"
proof (induction rule: backup_reachable.induct)
  case init
  then show ?case by (simp add: sel_wf_init)
next
  case (click v ev)
  then show ?case
    using backup_reachable_apps [OF click.hyps(1)]
    by (cases ev) (simp_all add: sel_wf_app_selected sel_wf_all_app_selected)
qed

lemma sel_wf_all_iff:
  assumes "backup_sel_wf n d" "0 < n"
  shows "all_apps_selected d \<longleftrightarrow> set (selected_apps d) = {..<n}"
proof -
  have d: "distinct (selected_apps d)" and sub: "set (selected_apps d) \<subseteq> {..<n}"
    and all: "all_apps_selected d = (length (selected_apps d) = n)"
    using assms by (auto simp: backup_sel_wf_def list_all_iff)
  have "length (selected_apps d) = n \<longleftrightarrow> set (selected_apps d) = {..<n}"
  proof
    assume "length (selected_apps d) = n"
    then have "card (set (selected_apps d)) = card {..<n}" using distinct_card [OF d] by simp
    then show "set (selected_apps d) = {..<n}" using sub by (simp add: card_subset_eq)
  next
    assume "set (selected_apps d) = {..<n}"
    then show "length (selected_apps d) = n" using distinct_card [OF d] by (metis card_lessThan)
  qed
  with all show ?thesis by simp
qed

section \<open>Backup data lemmas\<close>

lemma map_fst_info_fields:
  "map fst (List.map_filter (\<lambda>(k, v). map_option (\<lambda>j. (k, j)) v) kvs) =
   map fst (filter (\<lambda>kv. snd kv \<noteq> None) kvs)"
  by (induction kvs) (auto simp: List.map_filter_def)

lemma map_fst_info_fields_keys [simp]:
  "map fst (info_fields info) = [''id'', ''name'', ''url'', ''icon'', ''opts'']"
  by (simp add: info_fields_def)

lemma app_info_json_keys:
  "app_info_json info = JObj members \<Longrightarrow>
   subseq (map fst members) [''id'', ''name'', ''url'', ''icon'', ''opts'']"
proof -
  assume "app_info_json info = JObj members"
  then have "members = List.map_filter (\<lambda>(k, v). map_option (\<lambda>j. (k, j)) v) (info_fields info)"
    by (simp add: app_info_json_def)
  then have "map fst members = map fst (filter (\<lambda>kv. snd kv \<noteq> None) (info_fields info))"
    by (simp only: map_fst_info_fields)
  also have "subseq \<dots> (map fst (info_fields info))"
    by (intro subseq_map subseq_filter_left)
  finally show ?thesis by simp
qed

lemma selected_apps_data_set:
  "e \<in> set (selected_apps_data env apps_l sel) \<Longrightarrow> \<exists>e' \<in> set apps_l. e = backup_entry env e'"
  by (auto simp: selected_apps_data_def dest: set_zip_rightD)

lemma fst_backup_entry [simp]: "fst (backup_entry env e) = fst e"
  by (cases e) (simp add: backup_entry_def)

lemma map_filter_fields_wf:
  "list_all (\<lambda>kv. case snd kv of None \<Rightarrow> True | Some j \<Rightarrow> json_wf j) kvs \<Longrightarrow>
   list_all (\<lambda>kv. json_wf (snd kv)) (List.map_filter (\<lambda>(k, v). map_option (\<lambda>j. (k, j)) v) kvs)"
  by (induction kvs) (auto simp: List.map_filter_def split: option.splits)

lemma app_info_json_wf:
  assumes "app_info_wf info"
  shows "json_wf (app_info_json info)"
proof -
  have "distinct (map fst (filter (\<lambda>kv. snd kv \<noteq> None) (info_fields info)))"
    by (intro distinct_map_filter) simp
  then show ?thesis
    using map_filter_fields_wf assms by (simp add: app_info_json_def app_info_wf_def map_fst_info_fields)
qed

lemma backup_entry_wf:
  "app_info_wf (snd e) \<Longrightarrow> app_info_wf (snd (backup_entry env e))"
  by (cases e) (simp add: backup_entry_def app_info_wf_def info_fields_def)

lemma backup_json_wf:
  assumes "list_all (\<lambda>e. app_info_wf (snd e)) apps_l"
  shows "json_wf (backup_json (selected_apps_data env apps_l sel))"
proof -
  have "app_info_wf (snd e)" if "e \<in> set (selected_apps_data env apps_l sel)" for e
    using selected_apps_data_set [OF that] assms backup_entry_wf by (fastforce simp: list_all_iff)
  then show ?thesis
    by (auto simp: backup_json_def list_all_iff intro!: app_info_json_wf)
qed

section \<open>Zip lemmas\<close>

lemma add_icons_writes:
  "add_icons folder fetches order z =
     foldl (\<lambda>acc kv. obj_set acc (fst kv) (snd kv)) z (icon_writes folder fetches order)"
  unfolding add_icons_def icon_writes_def zip_file_def
  by (induction order arbitrary: z) (auto simp: List.map_filter_def split: prod.splits sum.splits)

lemma map_of_add_icons:
  "map_of (add_icons folder fetches order z) = map_of z ++ map_of (rev (icon_writes folder fetches order))"
  by (simp add: add_icons_writes map_of_foldl_obj_set)

lemma mem_icon_writes:
  "(k, c) \<in> set (icon_writes folder fetches order) \<longleftrightarrow>
     (\<exists>i \<in> set order. \<exists>name ch. fetches ! i = (name, Inr ch) \<and> k = folder @ ''/'' @ name \<and> c = ZChunk ch)"
  by (induction order) (auto simp: icon_writes_def List.map_filter_def split: prod.splits sum.splits)

text \<open>Two lists holding the same pairs, no key with two values, are the same map.\<close>

lemma map_of_eq_functional:
  assumes "set xs = set ys" and "\<And>k v v'. (k, v) \<in> set xs \<Longrightarrow> (k, v') \<in> set xs \<Longrightarrow> v = v'"
  shows "map_of xs = map_of ys"
proof
  fix k
  show "map_of xs k = map_of ys k"
  proof (cases "map_of xs k")
    case None
    then show ?thesis using assms(1) by (metis map_of_eq_None_iff)
  next
    case (Some v)
    then have xs: "(k, v) \<in> set xs" by (rule map_of_SomeD)
    then obtain v' where "map_of ys k = Some v'"
      using assms(1) by (metis map_of_eq_None_iff not_Some_eq fst_conv image_eqI)
    then have "(k, v') \<in> set xs" using assms(1) by (metis map_of_SomeD)
    with xs Some \<open>map_of ys k = Some v'\<close> show ?thesis using assms(2) by metis
  qed
qed

lemma first_rejection_None:
  "first_rejection fetches order = None \<longleftrightarrow> (\<forall>i \<in> set order. \<forall>e. snd (fetches ! i) \<noteq> Inl e)"
proof -
  have "List.map_filter (\<lambda>i. case snd (fetches ! i) of Inl err \<Rightarrow> Some err | Inr _ \<Rightarrow> None) order = [] \<longleftrightarrow>
        (\<forall>i \<in> set order. \<forall>e. snd (fetches ! i) \<noteq> Inl e)"
    by (induction order) (auto simp: List.map_filter_def split: sum.splits)
  then show ?thesis by (auto simp: first_rejection_def split: list.splits)
qed

lemma on_backup_rejected:
  "first_rejection (icon_fetches env (selected_apps_data env apps_l sel)) order = Some err \<Longrightarrow>
   on_backup env order apps_l sel = Inl err"
  by (simp add: on_backup_def Let_def)

lemma on_backup_saved:
  "saved_zip (on_backup env order apps_l sel) =
     (if first_rejection (icon_fetches env (selected_apps_data env apps_l sel)) order = None
      then Some (add_icons (images_foldername env) (icon_fetches env (selected_apps_data env apps_l sel)) order
                 (zip_file [] (details_filename env)
                   (ZText (json_stringify (backup_json (selected_apps_data env apps_l sel))))))
      else None)"
  by (auto simp: on_backup_def saved_zip_def Let_def split: option.splits)

section \<open>Properties\<close>

text \<open>C8: In every state the clicks reach, with at least one app listed, the
  All box is ticked exactly when every app's row is ticked.\<close>

theorem backup_all_box_tracks_rows:
  assumes "backup_reachable apps v" and "apps \<noteq> []"
  shows "all_apps_selected (dialog v) \<longleftrightarrow> (\<forall>i < length apps. row_checked (dialog v) i)"
proof -
  have wf: "backup_sel_wf (length apps) (dialog v)" using backup_reachable_sel_wf [OF assms(1)] .
  then have "set (selected_apps (dialog v)) \<subseteq> {..<length apps}"
    by (auto simp: backup_sel_wf_def list_all_iff)
  then show ?thesis using sel_wf_all_iff [OF wf] assms(2) by auto
qed

theorem backup_all_box_tracks_rows_witness:
  "all_apps_selected (dialog (backup_step (backup_step (backup_step (backup_step example_view
      (AppSelected 0)) (AppSelected 1)) (AppSelected 2)) (AppSelected 3))) \<and>
   row_checked (dialog (backup_step (backup_step (backup_step (backup_step example_view
      (AppSelected 0)) (AppSelected 1)) (AppSelected 2)) (AppSelected 3))) 3"
proof -
  have r: "backup_reachable example_apps (backup_step (backup_step (backup_step (backup_step example_view
      (AppSelected 0)) (AppSelected 1)) (AppSelected 2)) (AppSelected 3))"
    unfolding example_view_def by (intro backup_reachable.intros) simp_all
  show ?thesis
    using backup_all_box_tracks_rows [OF r]
    by (simp add: example_view_def example_apps_def on_app_selected_eq backup_dialog_init_def Let_def)
qed




text \<open>C9: When the icon fetch of a selected custom app rejects, \<open>onBackup\<close>
  ends with an error: the zip is not saved and the dialog is not closed.\<close>

theorem on_backup_fetch_failure:
  assumes "e \<in> set (selected_apps_data env apps sel)" and "is_custom_app env (fst e)"
    and "fetch_asset env (get_asset_path env (app_icon (snd e))) = Inl reason"
    and "set order = {..<length (icon_fetches env (selected_apps_data env apps sel))}"
  shows "\<exists>err. on_backup env order apps sel = Inl err"
proof -
  let ?data = "selected_apps_data env apps sel"
  let ?customs = "filter (\<lambda>e. is_custom_app env (fst e)) ?data"
  obtain j where j: "j < length ?customs" "?customs ! j = e"
    using assms(1,2) in_set_conv_nth [of e ?customs] by auto
  then have "snd (icon_fetches env ?data ! j) = Inl reason"
    using assms(3) by (cases e) (simp add: icon_fetches_def)
  moreover have "j \<in> set order" using j(1) assms(4) by (simp add: icon_fetches_def)
  ultimately obtain err where "first_rejection (icon_fetches env ?data) order = Some err"
    using first_rejection_None [of "icon_fetches env ?data" order] by fastforce
  then show ?thesis using on_backup_rejected by blast
qed

theorem on_backup_fetch_failure_witness:
  "\<exists>err. on_backup (example_env (\<lambda>p. if p = ''file:///icons/notes.png'' then Inl ''NetworkError'' else Inr [[1]]))
           [0, 1] example_apps [1, 3] = Inl err"
  by (rule on_backup_fetch_failure [where e = "(''custom-1'', example_info ''Notes'' ''file:///icons/notes.png'')"
        and reason = "''NetworkError''"])
     (auto simp: example_env_def example_apps_def selected_apps_data_def backup_entry_def
        icon_fetches_def example_info_def js_opt_to_string_def)

text \<open>C10: When the icons have distinct file names, the zip \<open>onBackup\<close> saves
  holds the same files whatever order the icon fetches complete in.\<close>

theorem on_backup_order_independent:
  assumes "distinct (map fst (icon_fetches env (selected_apps_data env apps sel)))"
    and "mset o1 = mset o2"
    and "set o1 \<subseteq> {..<length (icon_fetches env (selected_apps_data env apps sel))}"
  shows "map_option map_of (saved_zip (on_backup env o1 apps sel)) =
         map_option map_of (saved_zip (on_backup env o2 apps sel))"
proof -
  let ?f = "icon_fetches env (selected_apps_data env apps sel)"
  let ?w = "\<lambda>ord. icon_writes (images_foldername env) ?f ord"
  have set_eq: "set o1 = set o2" using assms(2) by (metis set_mset_mset)
  have rej: "first_rejection ?f o1 = None \<longleftrightarrow> first_rejection ?f o2 = None"
    using set_eq by (simp add: first_rejection_None)
  have same: "set (rev (?w o1)) = set (rev (?w o2))"
    using set_eq by (auto simp: mem_icon_writes)
  have functional: "c = c'" if h1: "(k, c) \<in> set (rev (?w o1))" and h2: "(k, c') \<in> set (rev (?w o1))" for k c c'
  proof -
    obtain i name ch where i: "i \<in> set o1" "?f ! i = (name, Inr ch)" "k = images_foldername env @ ''/'' @ name"
        "c = ZChunk ch"
      using h1 unfolding set_rev mem_icon_writes by blast
    obtain j name' ch' where j: "j \<in> set o1" "?f ! j = (name', Inr ch')" "k = images_foldername env @ ''/'' @ name'"
        "c' = ZChunk ch'"
      using h2 unfolding set_rev mem_icon_writes by blast
    have lt: "i < length ?f" "j < length ?f" using i(1) j(1) assms(3) by auto
    have "map fst ?f ! i = map fst ?f ! j" using i j lt by simp
    then have "i = j" using nth_eq_iff_index_eq [OF assms(1), of i j] lt by simp
    then show ?thesis using i j by simp
  qed
  have "map_of (rev (?w o1)) = map_of (rev (?w o2))"
    by (rule map_of_eq_functional [OF same functional])
  then show ?thesis using rej by (simp add: on_backup_saved map_of_add_icons)
qed

theorem on_backup_order_independent_witness:
  "map_option map_of (saved_zip (on_backup (example_env (\<lambda>p. Inr [[1]])) [0, 1] example_apps [1, 3])) =
   map_option map_of (saved_zip (on_backup (example_env (\<lambda>p. Inr [[1]])) [1, 0] example_apps [1, 3]))"
  by (rule on_backup_order_independent)
     (simp_all add: example_env_def example_apps_def selected_apps_data_def backup_entry_def
        icon_fetches_def example_info_def icon_filename_def js_opt_to_string_def)

section \<open>Findings\<close>

text \<open>The selection holds indices into the list: when an app above the ticked
  one is uninstalled while the dialog is open, the backup holds the app that
  moved into the ticked row, not the one the user ticked.\<close>

theorem backup_selection_shifts_on_uninstall:
  "map fst (selected_apps_data (example_env (\<lambda>p. Inr [[1]]))
      (apps_list (backup_step example_view (AppSelected 2)))
      (selected_apps (dialog (backup_step example_view (AppSelected 2))))) = [''slack''] \<and>
   map fst (selected_apps_data (example_env (\<lambda>p. Inr [[1]]))
      (apps_list (backup_step (backup_step example_view (AppSelected 2)) (AppsChanged (tl example_apps))))
      (selected_apps (dialog (backup_step (backup_step example_view (AppSelected 2))
         (AppsChanged (tl example_apps)))))) = [''custom-2'']"
  by (simp add: example_view_def example_apps_def selected_apps_data_def backup_entry_def
      on_app_selected_eq backup_dialog_init_def)

text \<open>With All ticked, an app installed while the dialog is open is listed
  unticked while the All box stays ticked, and the backup leaves it out.\<close>

theorem backup_all_box_stale_on_install:
  "all_apps_selected (dialog (backup_step (backup_step example_view AllAppsSelected)
      (AppsChanged (example_apps @ [(''zoom'', example_info ''Zoom'' ''zoom.png'')])))) \<and>
   \<not> row_checked (dialog (backup_step (backup_step example_view AllAppsSelected)
      (AppsChanged (example_apps @ [(''zoom'', example_info ''Zoom'' ''zoom.png'')])))) 4 \<and>
   length (selected_apps_data (example_env (\<lambda>p. Inr [[1]]))
      (example_apps @ [(''zoom'', example_info ''Zoom'' ''zoom.png'')])
      (selected_apps (dialog (backup_step example_view AllAppsSelected)))) = 4"
  by (simp add: example_view_def example_apps_def selected_apps_data_def on_all_app_selected_def
      backup_dialog_init_def upt_rec)

text \<open>Two custom apps of the same name whose icon files have the same name
  write the same path of the zip: the icon kept is the one whose fetch
  completes last.\<close>

theorem backup_icon_collision_depends_on_order:
  "map_option (\<lambda>z. map_of z ''images/Notes-icon.png'')
     (saved_zip (on_backup (example_env (\<lambda>p. if p = ''file:///a/icon.png'' then Inr [[1]] else Inr [[2]]))
        [0, 1] twin_apps [0, 1])) = Some (Some (ZChunk (Some [2]))) \<and>
   map_option (\<lambda>z. map_of z ''images/Notes-icon.png'')
     (saved_zip (on_backup (example_env (\<lambda>p. if p = ''file:///a/icon.png'' then Inr [[1]] else Inr [[2]]))
        [1, 0] twin_apps [0, 1])) = Some (Some (ZChunk (Some [1])))"
  by (simp add: on_backup_saved map_of_add_icons first_rejection_def icon_writes_def icon_fetches_def
      example_env_def twin_apps_def selected_apps_data_def backup_entry_def example_info_def
      icon_filename_def js_opt_to_string_def map_add_def zip_file_def)

text \<open>Only the first chunk of an icon's response body is read: an icon that
  arrives in two chunks is saved truncated.\<close>

theorem backup_icon_first_chunk_only:
  "map_option (\<lambda>z. map_of z ''images/Notes-notes.png'')
     (saved_zip (on_backup (example_env (\<lambda>p. Inr [[137, 80], [78, 71]])) [0] example_apps [1])) =
   Some (Some (ZChunk (Some [137, 80])))"
  by (simp add: on_backup_saved map_of_add_icons first_rejection_def icon_writes_def icon_fetches_def
      example_env_def example_apps_def selected_apps_data_def backup_entry_def example_info_def
      icon_filename_def js_opt_to_string_def map_add_def zip_file_def)

end
