(* ===== verification/AppBar.thy ===== *)
theory AppBar
  imports Prelude
begin

text \<open>
  The title bar of src/src/components/shared/enhanced-app-bar.js. Its three
  regions share \<open>onDoubleClick\<close>. That handler acts only when the bar itself
  is clicked, not a child, and then minimizes or toggles the maximization of
  the window: on macOS as the system preference \<open>AppleActionOnDoubleClick\<close>
  says, elsewhere always by maximizing. The bar renders the menu button and,
  on Windows and Linux with the custom title bar, the window controls. In
  menu-bar mode the controls are only the minimize button, which hides the
  window.

  \<open>window.process.platform\<close>, \<open>window.mode\<close>, the static global
  \<open>useSystemTitleBar\<close> and the macOS preference are the fields of
  \<open>bar_env\<close>. The window is a record of the BrowserWindow state the handlers
  read and change. A handler's calls on it are a list of \<open>win_call\<close>; the
  store's \<open>isMaximized\<close>, which the labels read, is a parameter.
\<close>

record bar_env =
  bar_platform :: string
  window_mode :: string
  use_system_title_bar :: bool
  apple_action_on_double_click :: string

record win =
  maximized :: bool
  minimized :: bool
  visible :: bool
  closed :: bool

datatype win_call = WinMinimize | WinMaximize | WinUnmaximize | WinHide | WinClose | ShowAppMenu int int

text \<open>The BrowserWindow methods the bar calls, and \<open>requestShowAppMenu\<close>, which
  leaves the window as it is.\<close>

fun win_apply :: "win_call \<Rightarrow> win \<Rightarrow> win" where
  "win_apply WinMinimize w = w\<lparr>minimized := True\<rparr>"
| "win_apply WinMaximize w = w\<lparr>maximized := True\<rparr>"
| "win_apply WinUnmaximize w = w\<lparr>maximized := False\<rparr>"
| "win_apply WinHide w = w\<lparr>visible := False\<rparr>"
| "win_apply WinClose w = w\<lparr>closed := True\<rparr>"
| "win_apply (ShowAppMenu x y) w = w"

section \<open>The handlers\<close>

text \<open>\<open>onDoubleClick(e)\<close>; \<open>on_bar\<close> is \<open>e.target === e.currentTarget\<close>.\<close>

definition on_double_click :: "bar_env \<Rightarrow> bool \<Rightarrow> win \<Rightarrow> win_call list" where
  "on_double_click env on_bar w =
     (if \<not> on_bar then []
      else (let system_pref = (if bar_platform env = ''darwin'' then apple_action_on_double_click env
                               else ''Maximize'')
            in if system_pref = ''Minimize'' then [WinMinimize]
               else if system_pref = ''Maximize'' then
                 (if maximized w then [WinUnmaximize] else [WinMaximize])
               else []))"

definition should_show_menu_button :: "bar_env \<Rightarrow> bool" where
  "should_show_menu_button env =
     (if bar_platform env = ''darwin'' then window_mode env = ''menubar''
      else window_mode env = ''menubar'' \<or> \<not> use_system_title_bar env)"

datatype bar_button = MenuButton | MinimizeButton | MaximizeButton | CloseButton

text \<open>The buttons the bar renders, left to right.\<close>

definition rendered_buttons :: "bar_env \<Rightarrow> bar_button list" where
  "rendered_buttons env =
     (if should_show_menu_button env then [MenuButton] else []) @
     (if bar_platform env \<noteq> ''darwin'' \<and> \<not> use_system_title_bar env
      then MinimizeButton # (if window_mode env \<noteq> ''menubar'' then [MaximizeButton, CloseButton] else [])
      else [])"

text \<open>\<open>aria-label\<close> of each button, given the store's \<open>isMaximized\<close>.\<close>

fun aria_label :: "bool \<Rightarrow> bar_button \<Rightarrow> string" where
  "aria_label is_maximized MenuButton = ''Menu''"
| "aria_label is_maximized MinimizeButton = ''Minimize''"
| "aria_label is_maximized MaximizeButton = (if is_maximized then ''Unmaximize'' else ''Maximize'')"
| "aria_label is_maximized CloseButton = (if is_maximized then ''Unmaximize'' else ''Maximize'')"

text \<open>The \<open>onClick\<close> of each button, at the click's coordinates.\<close>

fun on_button_click :: "bar_env \<Rightarrow> win \<Rightarrow> int \<Rightarrow> int \<Rightarrow> bar_button \<Rightarrow> win_call list" where
  "on_button_click env w x y MenuButton = [ShowAppMenu x y]"
| "on_button_click env w x y MinimizeButton =
     (if window_mode env = ''menubar'' then [WinHide] else [WinMinimize])"
| "on_button_click env w x y MaximizeButton =
     (if maximized w then [WinUnmaximize] else [WinMaximize])"
| "on_button_click env w x y CloseButton = [WinClose]"

text \<open>A double click on a region of the bar (on the bar itself or on a child),
  or a click on a rendered button. A button's click stops its propagation;
  the double click on a button reaches the region with the button as target
  and so does nothing.\<close>

datatype bar_event = DoubleClick bool | Click bar_button int int

fun bar_step :: "bar_env \<Rightarrow> win \<Rightarrow> bar_event \<Rightarrow> win" where
  "bar_step env w (DoubleClick on_bar) = fold win_apply (on_double_click env on_bar w) w"
| "bar_step env w (Click b x y) =
     (if b \<in> set (rendered_buttons env) then fold win_apply (on_button_click env w x y b) w else w)"

definition bar_run :: "bar_env \<Rightarrow> win \<Rightarrow> bar_event list \<Rightarrow> win" where
  "bar_run env w evs = foldl (bar_step env) w evs"

definition example_win :: win where
  "example_win = \<lparr>maximized = False, minimized = False, visible = True, closed = False\<rparr>"

definition example_bar :: "string \<Rightarrow> string \<Rightarrow> bar_env" where
  "example_bar plat mode =
     \<lparr>bar_platform = plat, window_mode = mode, use_system_title_bar = False,
      apple_action_on_double_click = ''''\<rparr>"

section \<open>Lemmas\<close>

lemma fold_win_apply_closed:
  "WinClose \<notin> set cs \<Longrightarrow> closed (fold win_apply cs w) = closed w"
proof (induction cs arbitrary: w)
  case (Cons c cs)
  then show ?case by (cases c) simp_all
qed simp

lemma on_double_click_no_close [simp]: "WinClose \<notin> set (on_double_click env on_bar w)"
  by (simp add: on_double_click_def Let_def)

lemma menubar_no_close_button:
  "window_mode env = ''menubar'' \<Longrightarrow> CloseButton \<notin> set (rendered_buttons env)"
  by (simp add: rendered_buttons_def)

lemma bar_step_closed:
  "window_mode env = ''menubar'' \<Longrightarrow> closed (bar_step env w ev) = closed w"
proof (cases ev)
  case (Click b x y)
  assume m: "window_mode env = ''menubar''"
  show ?thesis
  proof (cases "b \<in> set (rendered_buttons env)")
    case True
    then have "b \<noteq> CloseButton" using menubar_no_close_button [OF m] by auto
    then have "WinClose \<notin> set (on_button_click env w x y b)"
      by (cases b) (simp_all split: if_splits)
    then show ?thesis using Click True by (simp add: fold_win_apply_closed)
  qed (simp add: Click)
qed (simp add: fold_win_apply_closed)

lemma double_click_maximize_toggles:
  assumes "bar_platform env \<noteq> ''darwin'' \<or> apple_action_on_double_click env = ''Maximize''"
  shows "bar_step env w (DoubleClick True) = w\<lparr>maximized := \<not> maximized w\<rparr>"
proof -
  have "on_double_click env True w = (if maximized w then [WinUnmaximize] else [WinMaximize])"
    using assms by (auto simp: on_double_click_def)
  then show ?thesis by simp
qed

section \<open>Properties\<close>



text \<open>C36: In menu-bar mode no sequence of clicks and double clicks on the
  title bar closes the window: the bar renders no close button there.\<close>

theorem app_bar_menubar_never_closes:
  assumes "window_mode env = ''menubar''"
  shows "closed (bar_run env w evs) = closed w"
  unfolding bar_run_def
proof (induction evs arbitrary: w)
  case (Cons ev evs)
  then show ?case using bar_step_closed [OF assms, of "w" ev] by simp
qed simp

theorem app_bar_menubar_never_closes_witness:
  "closed (bar_run (example_bar ''linux'' ''menubar'') example_win
     [Click CloseButton 0 0, Click MinimizeButton 0 0, DoubleClick True]) = closed example_win"
  by (rule app_bar_menubar_never_closes) (simp add: example_bar_def)

section \<open>Findings\<close>

text \<open>In menu-bar mode the maximize button is not rendered, yet a double
  click on the bar maximizes the menu-bar window on Windows and Linux.\<close>

theorem app_bar_menubar_double_click_maximizes:
  "bar_run (example_bar ''win32'' ''menubar'') example_win [DoubleClick True] =
     example_win\<lparr>maximized := True\<rparr> \<and>
   MaximizeButton \<notin> set (rendered_buttons (example_bar ''win32'' ''menubar''))"
  by (simp add: bar_run_def example_bar_def example_win_def on_double_click_def rendered_buttons_def
      should_show_menu_button_def)

text \<open>The close button carries the maximize button's label: a screen reader
  announces Maximize or Unmaximize for the button that closes the window.\<close>

theorem app_bar_close_button_label:
  "aria_label m CloseButton = aria_label m MaximizeButton \<and>
   on_button_click env w x y CloseButton = [WinClose]"
  by simp

text \<open>On macOS, when the preference \<open>AppleActionOnDoubleClick\<close> was never set,
  \<open>getUserDefault\<close> gives the empty string and a double click on the bar does
  nothing, although the system then zooms a window on a double click.\<close>

theorem app_bar_mac_unset_preference:
  "bar_run (example_bar ''darwin'' ''main'') example_win [DoubleClick True] = example_win"
  by (simp add: bar_run_def example_bar_def on_double_click_def)

end
