(* ===== verification/AppDialogs.thy ===== *)
theory AppDialogs
  imports Json
begin

text \<open>
  The app dialogs under src/src/components/dialogs. dialog-edit-app.js edits
  an installed app and dialog-create-custom-app.js creates a custom one; both
  show the app's icon, offer to pick a local image, to download an icon or to
  reset it, and on Linux the freedesktop menu categories.
  dialog-license-registration.js takes a license key, and
  dialog-catalog-app-details.js shows a catalog app's details.

  The dialogs' forms live in the store (state/dialog-*/, not under src/). A
  dialog renders its props, and each control's handler dispatches actions.
  So a handler is modelled as the list of actions one user action dispatches:
  nothing when the control is not rendered or is disabled. The helpers and
  constants that are not under src/ are fields of \<open>form_env\<close>: \<open>isUrl\<close>,
  \<open>getAssetPath\<close>, \<open>extractHostname\<close>, the default icon asset, the
  freedesktop category lists and the platform. A string prop that may be
  \<open>null\<close> or \<open>undefined\<close> is a \<open>string option\<close>, read with JavaScript
  truthiness, so the empty string counts as absent.
\<close>

record form_env =
  is_url :: "string \<Rightarrow> bool"
  get_asset_path :: "string \<Rightarrow> string"
  extract_hostname :: "string option \<Rightarrow> string option"
  default_icon :: string
  form_platform :: string
  main_categories :: "string list"
  additional_categories :: "(string \<times> string list option) list"

definition str_truthy :: "string option \<Rightarrow> bool" where
  "str_truthy v \<longleftrightarrow> (case v of None \<Rightarrow> False | Some s \<Rightarrow> s \<noteq> [])"

definition str_or_empty :: "string option \<Rightarrow> string" where
  "str_or_empty v = (case v of None \<Rightarrow> [] | Some s \<Rightarrow> s)"

datatype form_value = FStr string | FBool bool | FNull

datatype form_action =
    UpdateForm "(string \<times> form_value) list"
  | UpdateFormOpts "(string \<times> form_value) list"
  | GetIconFromInternet
  | GetIconFromAppSearch
  | CloseDialog
  | SaveApp
  | CreateApp
  | RegisterLicense
  | OpenCreateCustomApp "(string \<times> form_value) list"
  | OpenInBrowser string
  | ConsoleLog

section \<open>Freedesktop categories (both app dialogs)\<close>

text \<open>The additional categories offered for a main category: those without
  \<open>relatedMainCategories\<close> and those whose list includes it.\<close>

definition additional_options :: "form_env \<Rightarrow> string \<Rightarrow> string list" where
  "additional_options env main =
     map fst (filter (\<lambda>c. case snd c of None \<Rightarrow> True | Some rel \<Rightarrow> main \<in> set rel)
                (additional_categories env))"

text \<open>The Select shows the blank category \<open>''\<close> as \<open>_\<close>, and writes \<open>_\<close> back as \<open>''\<close>.\<close>

definition additional_to_select :: "string \<Rightarrow> string" where
  "additional_to_select a = (if a = [] then ''_'' else a)"

definition additional_from_select :: "string \<Rightarrow> string" where
  "additional_from_select v = (if v = ''_'' then [] else v)"

definition category_consistent :: "form_env \<Rightarrow> string \<Rightarrow> string \<Rightarrow> bool" where
  "category_consistent env main additional \<longleftrightarrow>
     additional = [] \<or> additional \<in> set (additional_options env main)"

section \<open>Edit app dialog\<close>

text \<open>The props of \<open>DialogEditApp\<close>: \<open>mapStateToProps\<close> of the dialog's
  state with the component's \<open>defaultProps\<close> applied.\<close>

record edit_props =
  ep_apply_icon_template :: bool
  ep_downloading_icon :: bool
  ep_main_category :: string
  ep_additional_category :: string
  ep_icon :: "string option"
  ep_id :: string
  ep_internet_icon :: "string option"
  ep_name :: string
  ep_savable :: bool
  ep_url :: string
  ep_url_disabled :: bool
  ep_url_error :: "string option"

record edit_form =
  ef_apply_icon_template :: "bool option"
  ef_icon :: "string option"
  ef_id :: "string option"
  ef_internet_icon :: "string option"
  ef_name :: "string option"
  ef_opts :: "(string option \<times> string option) option"
  ef_url :: "string option"
  ef_url_disabled :: "bool option"
  ef_url_error :: "string option"

definition edit_props_of :: "bool \<Rightarrow> bool option \<Rightarrow> edit_form \<Rightarrow> edit_props" where
  "edit_props_of downloading savable f =
     \<lparr>ep_apply_icon_template = (case ef_apply_icon_template f of None \<Rightarrow> False | Some b \<Rightarrow> b),
      ep_downloading_icon = downloading,
      ep_main_category = (case ef_opts f of None \<Rightarrow> ''Network''
                           | Some (m, a) \<Rightarrow> (case m of None \<Rightarrow> ''Network'' | Some s \<Rightarrow> s)),
      ep_additional_category = (case ef_opts f of None \<Rightarrow> []
                           | Some (m, a) \<Rightarrow> (case a of None \<Rightarrow> [] | Some s \<Rightarrow> s)),
      ep_icon = ef_icon f,
      ep_id = (case ef_id f of None \<Rightarrow> [] | Some s \<Rightarrow> s),
      ep_internet_icon = ef_internet_icon f,
      ep_name = (case ef_name f of None \<Rightarrow> [] | Some s \<Rightarrow> s),
      ep_savable = (case savable of None \<Rightarrow> False | Some b \<Rightarrow> b),
      ep_url = (case ef_url f of None \<Rightarrow> [] | Some s \<Rightarrow> s),
      ep_url_disabled = (case ef_url_disabled f of None \<Rightarrow> False | Some b \<Rightarrow> b),
      ep_url_error = ef_url_error f\<rparr>"

text \<open>\<open>iconPath\<close>: the form's icon (a URL, or a local path read through
  \<open>file://\<close>), else the downloaded icon, else the default one.\<close>

definition edit_icon_path :: "form_env \<Rightarrow> edit_props \<Rightarrow> string" where
  "edit_icon_path env p =
     (if str_truthy (ep_icon p) then
        (if is_url env (str_or_empty (ep_icon p)) then str_or_empty (ep_icon p)
         else ''file://'' @ str_or_empty (ep_icon p))
      else if str_truthy (ep_internet_icon p) then str_or_empty (ep_internet_icon p)
      else default_icon env)"

definition is_custom_id :: "string \<Rightarrow> bool" where
  "is_custom_id app_id \<longleftrightarrow> take 7 app_id = ''custom-''"

text \<open>What the user does in the edit dialog; \<open>SelectLocalImage\<close> is the
  resolved \<open>showOpenDialog\<close> (whether it was canceled, and the chosen paths),
  \<open>LocalImageFailed\<close> its rejection.\<close>

datatype edit_event =
    EditUrl string
  | SelectLocalImage bool "string list"
  | LocalImageFailed
  | EditDownloadFromUrl
  | EditDownloadFromAppSearch
  | EditResetIcon
  | SetIconTemplate bool
  | EditMainCategory string
  | EditAdditionalCategory string
  | CloneApp
  | CancelEdit
  | SaveEdit

fun edit_handle :: "form_env \<Rightarrow> edit_props \<Rightarrow> edit_event \<Rightarrow> form_action list" where
  "edit_handle env p (EditUrl u) =
     (if \<not> ep_url_disabled p then [UpdateForm [(''url'', FStr u)]] else [])"
| "edit_handle env p (SelectLocalImage canceled file_paths) =
     (if is_custom_id (ep_id p) \<and> \<not> canceled \<and> file_paths \<noteq> []
      then [UpdateForm [(''icon'', FStr (hd file_paths))]] else [])"
| "edit_handle env p LocalImageFailed = (if is_custom_id (ep_id p) then [ConsoleLog] else [])"
| "edit_handle env p EditDownloadFromUrl =
     (if is_custom_id (ep_id p) \<and>
         \<not> (ep_url p = [] \<or> str_truthy (ep_url_error p) \<or> ep_downloading_icon p)
      then [GetIconFromInternet] else [])"
| "edit_handle env p EditDownloadFromAppSearch =
     (if is_custom_id (ep_id p) \<and>
         \<not> (ep_url p = [] \<or> str_truthy (ep_url_error p) \<or> ep_url_disabled p \<or> ep_downloading_icon p)
      then [GetIconFromAppSearch] else [])"
| "edit_handle env p EditResetIcon =
     (if is_custom_id (ep_id p) \<and>
         \<not> (\<not> (str_truthy (ep_icon p) \<or> str_truthy (ep_internet_icon p)) \<or> ep_downloading_icon p)
      then [UpdateForm [(''icon'', FNull), (''internetIcon'', FNull)]] else [])"
| "edit_handle env p (SetIconTemplate b) =
     (if is_custom_id (ep_id p) then [UpdateForm [(''applyIconTemplate'', FBool b)]] else [])"
| "edit_handle env p (EditMainCategory m) =
     (if form_platform env = ''linux'' \<and> m \<in> set (main_categories env)
      then [UpdateFormOpts [(''freedesktopMainCategory'', FStr m), (''freedesktopAdditionalCategory'', FStr [])]]
      else [])"
| "edit_handle env p (EditAdditionalCategory v) =
     (if form_platform env = ''linux'' \<and> v \<in> set (''_'' # additional_options env (ep_main_category p))
      then [UpdateFormOpts [(''freedesktopAdditionalCategory'', FStr (additional_from_select v))]]
      else [])"
| "edit_handle env p CloneApp =
     [CloseDialog,
      OpenCreateCustomApp [(''name'', FStr (ep_name p @ '' 2'')), (''url'', FStr (ep_url p)),
                           (''urlDisabled'', FBool (ep_url p = [])),
                           (''icon'', (case ep_icon p of None \<Rightarrow> FNull | Some s \<Rightarrow> FStr s))]]"
| "edit_handle env p CancelEdit = [CloseDialog]"
| "edit_handle env p SaveEdit = (if ep_savable p then [SaveApp] else [])"

section \<open>Create custom app dialog\<close>

text \<open>The fields \<open>DialogCreateCustomApp\<close> destructures from the form, with the
  default \<open>'Network'\<close> of the main category.\<close>

record create_form =
  cf_additional_category :: "string option"
  cf_main_category :: "string option"
  cf_icon :: "string option"
  cf_internet_icon :: "string option"
  cf_name :: "string option"
  cf_url :: "string option"
  cf_url_disabled :: bool
  cf_url_error :: "string option"

definition create_main_category :: "create_form \<Rightarrow> string" where
  "create_main_category f = (case cf_main_category f of None \<Rightarrow> ''Network'' | Some m \<Rightarrow> m)"

text \<open>\<open>iconPath\<close>: \<open>getAssetPath(icon)\<close>, else the downloaded icon, else the default.\<close>

definition create_icon_path :: "form_env \<Rightarrow> create_form \<Rightarrow> string" where
  "create_icon_path env f =
     (if str_truthy (cf_icon f) then get_asset_path env (str_or_empty (cf_icon f))
      else if str_truthy (cf_internet_icon f) then str_or_empty (cf_internet_icon f)
      else default_icon env)"

datatype create_event =
    CreateName string
  | SetClassification bool
  | CreateUrl string
  | CreateLocalImage bool "string list"
  | CreateLocalImageFailed
  | CreateDownloadFromUrl
  | CreateDownloadFromAppSearch
  | CreateResetIcon
  | CreateMainCategory string
  | CreateAdditionalCategory string
  | CancelCreate
  | Install

fun create_handle :: "form_env \<Rightarrow> bool \<Rightarrow> create_form \<Rightarrow> create_event \<Rightarrow> form_action list" where
  "create_handle env downloading f (CreateName n) = [UpdateForm [(''name'', FStr n)]]"
| "create_handle env downloading f (SetClassification b) = [UpdateForm [(''urlDisabled'', FBool b)]]"
| "create_handle env downloading f (CreateUrl u) =
     (if \<not> cf_url_disabled f then [UpdateForm [(''url'', FStr u)]] else [])"
| "create_handle env downloading f (CreateLocalImage canceled file_paths) =
     (if \<not> downloading \<and> \<not> canceled \<and> file_paths \<noteq> []
      then [UpdateForm [(''icon'', FStr (hd file_paths))]] else [])"
| "create_handle env downloading f CreateLocalImageFailed = (if \<not> downloading then [ConsoleLog] else [])"
| "create_handle env downloading f CreateDownloadFromUrl =
     (if \<not> (\<not> str_truthy (cf_url f) \<or> str_truthy (cf_url_error f) \<or> cf_url_disabled f \<or> downloading)
      then [GetIconFromInternet] else [])"
| "create_handle env downloading f CreateDownloadFromAppSearch =
     (if \<not> (\<not> str_truthy (cf_url f) \<or> str_truthy (cf_url_error f) \<or> cf_url_disabled f \<or> downloading)
      then [GetIconFromAppSearch] else [])"
| "create_handle env downloading f CreateResetIcon =
     (if \<not> (\<not> (str_truthy (cf_icon f) \<or> str_truthy (cf_internet_icon f)) \<or> downloading)
      then [UpdateForm [(''icon'', FNull), (''internetIcon'', FNull)]] else [])"
| "create_handle env downloading f (CreateMainCategory m) =
     (if form_platform env = ''linux'' \<and> m \<in> set (main_categories env)
      then [UpdateForm [(''freedesktopMainCategory'', FStr m), (''freedesktopAdditionalCategory'', FStr [])]]
      else [])"
| "create_handle env downloading f (CreateAdditionalCategory v) =
     (if form_platform env = ''linux'' \<and> v \<in> set (''_'' # additional_options env (create_main_category f))
      then [UpdateForm [(''freedesktopAdditionalCategory'', FStr (additional_from_select v))]]
      else [])"
| "create_handle env downloading f CancelCreate = [CloseDialog]"
| "create_handle env downloading f Install = [CreateApp]"

section \<open>License registration dialog\<close>

definition pricing_url :: string where
  "pricing_url = ''https://webcatalog.app/pricing?utm_source=webcatalog_app''"

definition lost_key_url :: string where
  "lost_key_url =
     ''https://docs.webcatalog.io/article/9-i-lost-my-license-key-how-can-i-retrieve-it?utm_source=webcatalog_app''"

definition license_helper_text :: "string option \<Rightarrow> string" where
  "license_helper_text license_key_error =
     (if str_truthy license_key_error then str_or_empty license_key_error
      else ''If you have already purchased WebCatalog Lifetime from our store, you should have received a license key via email to enter above.'')"

datatype license_event =
    ClickPremiumFeatures
  | KeyOnPremiumFeatures string
  | EditLicenseKey string
  | LostLicenseKey
  | PurchaseLicense
  | LearnMore
  | CancelLicense
  | Register

fun license_handle :: "license_event \<Rightarrow> form_action list" where
  "license_handle ClickPremiumFeatures = [OpenInBrowser pricing_url]"
| "license_handle (KeyOnPremiumFeatures k) = (if k \<noteq> ''Enter'' then [] else [OpenInBrowser pricing_url])"
| "license_handle (EditLicenseKey k) = [UpdateForm [(''licenseKey'', FStr k)]]"
| "license_handle LostLicenseKey = [OpenInBrowser lost_key_url]"
| "license_handle PurchaseLicense = [OpenInBrowser pricing_url]"
| "license_handle LearnMore = [OpenInBrowser pricing_url]"
| "license_handle CancelLicense = [CloseDialog]"
| "license_handle Register = [RegisterLicense]"

text \<open>The dialog's props: \<open>mapStateToProps\<close> destructures
  \<open>state.dialogLicenseRegistration\<close> and its \<open>form\<close> (a \<open>TypeError\<close> when
  either is \<open>undefined\<close> or \<open>null\<close>), then \<open>defaultProps\<close> replace an
  \<open>undefined\<close> \<open>licenseKey\<close> with \<open>''\<close> and an \<open>undefined\<close>
  \<open>licenseKeyError\<close> with \<open>null\<close>.\<close>

record license_props =
  lp_license_key :: json
  lp_license_key_error :: json
  lp_open :: "json option"

definition license_props_of :: "json \<Rightarrow> string + license_props" where
  "license_props_of st =
     bind_sum (js_member (Some st) ''dialogLicenseRegistration'') (\<lambda>d.
     bind_sum (js_member d ''open'') (\<lambda>op.
     bind_sum (js_member d ''form'') (\<lambda>form.
     bind_sum (js_member form ''licenseKey'') (\<lambda>k.
     bind_sum (js_member form ''licenseKeyError'') (\<lambda>ke.
       Inr \<lparr>lp_license_key = (case k of None \<Rightarrow> JStr [] | Some v \<Rightarrow> v),
            lp_license_key_error = (case ke of None \<Rightarrow> JNull | Some v \<Rightarrow> v),
            lp_open = op\<rparr>)))))"

text \<open>The license key field as rendered: its value, \<open>error\<close> and \<open>helperText\<close>.\<close>

definition license_field :: "license_props \<Rightarrow> json \<times> bool \<times> string" where
  "license_field p =
     (lp_license_key p, truthy (Some (lp_license_key_error p)),
      if truthy (Some (lp_license_key_error p)) then js_to_string (lp_license_key_error p)
      else license_helper_text None)"

section \<open>Catalog app details dialog\<close>

record catalog_details =
  cd_err :: bool
  cd_id :: string
  cd_name :: string
  cd_url :: "string option"
  cd_category :: "string option"
  cd_icon256 :: string
  cd_related_paths :: "string list option"

text \<open>What the dialog shows of loaded details.\<close>

record details_shown =
  ds_thumbnail :: string
  ds_website :: "string option"
  ds_classification :: string
  ds_category :: "string option"
  ds_id :: string
  ds_related_paths :: "string list"
  ds_legal :: "string option"
  ds_share :: "string option"

datatype details_view = DetailsLoading | DetailsFailed | DetailsShown details_shown

definition share_url :: "catalog_details option \<Rightarrow> string" where
  "share_url d =
     (case d of None \<Rightarrow> []
      | Some x \<Rightarrow> if \<not> cd_err x \<and> str_truthy (cd_url x)
                 then ''https://webcatalog.io/webcatalog/apps/'' @ cd_id x @ ''/'' else [])"

definition details_view :: "form_env \<Rightarrow> catalog_details option \<Rightarrow> details_view" where
  "details_view env d =
     (case d of
        None \<Rightarrow> DetailsLoading
      | Some x \<Rightarrow>
          if cd_err x then DetailsFailed
          else (let hostname = extract_hostname env (cd_url x) in
            DetailsShown
              \<lparr>ds_thumbnail = (if is_url env (cd_icon256 x) then cd_icon256 x else ''file://'' @ cd_icon256 x),
               ds_website = (if str_truthy (cd_url x) then Some (str_or_empty hostname) else None),
               ds_classification = (if str_truthy (cd_url x) then ''App'' else ''Space''),
               ds_category = (if str_truthy (cd_category x) then cd_category x else None),
               ds_id = cd_id x,
               ds_related_paths = (case cd_related_paths x of None \<Rightarrow> [] | Some ps \<Rightarrow> ps),
               ds_legal = (if str_truthy (cd_url x) \<or> take 6 (cd_id x) = ''group-''
                           then Some (''We are not affiliated, associated, authorized, endorsed by or in any way officially connected to '' @
                                      cd_name x @ (if str_truthy hostname then '' ('' @ str_or_empty hostname @ '')'' else []) @
                                      '', except for the fact that we use their websites to develop and provide you this app. All product names, logos, and brands are property of their respective owners.'')
                           else None),
               ds_share = (if \<not> is_custom_id (cd_id x) \<and> str_truthy (cd_url x) then Some (share_url d) else None)\<rparr>))"

section \<open>Reading the dispatched updates\<close>

text \<open>An action that changes the icon: a form update of the icon fields, or an
  icon download.\<close>

fun icon_action :: "form_action \<Rightarrow> bool" where
  "icon_action (UpdateForm fs) =
     list_ex (\<lambda>kv. fst kv \<in> {''icon'', ''internetIcon'', ''applyIconTemplate''}) fs"
| "icon_action GetIconFromInternet = True"
| "icon_action GetIconFromAppSearch = True"
| "icon_action _ = False"

text \<open>The string a form update writes to a field, or what the field held.\<close>

definition written_str :: "(string \<times> form_value) list \<Rightarrow> string \<Rightarrow> string \<Rightarrow> string" where
  "written_str fs k old = (case map_of fs k of Some (FStr s) \<Rightarrow> s | _ \<Rightarrow> old)"

definition category_updates :: "form_action \<Rightarrow> (string \<times> form_value) list option" where
  "category_updates a =
     (case a of
        UpdateFormOpts fs \<Rightarrow> Some fs
      | UpdateForm fs \<Rightarrow>
          if list_ex (\<lambda>kv. fst kv \<in> {''freedesktopMainCategory'', ''freedesktopAdditionalCategory''}) fs
          then Some fs else None
      | _ \<Rightarrow> None)"

definition example_form_env :: form_env where
  "example_form_env =
     \<lparr>is_url = (\<lambda>s. take 8 s = ''https://''), get_asset_path = (\<lambda>s. ''file://'' @ s),
      extract_hostname = (\<lambda>u. u), default_icon = ''default-icon.png'', form_platform = ''linux'',
      main_categories = [''Network'', ''Office''],
      additional_categories = [(''Email'', Some [''Network'', ''Office'']), (''Chat'', Some [''Network'']),
                               (''Calendar'', None)]\<rparr>"

definition example_edit_props :: "string \<Rightarrow> edit_props" where
  "example_edit_props app_id =
     \<lparr>ep_apply_icon_template = False, ep_downloading_icon = False, ep_main_category = ''Network'',
      ep_additional_category = [], ep_icon = None, ep_id = app_id,
      ep_internet_icon = Some ''https://example.com/icon.png'', ep_name = ''Mail'', ep_savable = True,
      ep_url = ''https://mail.example.com'', ep_url_disabled = False, ep_url_error = None\<rparr>"

section \<open>Lemmas\<close>

lemma additional_from_to_select:
  "a \<noteq> ''_'' \<Longrightarrow> additional_from_select (additional_to_select a) = a"
  by (simp add: additional_from_select_def additional_to_select_def)

lemma written_str_simps [simp]:
  "written_str [] k old = old"
  "written_str ((k', v) # fs) k old = (if k' = k then (case v of FStr s \<Rightarrow> s | _ \<Rightarrow> old) else written_str fs k old)"
  by (simp_all add: written_str_def split: form_value.splits)

lemma license_props_of_no_form:
  "license_props_of (JObj [(''dialogLicenseRegistration'', JObj [(''open'', JBool True)])]) = Inl ''TypeError''"
  by (simp add: license_props_of_def)

lemma license_field_null_key:
  "license_props_of (JObj [(''dialogLicenseRegistration'', JObj [(''open'', JBool True),
      (''form'', JObj [(''licenseKey'', JNull), (''licenseKeyError'', JStr ''Invalid License Key'')])])]) =
     Inr p \<Longrightarrow>
   license_field p = (JNull, True, ''Invalid License Key'')"
  by (auto simp: license_props_of_def license_field_def)

section \<open>Properties\<close>

text \<open>C38: In the edit dialog of a catalog app (an id not starting with
  custom-) no user action changes the icon: none updates the icon fields or
  downloads an icon.\<close>

theorem edit_catalog_icon_locked:
  "\<not> is_custom_id (ep_id p) \<Longrightarrow> \<not> list_ex icon_action (edit_handle env p ev)"
  by (cases ev) simp_all

theorem edit_catalog_icon_locked_witness:
  "\<not> list_ex icon_action (edit_handle example_form_env (example_edit_props ''gmail'') EditResetIcon)"
  by (rule edit_catalog_icon_locked) (simp add: example_edit_props_def is_custom_id_def)

text \<open>C40: The additional-category Select shows a stored category that belongs
  to the main category as one of its options, and choosing that option writes
  the stored value back unchanged (the blank category goes through \<open>_\<close>).\<close>

theorem category_select_roundtrip:
  assumes "category_consistent env main a" and "a \<noteq> ''_''"
  shows "additional_to_select a \<in> set (''_'' # additional_options env main) \<and>
         additional_from_select (additional_to_select a) = a"
  using assms additional_from_to_select [OF assms(2)]
  by (auto simp: category_consistent_def additional_to_select_def)

theorem category_select_roundtrip_witness:
  "additional_to_select ''Chat'' \<in> set (''_'' # additional_options example_form_env ''Network'') \<and>
   additional_from_select (additional_to_select ''Chat'') = ''Chat''"
  by (rule category_select_roundtrip)
     (simp_all add: category_consistent_def additional_options_def example_form_env_def)

text \<open>C39: Every category update either app dialog dispatches leaves an
  additional category that is blank or belongs to the main category: choosing
  a main category blanks it, and only the offered ones can be chosen.\<close>

theorem category_updates_consistent:
  "list_all (\<lambda>a. case category_updates a of None \<Rightarrow> True | Some fs \<Rightarrow>
      category_consistent env
        (written_str fs ''freedesktopMainCategory'' (ep_main_category p))
        (written_str fs ''freedesktopAdditionalCategory'' (ep_additional_category p)))
     (edit_handle env p ev) \<and>
   list_all (\<lambda>b. case category_updates b of None \<Rightarrow> True | Some gs \<Rightarrow>
      category_consistent env
        (written_str gs ''freedesktopMainCategory'' (create_main_category f))
        (written_str gs ''freedesktopAdditionalCategory'' (str_or_empty (cf_additional_category f))))
     (create_handle env downloading f cev)"
proof
  show "list_all (\<lambda>a. case category_updates a of None \<Rightarrow> True | Some fs \<Rightarrow>
      category_consistent env
        (written_str fs ''freedesktopMainCategory'' (ep_main_category p))
        (written_str fs ''freedesktopAdditionalCategory'' (ep_additional_category p)))
     (edit_handle env p ev)"
    by (cases ev)
       (auto simp: list_all_iff category_updates_def category_consistent_def additional_from_select_def
             split: if_splits)
next
  show "list_all (\<lambda>b. case category_updates b of None \<Rightarrow> True | Some gs \<Rightarrow>
      category_consistent env
        (written_str gs ''freedesktopMainCategory'' (create_main_category f))
        (written_str gs ''freedesktopAdditionalCategory'' (str_or_empty (cf_additional_category f))))
     (create_handle env downloading f cev)"
    by (cases cev)
       (auto simp: list_all_iff category_updates_def category_consistent_def additional_from_select_def
             split: if_splits)
qed

section \<open>Findings\<close>

text \<open>Clone hands the create dialog only the name, the URL, whether the URL is
  disabled, and the form's icon. An icon downloaded from the internet
  (\<open>internetIcon\<close>) is not passed on, nor are the icon template and the menu
  categories: the clone of an app showing a downloaded icon starts with no icon.\<close>

theorem edit_clone_drops_downloaded_icon:
  "edit_handle example_form_env (example_edit_props ''custom-1'') CloneApp =
     [CloseDialog,
      OpenCreateCustomApp [(''name'', FStr ''Mail 2''), (''url'', FStr ''https://mail.example.com''),
                           (''urlDisabled'', FBool False), (''icon'', FNull)]] \<and>
   edit_icon_path example_form_env (example_edit_props ''custom-1'') = ''https://example.com/icon.png''"
  by (simp add: example_edit_props_def edit_icon_path_def str_truthy_def str_or_empty_def
      example_form_env_def)

text \<open>The edit dialog's Select Local Image button stays enabled while an icon
  is downloading, unlike the create dialog's, so a local image can be picked
  while a download is in flight.\<close>

theorem edit_local_image_while_downloading:
  "edit_handle env ((example_edit_props ''custom-1'')\<lparr>ep_downloading_icon := True\<rparr>)
     (SelectLocalImage False [''/tmp/a.png'']) = [UpdateForm [(''icon'', FStr ''/tmp/a.png'')]] \<and>
   create_handle env True f (CreateLocalImage False [''/tmp/a.png'']) = []"
  by (simp add: example_edit_props_def is_custom_id_def)

end
