(* ===== verification/DescriptorReader.thy ===== *)
theory DescriptorReader
  imports TagResolver JsonParse
begin

text \<open>
  The version descriptors of getTagNameAsync
  (src/main-src/libs/app-management/prepare-engine-async/index.js) are read
  with \<open>customizedFetch(url).then((res) => res.json())\<close>. This theory
  composes the resolver of TagResolver with the reader of JsonParse. A body
  fetcher gives the text of the response body, or the message of a network
  failure. \<open>res.json()\<close> is \<open>JSON.parse\<close> of that text, and a parse failure
  rejects the promise with the error's name.
\<close>

type_synonym body_fetcher = "string \<Rightarrow> string + string"

fun parse_error_name :: "parse_error \<Rightarrow> string" where
  "parse_error_name SyntaxError = ''SyntaxError''"
| "parse_error_name OutOfModel = ''OutOfModel''"
| "parse_error_name OutOfFuel = ''OutOfFuel''"

text \<open>\<open>customizedFetch(url).then((res) => res.json())\<close>\<close>

definition res_json :: "body_fetcher \<Rightarrow> fetcher" where
  "res_json raw url =
     (case raw url of
        Inl e \<Rightarrow> Inl (NetworkError e)
      | Inr body \<Rightarrow> (case json_parse body of
                      Inl e \<Rightarrow> Inl (BodyNotJson (parse_error_name e))
                    | Inr j \<Rightarrow> Inr j))"

definition descriptor_server :: "string \<Rightarrow> string \<Rightarrow> body_fetcher" where
  "descriptor_server stable_body beta_body url =
     (if url = STABLE_URL then Inr stable_body else if url = BETA_URL then Inr beta_body
      else Inl ''ENOTFOUND'')"

lemma parse_error_name_not_fuel:
  "e \<noteq> OutOfFuel \<Longrightarrow> parse_error_name e = ''SyntaxError'' \<or> parse_error_name e = ''OutOfModel''"
  by (cases e) simp_all

section \<open>Properties\<close>




section \<open>Findings\<close>

text \<open>A stable descriptor that is not JSON at all (an HTML error page served
  with status 200) fails the resolution with the reader's syntax error.\<close>

theorem stable_descriptor_html:
  "fst (get_tag_name False (res_json (descriptor_server ''<html>'' ''{}'')) True) =
   Inl (FetchFailed (BodyNotJson ''SyntaxError''))"
  by (simp add: get_tag_name_def read_version_def res_json_def descriptor_server_def json_parse_def
      skip_ws_def is_json_ws_def parse_literal_def is_digit_def numeral_eq_Suc)

end
