(* ===== verification/InstallPathDialog.thy ===== *)
theory InstallPathDialog
  imports ReduxState
begin

text \<open>
  The component of src/src/components/dialogs/dialog-set-installation-path.js.
  It reads \<open>state.dialogSetInstallationPath.form\<close> and shows the installation
  path with a Change button, which opens a directory picker. Except on Windows
  it also shows a Require sudo checkbox, disabled (and shown unticked) while the
  path is one of the two default paths. Cancel and the dialog's close
  dispatch \<open>close()\<close>; Save dispatches the \<open>save()\<close> thunk of ReduxState.

  A handler is the list of what it dispatches (an action, the save thunk) or
  logs. The form's reducer is not under src/: it is modelled after the spec's
  form convention, where an update spreads the changes over the form and open
  replaces it. The save thunk runs on the whole store, composed in
  \<open>sip_save_store\<close>.
\<close>

definition sip_default_path :: string where
  "sip_default_path = ''~/Applications/WebCatalog Apps''"

definition sip_mac_default_path :: string where
  "sip_mac_default_path = ''/Applications/WebCatalog Apps''"

text \<open>\<open>const { installationPath = ..., requireAdmin = false } = form || {}\<close>: a
  default replaces \<open>undefined\<close> only.\<close>

definition sip_fields :: "json option \<Rightarrow> json \<times> json" where
  "sip_fields form =
     (let o' = (case form of Some f \<Rightarrow> if truthy (Some f) then f else JObj [] | None \<Rightarrow> JObj [])
      in (case js_get o' ''installationPath'' of None \<Rightarrow> JStr sip_default_path | Some v \<Rightarrow> v,
          case js_get o' ''requireAdmin'' of None \<Rightarrow> JBool False | Some v \<Rightarrow> v))"

definition sip_is_default :: "json \<Rightarrow> bool" where
  "sip_is_default ip \<longleftrightarrow> ip = JStr sip_default_path \<or> ip = JStr sip_mac_default_path"

record sip_checkbox =
  cb_disabled :: bool
  cb_checked :: bool

text \<open>The checkbox as rendered: absent on Windows.\<close>

definition sip_checkbox :: "string \<Rightarrow> json option \<Rightarrow> sip_checkbox option" where
  "sip_checkbox plat form =
     (let (ip, ra) = sip_fields form
      in if plat = ''win32'' then None
         else Some \<lparr>cb_disabled = sip_is_default ip,
                    cb_checked = (if sip_is_default ip then False else truthy (Some ra))\<rparr>)"

text \<open>What the user does: close the dialog (its title's button or the
  backdrop), the resolved directory picker (canceled, the chosen paths), its
  rejection, the checkbox, Cancel and Save.\<close>

datatype sip_event =
    SipClose
  | SipPicked bool "string list"
  | SipPickFailed
  | SipToggle bool
  | SipCancel
  | SipSave

datatype sip_dispatch = SipAction redux_action | SipSaveThunk | SipLog

text \<open>The handlers. The picker's \<open>.then(console.log)\<close> logs after the
  first \<open>then\<close>; a rejected picker has no \<open>catch\<close> and dispatches
  nothing. The checkbox's \<open>onChange\<close> fires only when it is rendered and
  enabled.\<close>

fun sip_handle :: "string \<Rightarrow> json option \<Rightarrow> sip_event \<Rightarrow> sip_dispatch list" where
  "sip_handle plat form SipClose = [SipAction set_installation_path_close]"
| "sip_handle plat form (SipPicked canceled paths) =
     (if \<not> canceled \<and> paths \<noteq> []
      then [SipAction (set_installation_path_update_form (JObj [(''installationPath'', JStr (hd paths))]))]
      else []) @ [SipLog]"
| "sip_handle plat form SipPickFailed = []"
| "sip_handle plat form (SipToggle checked) =
     (case sip_checkbox plat form of
        Some cb \<Rightarrow> if cb_disabled cb then []
                   else [SipAction (set_installation_path_update_form (JObj [(''requireAdmin'', JBool checked)]))]
      | None \<Rightarrow> [])"
| "sip_handle plat form SipCancel = [SipAction set_installation_path_close]"
| "sip_handle plat form SipSave = [SipSaveThunk]"

text \<open>The form's reducer (state/dialog-set-installation-path/reducers.js, not
  under src/).\<close>

fun sip_form_reducer :: "json option \<Rightarrow> redux_action \<Rightarrow> json option" where
  "sip_form_reducer form (DialogSetInstallationPathOpen f) = Some f"
| "sip_form_reducer form (DialogSetInstallationPathFormUpdate changes) =
     Some (JObj (obj_spread (obj_kvs form) (obj_kvs (Some changes))))"
| "sip_form_reducer form a = form"

text \<open>A dispatch on the form. The save thunk's only dispatch is \<open>close()\<close>,
  which leaves the form as it is.\<close>

fun sip_apply :: "json option \<Rightarrow> sip_dispatch \<Rightarrow> json option" where
  "sip_apply form (SipAction a) = sip_form_reducer form a"
| "sip_apply form SipSaveThunk = form"
| "sip_apply form SipLog = form"

definition sip_step :: "string \<Rightarrow> json option \<Rightarrow> sip_event \<Rightarrow> json option" where
  "sip_step plat form ev = foldl sip_apply form (sip_handle plat form ev)"

definition sip_run :: "string \<Rightarrow> json option \<Rightarrow> sip_event list \<Rightarrow> json option" where
  "sip_run plat form evs = foldl (sip_step plat) form evs"

text \<open>A form the store can hold: absent, or an object with distinct keys.\<close>

definition sip_form_wf :: "json option \<Rightarrow> bool" where
  "sip_form_wf form \<longleftrightarrow>
     (case form of Some (JObj kvs) \<Rightarrow> distinct (map fst kvs) | Some (JArr xs) \<Rightarrow> False | _ \<Rightarrow> True)"

text \<open>The store a save runs on: the dialog's form and the installed apps.\<close>

definition sip_store :: "json option \<Rightarrow> (string \<times> json) list \<Rightarrow> json" where
  "sip_store form apps =
     JObj [(''dialogSetInstallationPath'', JObj (case form of Some f \<Rightarrow> [(''form'', f)] | None \<Rightarrow> [])),
           (''appManagement'', JObj [(''apps'', JObj apps)])]"

definition sip_save_store :: "json option \<Rightarrow> (string \<times> json) list \<Rightarrow> string + thunk_out" where
  "sip_save_store form apps = set_installation_path_save (sip_store form apps)"

definition sip_example_form :: "json option" where
  "sip_example_form =
     Some (JObj [(''installationPath'', JStr ''~/Applications/WebCatalog Apps''), (''requireAdmin'', JBool False)])"

section \<open>Lemmas\<close>

lemma sip_form_wf_update [simp]: "sip_form_wf (Some (JObj (obj_spread a b)))"
  by (simp add: sip_form_wf_def distinct_obj_spread)

lemma sip_step_win32:
  "sip_step ''win32'' form ev = form \<or>
   (\<exists>p. sip_step ''win32'' form ev =
          sip_form_reducer form (DialogSetInstallationPathFormUpdate (JObj [(''installationPath'', JStr p)])))"
  by (cases ev)
     (auto simp: sip_step_def sip_checkbox_def set_installation_path_close_def
        set_installation_path_update_form_def split: prod.splits)

lemma sip_fields_path_update:
  assumes "sip_form_wf form"
  shows "snd (sip_fields (sip_form_reducer form (DialogSetInstallationPathFormUpdate
            (JObj [(''installationPath'', v)])))) = snd (sip_fields form)"
proof (cases form)
  case (Some f)
  then show ?thesis
  proof (cases f)
    case (JObj kvs)
    then have "distinct (map fst kvs)" using assms Some by (simp add: sip_form_wf_def)
    then show ?thesis using Some JObj by (simp add: sip_fields_def obj_kvs_def map_of_rev_distinct map_add_def)
  qed (use assms Some in \<open>simp_all add: sip_fields_def obj_kvs_def sip_form_wf_def obj_spread_def\<close>)
qed (simp add: sip_fields_def obj_kvs_def obj_spread_def)

lemma sip_step_win32_kept:
  assumes "sip_form_wf form"
  shows "sip_form_wf (sip_step ''win32'' form ev) \<and>
         snd (sip_fields (sip_step ''win32'' form ev)) = snd (sip_fields form)"
proof -
  consider (same) "sip_step ''win32'' form ev = form"
    | (upd) p where "sip_step ''win32'' form ev =
        sip_form_reducer form (DialogSetInstallationPathFormUpdate (JObj [(''installationPath'', JStr p)]))"
    using sip_step_win32 [of form ev] by blast
  then show ?thesis
  proof cases
    case upd
    then show ?thesis
      using sip_fields_path_update [OF assms, of "JStr p"] by (simp del: sip_form_reducer.simps) simp
  qed (simp add: assms)
qed

text \<open>C34: On Windows the dialog renders no Require sudo checkbox, and no
  sequence of its events (picking directories, closing, saving) changes the
  requireAdmin the form holds: only the installation path can change.\<close>

theorem sip_windows_require_admin_kept:
  assumes "sip_form_wf form"
  shows "snd (sip_fields (sip_run ''win32'' form evs)) = snd (sip_fields form)"
  using assms unfolding sip_run_def
proof (induction evs arbitrary: form)
  case (Cons ev evs)
  then show ?case using sip_step_win32_kept [OF Cons.prems, of ev] by simp
qed simp

theorem sip_windows_require_admin_kept_witness:
  "snd (sip_fields (sip_run ''win32'' sip_example_form [SipToggle True, SipPicked False [''D:/Apps''], SipSave])) =
   JBool False"
proof -
  have "snd (sip_fields (sip_run ''win32'' sip_example_form [SipToggle True, SipPicked False [''D:/Apps''], SipSave])) =
        snd (sip_fields sip_example_form)"
    by (rule sip_windows_require_admin_kept) (simp add: sip_example_form_def sip_form_wf_def)
  then show ?thesis by (simp add: sip_example_form_def sip_fields_def)
qed

section \<open>Findings\<close>

text \<open>A requireAdmin ticked for a custom path survives a later return to the
  default path: the checkbox then shows unticked and disabled, yet Save
  writes requireAdmin true.\<close>

theorem sip_hidden_require_admin_saved:
  "sip_checkbox ''linux'' (sip_run ''linux'' sip_example_form
      [SipPicked False [''/opt/apps''], SipToggle True, SipPicked False [sip_default_path]]) =
     Some \<lparr>cb_disabled = True, cb_checked = False\<rparr> \<and>
   sip_save_store (sip_run ''linux'' sip_example_form
      [SipPicked False [''/opt/apps''], SipToggle True, SipPicked False [sip_default_path]]) [] =
     Inr \<lparr>dispatched = [DialogSetInstallationPathClose],
          pref_requests = [(''requireAdmin'', Some (JBool True)),
                           (''installationPath'', Some (JStr sip_default_path))],
          message_boxes = []\<rparr>"
  by (simp add: sip_run_def sip_step_def sip_example_form_def sip_checkbox_def sip_fields_def
      sip_is_default_def sip_default_path_def sip_mac_default_path_def obj_kvs_def obj_spread_def
      set_installation_path_update_form_def sip_save_store_def sip_store_def
      set_installation_path_save_def no_out_def dispatch_def request_set_preference_def
      set_installation_path_close_def)
end
