(* ===== verification/Webpack.thy ===== *)
theory Webpack
  imports Json
begin

text \<open>
  The build configuration of src/webpack.config.js. It exports three configs,
  each built by a function of the build machine's platform, the directory of
  the config file (\<open>__dirname\<close>) and its environment variables.
  \<open>getForkedScriptsConfig\<close> bundles the forked worker scripts for Node,
  \<open>getElectronMainConfig\<close> the main process, and
  \<open>getPreloadScriptsConfig\<close> the menu bar's preload script. A config is a
  record of the fields the code sets, and a plugin is a constructor holding
  the options it is given.

  \<open>path.join\<close> is modelled as joining with \<open>/\<close>, as in the rest of the
  development, and \<open>JSON.stringify\<close> of an environment variable is its
  quoted string, or \<open>undefined\<close> when it is unset. What webpack emits for a
  config is modelled after webpack's documentation: one bundle per entry, at
  \<open>output.path\<close> joined with \<open>output.filename\<close>, where \<open>[name]\<close> is replaced
  by the entry's name.
\<close>

record build_env =
  build_platform :: string
  config_dir :: string
  build_env_var :: "string \<Rightarrow> string option"

definition path_join :: "string list \<Rightarrow> string" where
  "path_join parts = join_with (CHR ''/'') parts"

text \<open>\<open>node: { global: false, __filename: false, __dirname: false }\<close>: the
  three Node globals are left to Node, so \<open>__dirname\<close> in a bundle is the
  bundle's own directory.\<close>

record node_opts =
  node_global :: bool
  node_filename :: bool
  node_dirname :: bool

text \<open>A module rule: its \<open>test\<close> and \<open>exclude\<close> regular expressions, as
  written, and its loaders.\<close>

record module_rule =
  rule_test :: string
  rule_exclude :: string
  rule_use :: "string list"

datatype wp_plugin =
    LimitChunkCountPlugin nat
  | CopyPlugin "(string \<times> string) list"
  | CleanWebpackPlugin "string list" "string list"
  | DefinePlugin "(string \<times> string option) list"

record wp_config =
  wp_mode :: string
  wp_node :: node_opts
  wp_entry :: "(string \<times> string) list"
  wp_rules :: "module_rule list"
  wp_target :: string
  wp_output_path :: string
  wp_output_filename :: string
  wp_devtool :: "string option"
  wp_plugins :: "wp_plugin list"

definition node_off :: node_opts where
  "node_off = \<lparr>node_global = False, node_filename = False, node_dirname = False\<rparr>"

text \<open>\<open>{ test: /\.(js)$/, exclude: /node_modules/, use: ['babel-loader'] }\<close>\<close>

definition babel_rule :: module_rule where
  "babel_rule = \<lparr>rule_test = CHR 0x5C # ''.(js)$'', rule_exclude = ''node_modules'',
                 rule_use = [''babel-loader'']\<rparr>"

definition app_management_script :: "build_env \<Rightarrow> string \<Rightarrow> string \<Rightarrow> string" where
  "app_management_script env dir file =
     path_join [config_dir env, ''main-src'', ''libs'', ''app-management'', dir, file]"

definition get_forked_scripts_config :: "build_env \<Rightarrow> wp_config" where
  "get_forked_scripts_config env =
     (let plugins = [LimitChunkCountPlugin 1] @
          (if build_platform env = ''win32'' then
             [CopyPlugin [(path_join [config_dir env, ''node_modules'', ''rcedit'', ''bin'', ''rcedit-x64.exe''],
                           path_join [config_dir env, ''bin'', ''rcedit-x64.exe''])]]
           else [])
      in \<lparr>wp_mode = ''production'', wp_node = node_off,
          wp_entry =
            [(''install-app-forked-electron-v2'',
              app_management_script env ''install-app-async'' ''install-app-forked-electron-v2.js''),
             (''prepare-engine-forked'',
              app_management_script env ''prepare-engine-async'' ''prepare-engine-forked.js''),
             (''prepare-electron-forked'',
              app_management_script env ''prepare-electron-async'' ''prepare-electron-forked.js''),
             (''uninstall-app-forked'',
              app_management_script env ''uninstall-app-async'' ''uninstall-app-forked.js'')],
          wp_rules = [babel_rule], wp_target = ''node'',
          wp_output_path = path_join [config_dir env, ''build''], wp_output_filename = ''[name].js'',
          wp_devtool = Some ''source-map'', wp_plugins = plugins\<rparr>)"

definition get_preload_scripts_config :: "build_env \<Rightarrow> wp_config" where
  "get_preload_scripts_config env =
     \<lparr>wp_mode = ''production'', wp_node = node_off,
      wp_entry = [(''preload-menubar'', path_join [config_dir env, ''main-src'', ''libs'', ''windows'', ''preload-menubar.js''])],
      wp_rules = [babel_rule], wp_target = ''electron-renderer'',
      wp_output_path = path_join [config_dir env, ''build''], wp_output_filename = ''[name].js'',
      wp_devtool = None, wp_plugins = []\<rparr>"

text \<open>\<open>JSON.stringify(process.env.X)\<close>\<close>

definition define_env :: "build_env \<Rightarrow> string \<Rightarrow> string \<times> string option" where
  "define_env env x = (''process.env.'' @ x, map_option json_quote (build_env_var env x))"

definition get_electron_main_config :: "build_env \<Rightarrow> wp_config" where
  "get_electron_main_config env =
     (let patterns =
          [(path_join [config_dir env, ''main-src'', ''images''], path_join [config_dir env, ''build'', ''images''])] @
          (if build_platform env = ''win32'' then
             [(path_join [config_dir env, ''node_modules'', ''windows-shortcuts'', ''lib'', ''shortcut'', ''Shortcut.exe''],
               path_join [config_dir env, ''build'', ''shortcut'', ''Shortcut.exe'']),
              (path_join [config_dir env, ''node_modules'', ''regedit'', ''vbs''],
               path_join [config_dir env, ''build'', ''vbs''])]
           else []);
          plugins = [CleanWebpackPlugin [''libs''] [],
                     DefinePlugin [define_env env ''ELECTRON_APP_SENTRY_DSN'',
                                   define_env env ''REACT_APP_LICENSE_SECRET'',
                                   define_env env ''REACT_APP_LICENSE_SECRET_SINGLEBOX_LEGACY'']] @
                    [CopyPlugin patterns]
      in \<lparr>wp_mode = ''production'', wp_node = node_off,
          wp_entry = [(''electron'', path_join [config_dir env, ''main-src'', ''electron.js''])],
          wp_rules = [babel_rule], wp_target = ''electron-main'',
          wp_output_path = path_join [config_dir env, ''build''], wp_output_filename = ''[name].js'',
          wp_devtool = Some ''source-map'', wp_plugins = plugins\<rparr>)"

text \<open>\<open>module.exports\<close>\<close>

definition webpack_configs :: "build_env \<Rightarrow> wp_config list" where
  "webpack_configs env =
     [get_forked_scripts_config env, get_electron_main_config env, get_preload_scripts_config env]"

text \<open>The bundles webpack emits for a config, and for the whole build.\<close>

definition wp_emitted :: "wp_config \<Rightarrow> string list" where
  "wp_emitted c =
     map (\<lambda>(name, src). path_join [wp_output_path c, replace_first ''[name]'' name (wp_output_filename c)])
       (wp_entry c)"

definition build_outputs :: "build_env \<Rightarrow> string list" where
  "build_outputs env = concat (map wp_emitted (webpack_configs env))"

text \<open>The files the copy plugins of the build write.\<close>

definition copy_targets :: "wp_config \<Rightarrow> string list" where
  "copy_targets c = concat (map (\<lambda>p. case p of CopyPlugin ps \<Rightarrow> map snd ps | _ \<Rightarrow> []) (wp_plugins c))"

definition example_build_env :: build_env where
  "example_build_env =
     \<lparr>build_platform = ''darwin'', config_dir = ''/Users/dev/webcatalog-classic'',
      build_env_var = (\<lambda>_. None)\<rparr>"

section \<open>Lemmas\<close>

lemmas webpack_config_defs = webpack_configs_def get_forked_scripts_config_def
  get_electron_main_config_def get_preload_scripts_config_def path_join_def Let_def

text \<open>A pattern that does not contain the separator \<open>c\<close> is found in
  \<open>xs @ c # ys\<close> only in one of the two sides.\<close>

lemma js_includes_append_sep:
  assumes "c \<notin> set p" and "p \<noteq> []" and "js_includes p (xs @ c # ys)"
  shows "js_includes p xs \<or> js_includes p ys"
  using assms(3)
proof (induction xs)
  case Nil
  then show ?case using assms(1,2) by (cases p) auto
next
  case (Cons x xs)
  show ?case
  proof (cases "take (length p) (x # xs @ c # ys) = p")
    case True
    show ?thesis
    proof (cases "length p \<le> length (x # xs)")
      case le: True
      then have "take (length p) (x # xs) = p"
        using True by (metis append_Cons take_append diff_is_0_eq append_Nil2 take_0)
      then show ?thesis by (cases p) auto
    next
      case False
      then have "(x # xs @ c # ys) ! length (x # xs) \<in> set p"
        using True by (metis linorder_not_le nth_mem length_take min.absorb4 nth_take less_le_trans le_refl
            order.strict_implies_order)
      then show ?thesis using assms(1) by (simp add: nth_append)
    qed
  next
    case False
    then have "js_includes p (xs @ c # ys)" using Cons.prems by simp
    then show ?thesis using Cons.IH by auto
  qed
qed

section \<open>Properties\<close>


end
