(* ===== verification/EmptyState.thy ===== *)
theory EmptyState
  imports Prelude
begin

text \<open>
  The shared component of src/src/components/shared/empty-state.js: an icon,
  a line break, the title when it is truthy, and the children. Children that
  are a string are wrapped in a subtitle; an element or a list of elements is
  rendered as it is. The props are \<open>icon\<close> (required), \<open>title\<close> and
  \<open>children\<close>, the last two \<open>null\<close> by default. A rendered element is named
  by what it shows.
\<close>

datatype es_children = EsNull | EsString string | EsElements "string list"

record empty_state_props =
  es_icon :: string
  es_title :: "string option"
  es_children :: es_children

datatype es_node = EsIconNode string | EsBr | EsTitle string | EsSubtitle string | EsElement string

text \<open>\<open>EmptyState.defaultProps\<close> applied to the props a caller passes.\<close>

definition empty_state_props_of :: "string \<Rightarrow> string option \<Rightarrow> es_children option \<Rightarrow> empty_state_props" where
  "empty_state_props_of icon title children =
     \<lparr>es_icon = icon, es_title = title,
      es_children = (case children of None \<Rightarrow> EsNull | Some c \<Rightarrow> c)\<rparr>"

text \<open>\<open>{typeof children === 'string' ? <Typography>...</Typography> : children}\<close>;
  \<open>null\<close> renders nothing.\<close>

fun es_children_nodes :: "es_children \<Rightarrow> es_node list" where
  "es_children_nodes EsNull = []"
| "es_children_nodes (EsString s) = [EsSubtitle s]"
| "es_children_nodes (EsElements xs) = map EsElement xs"

text \<open>The rendered content; \<open>{title && ...}\<close> renders nothing for \<open>null\<close> and
  for the empty string.\<close>

definition empty_state_render :: "empty_state_props \<Rightarrow> es_node list" where
  "empty_state_render p =
     [EsIconNode (es_icon p), EsBr] @
     (case es_title p of Some t \<Rightarrow> if t \<noteq> [] then [EsTitle t] else [] | None \<Rightarrow> []) @
     es_children_nodes (es_children p)"

section \<open>Lemmas\<close>

text \<open>A title element is rendered exactly for a non-empty title, and an empty
  string as children still renders its (empty) subtitle, unlike an empty title.\<close>

lemma empty_state_title_shown:
  "(EsTitle t \<in> set (empty_state_render p)) \<longleftrightarrow> es_title p = Some t \<and> t \<noteq> []"
  by (cases "es_children p") (auto simp: empty_state_render_def split: option.splits)

lemma empty_state_empty_strings:
  "empty_state_render (empty_state_props_of i (Some []) (Some (EsString []))) = [EsIconNode i, EsBr, EsSubtitle []]"
  by (simp add: empty_state_render_def empty_state_props_of_def)

end
