(* ===== verification/Spaces.thy ===== *)
theory Spaces
  imports Prelude
begin

text \<open>
  The spaces page, src/src/components/pages/spaces/index.js, and its add card,
  add-card.js. The page lays out the app bar, a description, the installed
  spaces with the add card, and the add-space dialog; these children live
  outside src/ except the add card. The add card is a focusable link
  (\<open>role="link"\<close>, \<open>tabIndex="0"\<close>) whose only handler is \<open>onClick\<close>, which
  dispatches \<open>openDialogAddSpace()\<close> of state/dialog-add-space (not under src/).
  A user action on the card is a pointer click or a key pressed while the
  card has focus; a click's and a key's effects are the actions dispatched.
\<close>

datatype spaces_node =
    DefinedAppBarNode
  | DescriptionNode "string list"
  | InstalledSpacesNode
  | AddCardNode
  | DialogAddSpaceNode

text \<open>The page's children in document order; the description's text lines
  are separated by its \<open><br />\<close>.\<close>

definition spaces_page :: "spaces_node list" where
  "spaces_page =
     [DefinedAppBarNode,
      DescriptionNode [''With WebCatalog Spaces, you can organize your apps into separate distraction-free environments.'',
                       ''Create spaces for friends and family, or split between work and play.''],
      InstalledSpacesNode, AddCardNode, DialogAddSpaceNode]"

datatype space_action = OpenDialogAddSpace

datatype card_event = CardClick | CardKey string

text \<open>The add card's handlers: \<open>onClick\<close> only.\<close>

fun add_card_handle :: "card_event \<Rightarrow> space_action list" where
  "add_card_handle CardClick = [OpenDialogAddSpace]"
| "add_card_handle (CardKey k) = []"

section \<open>Lemmas\<close>

text \<open>The page renders the add card once, after the installed spaces, and
  before the dialog it opens.\<close>

lemma spaces_page_order:
  "filter (\<lambda>n. n \<in> {InstalledSpacesNode, AddCardNode, DialogAddSpaceNode}) spaces_page =
     [InstalledSpacesNode, AddCardNode, DialogAddSpaceNode]"
  by (simp add: spaces_page_def)

section \<open>Findings\<close>

text \<open>The add card is announced as a link and takes keyboard focus, but a
  keyboard user cannot activate it: Enter or Space on the focused card
  dispatches nothing, while a click opens the add-space dialog.\<close>

theorem add_card_keyboard_inert:
  "add_card_handle (CardKey ''Enter'') = [] \<and> add_card_handle (CardKey '' '') = [] \<and>
   add_card_handle CardClick = [OpenDialogAddSpace]"
  by simp

end
