(* ===== verification/Spec2Isabelle.thy ===== *)
theory Spec2Isabelle
  imports Orchestrator Updater AuthPopup ReduxState OpenApp Preferences BackupDialog AppBar AppDialogs
    DescriptorReader InstallPathDialog Webpack EmptyState Spaces
begin

text \<open>
  Verification development of WebCatalog Classic (the sources under src/): the
  Electron main process's engine preparation, app launching, sign-in popup and
  auto-updater, and the renderer's Redux state, preferences page, title bar and
  dialogs.

  \<^bold>\<open>The program.\<close> The main process prepares the browser engine with
  \<open>prepareEngineAsync()\<close> (src/main-src/libs/app-management/prepare-engine-async/
  index.js). It resolves the template's tag with \<open>getTagNameAsync()\<close>, which
  reads the stable (and, with \<open>allowPrerelease\<close>, the beta) version
  descriptor with \<open>res.json()\<close> and picks the newer version with
  \<open>semver.gt\<close>. Then \<open>downloadExtractTemplateAsync(tag)\<close> forks a worker
  whose messages are cached template infos, progress broadcast to every window,
  or errors kept for the exit. Exit code 1 rejects; any other exit clears
  \<open>global.forceExtract\<close> and fulfils. Beside it, \<open>openApp\<close> launches an
  installed app, \<open>getAuthTokenWithPopupAsync\<close> runs the sign-in popup, and
  src/public/libs/updater.js wires the \<open>autoUpdater\<close> events to dialogs and
  to \<open>global.updaterObj\<close>, which it sends to every window. The renderer
  (src/src) keeps its state in a Redux store. Its preferences page reads the
  updater object and writes preferences. The dialogs (backup, edit app, create
  custom app, license, catalog details, installation path) dispatch the
  store's actions, and the title bar drives the BrowserWindow.

  \<^bold>\<open>The theories\<close> (each opens with what it models):
  \<^item> \<open>Prelude\<close>: the fact collections \<open>js_simps\<close> and \<open>engine_simps\<close>,
    decimal digit strings with their round trip, \<open>split\<close>/\<open>join\<close>.
  \<^item> \<open>Json\<close>: JavaScript values (\<open>undefined\<close> as \<open>None\<close>), truthiness,
    property access, \<open>String(v)\<close>, \<open>JSON.stringify\<close>.
  \<^item> \<open>JsonParse\<close>: \<open>JSON.parse\<close> as a fuelled recursive-descent reader.
    \<open>json_parse\<close> gets fuel \<open>2 * length s + 1\<close>. Every call of the reader
    consumes a character before it recurses (\<open>parse_progress\<close>), so that
    fuel always suffices, and the reader never reports \<open>OutOfFuel\<close>
    (\<open>json_parse_never_out_of_fuel\<close>). Reading what \<open>JSON.stringify\<close> wrote
    gives the value back (\<open>json_parse_stringify\<close>).
  \<^item> \<open>Semver\<close>: the \<open>semver\<close> library's constructor, \<open>format\<close>,
    \<open>compare\<close> and \<open>gt\<close>, modelled from its v7 source because it is not
    under src/. It proves well-formedness, the parse/format round trip, and
    that \<open>compare\<close> refines a lexicographic order on a precedence key.
  \<^item> \<open>TagResolver\<close>: \<open>getTagNameAsync\<close> (\<open>get_tag_name\<close>). The network and
    the order in which the two requests settle are parameters.
  \<^item> \<open>DescriptorReader\<close>: the resolver composed with the reader. The body is
    parsed by \<open>json_parse\<close>. Reading always ends without exhausting fuel, and a
    stringified stable descriptor resolves to its version.
  \<^item> \<open>WorkerProtocol\<close>: \<open>downloadExtractTemplateAsync\<close>, covering the
    arguments, the environment, \<open>on_message\<close>, \<open>on_exit\<close>, a promise that
    settles once, and \<open>run_events\<close> over a worker's event list.
  \<^item> \<open>Orchestrator\<close>: \<open>prepareEngineAsync\<close> and the inductive relation
    \<open>session\<close> of successive calls. Two invariants are proved by rule
    induction: one on \<open>global.forceExtract\<close> and one on the cache.
  \<^item> \<open>OpenApp\<close>: \<open>openApp\<close> per platform.
  \<^item> \<open>AuthPopup\<close>: the sign-in popup as a step function over its window
    events. The promise settles with the first decisive event and is settled
    once the window closes; each child window is reloaded at most once.
  \<^item> \<open>Updater\<close>: the \<open>autoUpdater\<close> handlers and the restart prompt. It
    proves one dialog per check, no install without a prompt, and that windows
    see the current updater object.
  \<^item> \<open>ReduxState\<close>: the root reducer's slices, the thunks of the
    installation-path, proxy, backup-restore and upgrade dialogs, and the
    managed-apps reducer, refined by a map update.
  \<^item> \<open>Preferences\<close>: the preferences page's helpers (\<open>formatBytes\<close> with its
    bounds, \<open>getUpdaterDesc\<close>) and its handlers.
  \<^item> \<open>BackupDialog\<close>: dialog-backup.js, covering the selection handlers as
    an inductive reachability relation, the backup file, the icon fetches in
    any completion order, and \<open>onBackup\<close>. Reading the file back gives the
    selected entries.
  \<^item> \<open>AppBar\<close>: enhanced-app-bar.js, covering \<open>onDoubleClick\<close>, the
    rendered buttons, their labels and handlers, and runs of bar events on the
    window state.
  \<^item> \<open>AppDialogs\<close>: the edit-app, create-custom-app, license-registration and
    catalog-details dialogs. Each handler is the list of actions one user action
    dispatches, with the code's disabled and rendering guards.
  \<^item> \<open>InstallPathDialog\<close>: dialog-set-installation-path.js, covering the form's
    defaults, the Require sudo checkbox, the handlers, and runs of events on the
    form (whose reducer, not under src/, is modelled from the spec). Save is
    composed with the save thunk. On Windows the form's requireAdmin never
    changes.
  \<^item> \<open>Webpack\<close>: webpack.config.js, covering the three config functions and the
    bundles webpack emits for them. The build writes no file twice.
  \<^item> \<open>EmptyState\<close> and \<open>Spaces\<close>: the shared empty-state component, the
    spaces page and its add card.
  \<^item> This theory: the spec's end-to-end scenarios on concrete inputs, the
    places where code and spec part, and properties that span components. The
    preferences page and the installation-path dialog agree on the preference
    writes. The page's updates item follows the updater. The worker script the
    bundled main process forks is one the build emits.

  \<^bold>\<open>Modelling choices.\<close> Effects (breadcrumbs, broadcasts, dispatched
  actions, window calls) are lists appended in program order. Collaborators
  that are not under src/ are parameters or record fields, and the theorems
  quantify over them: the worker, the network, \<open>fetch\<close>, the dialogs' helpers
  and constants. A promise that never settles is the value \<open>Pending\<close>, so
  liveness is a statement about values. The only fuel is \<open>json_parse\<close>'s, and
  it is proved sufficient. Concurrency is modelled as an explicit order of
  completions: the two descriptor requests and the icon fetches. JavaScript
  numbers are integers, and \<open>semver\<close>'s numeric prerelease identifiers are
  assumed below \<open>2^53\<close> (\<open>pre_exact\<close>).

  \<^bold>\<open>Not modelled.\<close>
  \<^item> The worker script prepare-engine-forked.js, which is not under src/.
  \<^item> The reducers and thunks of state/ that are not under src/; the dialogs
    are modelled up to the actions they dispatch. The installation-path form's
    reducer is modelled from the spec.
  \<^item> The child components of the spaces page, which are not under src/.
  \<^item> Styles, layout and static text, which carry no behaviour. Every file
    under src/ now has its behaviour modelled.
\<close>

section \<open>Interfaces between components\<close>

text \<open>The renderer's \<open>updater\<close> slice holds the last updater object the main
  process sent on \<open>update-updater\<close>; the preferences page reads its status and
  info (\<open>state.updater.status\<close>, \<open>state.updater.info\<close>).\<close>

definition mirror_updater :: "pref_props \<Rightarrow> updater_obj \<Rightarrow> pref_props" where
  "mirror_updater p obj = p\<lparr>pp_updater_status := Some (uo_status obj), pp_updater_info := uo_info obj\<rparr>"

section \<open>Concrete inputs\<close>

definition example_env :: app_env where
  "example_env = \<lparr>app_version = ''1.0.0'', user_data_path = ''/home/u/.config/WebCatalog'',
     app_data_path = ''/home/u/.config'', cache_root = ''/home/u/.cache/webcatalog'',
     platform = ''linux'', arch = ''x64'', script_dir = ''/opt/WebCatalog/resources/app.asar/build''\<rparr>"

definition descriptor :: "string \<Rightarrow> fetch_error + json" where
  "descriptor v = Inr (JObj [(''version'', JStr v)])"

definition stable_fetch :: "string \<Rightarrow> fetcher" where
  "stable_fetch v = (\<lambda>u. if u = STABLE_URL then descriptor v else Inl (NetworkError ''unreachable''))"

definition exits_after :: "json list \<Rightarrow> int option \<Rightarrow> worker" where
  "exits_after ms c = (\<lambda>args env. map Message ms @ [Exit c])"

definition template_info_msg :: "string \<Rightarrow> json" where
  "template_info_msg v = JObj [(''templateInfo'', JObj [(''version'', JStr v)])]"

definition error_msg :: "string \<Rightarrow> string \<Rightarrow> string \<Rightarrow> json" where
  "error_msg m st n = JObj [(''error'', JObj [(''message'', JStr m), (''stack'', JStr st), (''name'', JStr n)])]"

definition stable_call :: "string \<Rightarrow> worker \<Rightarrow> prepare_input" where
  "stable_call v w = \<lparr>allow_prerelease = False, fetch_fn = stable_fetch v, stable_first = True, worker_fn = w\<rparr>"

lemmas scenario_simps = prepare_engine_def get_tag_name_def stable_call_def stable_fetch_def
  descriptor_def exits_after_def template_info_msg_def error_msg_def download_extract_template_def
  on_message_def on_exit_def truthy_prop_def init_run_def initial_global_def tag_of_def
  js_opt_to_string_def read_version_def STABLE_URL_def cache_key_def Let_def split_beta
  add_breadcrumb_def fork_child_def record_requests_def send_to_all_windows_def
  console_log_msg_def worker_error_of_def error_message_of_def

definition ok_call :: prepare_input where
  "ok_call = stable_call ''3.4.0'' (exits_after [template_info_msg ''3.4.0''] (Some 0))"

definition failing_call :: prepare_input where
  "failing_call = stable_call ''3.4.0''
     (exits_after [error_msg ''disk full'' ''at extract'' ''IOError''] (Some 1))"

section \<open>The spec's end-to-end scenarios\<close>

text \<open>Stable descriptor \<open>{"version":"3.4.0"}\<close>, prerelease channel off, a
  worker that sends \<open>{templateInfo: {version: "3.4.0"}}\<close> and exits with 0: the call
  fulfils with the template's version \<open>3.4.0\<close> (not the tag \<open>v3.4.0\<close>), the
  cache holds the stringified template info under \<open>templateInfoJson.v3.4.0\<close>, and
  \<open>global.forceExtract\<close> is cleared.\<close>

theorem scenario_stable_success:
  "snd (prepare_engine example_env ok_call initial_global) = PrepFulfilled (Some (JStr ''3.4.0'')) \<and>
   cache (fst (prepare_engine example_env ok_call initial_global)) ''templateInfoJson.v3.4.0'' =
     Some ''{\"version\":\"3.4.0\"}'' \<and>
   \<not> force_extract (fst (prepare_engine example_env ok_call initial_global))"
proof -
  have "snd (prepare_engine example_env ok_call initial_global) = PrepFulfilled (Some (JStr ''3.4.0''))"
    by (simp add: ok_call_def scenario_simps)
  moreover have "cache (fst (prepare_engine example_env ok_call initial_global))
      ''templateInfoJson.v3.4.0'' = Some ''{\"version\":\"3.4.0\"}''"
    by (simp add: ok_call_def scenario_simps json_quote_def json_escape_char_def)
  moreover have "\<not> force_extract (fst (prepare_engine example_env ok_call initial_global))"
    by (simp add: ok_call_def scenario_simps)
  ultimately show ?thesis by blast
qed

text \<open>A worker that reports \<open>{error: {message: "disk full", ...}}\<close> and exits
  with 1: the call rejects with an error carrying that message, stack and name, and
  \<open>global.forceExtract\<close> stays set.\<close>

theorem scenario_worker_error:
  "snd (prepare_engine example_env failing_call initial_global) =
     PrepRejected (WorkerError (WorkerReported
       \<lparr>err_message = ''disk full'', err_stack = Some (JStr ''at extract''),
        err_name = Some (JStr ''IOError'')\<rparr>)) \<and>
   force_extract (fst (prepare_engine example_env failing_call initial_global))"
  by (simp add: failing_call_def scenario_simps)

text \<open>A worker that exits with 0 without sending a template info: the call
  fulfils with the default \<open>0.0.0\<close>.\<close>

theorem scenario_default_version:
  "snd (prepare_engine example_env (stable_call ''3.4.0'' (exits_after [] (Some 0))) initial_global) =
     PrepFulfilled (Some (JStr ''0.0.0''))"
  by (simp add: scenario_simps)

section \<open>Where the code and the spec part\<close>

text \<open>The spec says that after a failed call the next launch carries
  \<open>FORCE_EXTRACT=true\<close>. The code never sets the flag again, so after a successful
  call, a failing call (exit 1) leaves it cleared and the next launch carries
  \<open>FORCE_EXTRACT=false\<close>.\<close>

theorem force_extract_not_restored_after_failure:
  "snd (prepare_engine example_env failing_call (fst (prepare_engine example_env ok_call initial_global)))
     = PrepRejected (WorkerError (WorkerReported
       \<lparr>err_message = ''disk full'', err_stack = Some (JStr ''at extract''),
        err_name = Some (JStr ''IOError'')\<rparr>)) \<and>
   (''FORCE_EXTRACT'', ''false'') \<in> set (snd (snd (last (forks (fx (fst (prepare_engine example_env ok_call
     (fst (prepare_engine example_env failing_call
       (fst (prepare_engine example_env ok_call initial_global)))))))))))"
  by (simp add: failing_call_def ok_call_def scenario_simps launch_env_def js_bool_to_string_def)

text \<open>A worker killed by a signal exits with code \<open>null\<close>; the code tests
  \<open>code === 1\<close> only, so the call fulfils and clears \<open>global.forceExtract\<close>, as
  after a successful extraction.\<close>

theorem signal_exit_clears_force_extract:
  "snd (prepare_engine example_env (stable_call ''3.4.0'' (exits_after [] None)) initial_global) =
     PrepFulfilled (Some (JStr ''0.0.0'')) \<and>
   \<not> force_extract (fst (prepare_engine example_env (stable_call ''3.4.0'' (exits_after [] None))
       initial_global))"
  by (simp add: scenario_simps)

text \<open>The message tests use truthiness, not presence: a progress payload
  \<open>0\<close> is not relayed to the windows but logged.\<close>

theorem progress_zero_not_relayed:
  "broadcasts (fx (fst (prepare_engine example_env
      (stable_call ''3.4.0'' (exits_after [JObj [(''progress'', JNum 0)]] (Some 0))) initial_global))) = [] \<and>
   console_log (fx (fst (prepare_engine example_env
      (stable_call ''3.4.0'' (exits_after [JObj [(''progress'', JNum 0)]] (Some 0))) initial_global))) =
     [JObj [(''progress'', JNum 0)]]"
  by (simp add: scenario_simps empty_effects_def)

section \<open>Properties across components\<close>

text \<open>C30: The two ways to change the installation path agree: the preferences
  page's select and the installation-path dialog's \<open>save\<close>, given the same
  choice and the same installed apps, send the same preference writes in the
  same order (\<open>requireAdmin\<close>, then \<open>installationPath\<close>) or, while an app is
  installed, show the same uninstall-first message instead.\<close>

theorem installation_path_guard_agrees:
  assumes "js_get st ''dialogSetInstallationPath'' = Some d" and "js_get d ''form'' = Some (JObj f)"
    and "js_get st ''appManagement'' = Some am" and "js_get am ''apps'' = Some (JObj apps)"
    and "map_of f ''installationPath'' = Some (JStr path)"
    and "map_of f ''requireAdmin'' = Some (JBool ra)"
    and "pp_app_count p = length apps"
  shows "\<exists>out. set_installation_path_save st = Inr out \<and>
           map (\<lambda>(k, v). SetPreference k v) (pref_requests out) @
           map (\<lambda>(t, m). ShowMessageBox t m) (message_boxes out)
           = installation_path_on_change p (Some (path_choice path ra))"
  using assms
  by (simp add: set_installation_path_save_def js_member_get [OF assms(1)] js_member_get [OF assms(2)]
        js_member_get [OF assms(3)] js_member_get [OF assms(4)] thunk_defs
        installation_path_on_change_def path_choice_def uninstall_first_def
        uninstall_first_title_def uninstall_first_message_def)

text \<open>C31: After each updater event, the preferences page showing the updater
  object it was sent disables its updates item exactly while updates are
  being checked for or downloaded (\<open>checking-for-update\<close>,
  \<open>update-available\<close>, \<open>download-progress\<close>); a prompt answer or an
  \<open>updateSilent\<close> write leaves the item as it was.\<close>

theorem updates_item_follows_updater:
  "updates_item_disabled (mirror_updater p (updater_object (updater_step s e))) =
     (case e of
        CheckingForUpdate \<Rightarrow> True
      | UpdateAvailable _ \<Rightarrow> True
      | DownloadProgress _ \<Rightarrow> True
      | RestartAnswer _ \<Rightarrow> updates_item_disabled (mirror_updater p (updater_object s))
      | SetUpdateSilent _ \<Rightarrow> updates_item_disabled (mirror_updater p (updater_object s))
      | _ \<Rightarrow> False)"
  by (cases e)
     (simp_all add: mirror_updater_def updates_item_disabled_def updater_defs Let_def
        split: option.splits)

text \<open>For a downloaded update whose info has no \<open>version\<close>, the restart prompt
  says \<open>A new version (undefined)\<close> while the preferences page says \<open>A new
  version has been downloaded.\<close>\<close>

theorem downloaded_without_version:
  "restart_detail (JObj []) =
     Some ''A new version (undefined) has been downloaded. Restart the application to apply the updates.'' \<and>
   get_updater_desc (Some ''update-downloaded'') (Some (JObj [])) = Some ''A new version has been downloaded.''"
  by (simp add: restart_detail_def get_updater_desc_def js_opt_to_string_def)

text \<open>C33: The main process, bundled by the build's electron-main config and run
  from the checkout (no \<open>app.asar\<close> in the path), forks a worker script that
  the build emits: \<open>__dirname\<close> of the main bundle is its output directory,
  and \<open>prepare-engine-forked.js\<close> there is a bundle of the forked-scripts
  config, whose target is Node.\<close>

theorem bundled_worker_script_emitted:
  assumes "script_dir e = wp_output_path (get_electron_main_config env)"
    and "\<not> js_includes ''app.asar'' (config_dir env)"
  shows "script_path e \<in> set (wp_emitted (get_forked_scripts_config env)) \<and>
         wp_target (get_forked_scripts_config env) = ''node'' \<and>
         \<not> node_dirname (wp_node (get_electron_main_config env))"
proof -
  have "\<not> js_includes ''app.asar'' (config_dir env @ ''/build/prepare-engine-forked.js'')"
  proof
    assume "js_includes ''app.asar'' (config_dir env @ ''/build/prepare-engine-forked.js'')"
    then have "js_includes ''app.asar'' (config_dir env) \<or> js_includes ''app.asar'' ''build/prepare-engine-forked.js''"
      by (intro js_includes_append_sep [where c = "CHR ''/''"]) simp_all
    then show False using assms(2) by simp
  qed
  then show ?thesis using assms(1)
    by (simp add: script_path_def replace_first_absent wp_emitted_def node_off_def webpack_config_defs)
qed

section \<open>Witnesses\<close>

lemma ok_call_resolves:
  "get_tag_name (allow_prerelease ok_call) (fetch_fn ok_call) (stable_first ok_call) =
     (Inr ''v3.4.0'', [STABLE_URL])"
  by (simp add: ok_call_def scenario_simps)

lemma ok_call_delivered:
  "delivered example_env ok_call g = map Message [template_info_msg ''3.4.0''] @ [Exit (Some 0)]"
  by (simp add: delivered_def ok_call_def scenario_simps)

theorem prepare_engine_outcome_witness:
  "snd (prepare_engine example_env ok_call initial_global) = PrepFulfilled (Some (JStr ''3.4.0''))"
  using prepare_engine_outcome [OF ok_call_resolves ok_call_delivered]
  by (simp add: template_infos_def template_info_msg_def truthy_prop_def)

theorem prepare_engine_cache_entry_witness:
  "cache (fst (prepare_engine example_env ok_call initial_global)) (cache_key ''v3.4.0'') =
     Some (json_stringify (JObj [(''version'', JStr ''3.4.0'')]))"
  using prepare_engine_cache_entry [OF ok_call_resolves ok_call_delivered]
  by (simp add: template_infos_def template_info_msg_def truthy_prop_def)

lemma session_after_ok_call:
  "session example_env (fst (prepare_engine example_env ok_call initial_global))
     [delivered example_env ok_call initial_global]"
  using session.step [OF session.start, of example_env ok_call] by simp

theorem session_force_extract_witness:
  "\<not> force_extract (fst (prepare_engine example_env ok_call initial_global))"
  using session_force_extract [OF session_after_ok_call] by (simp add: ok_call_delivered)



definition offline_call :: prepare_input where
  "offline_call = \<lparr>allow_prerelease = False, fetch_fn = (\<lambda>u. Inl (NetworkError ''offline'')),
     stable_first = True, worker_fn = exits_after [] (Some 0)\<rparr>"

theorem prepare_engine_resolution_failure_witness:
  "snd (prepare_engine example_env offline_call initial_global) =
     PrepRejected (ResolutionError (FetchFailed (NetworkError ''offline''))) \<and>
   forks (fx (fst (prepare_engine example_env offline_call initial_global))) = []"
proof -
  have "fst (get_tag_name (allow_prerelease offline_call) (fetch_fn offline_call)
      (stable_first offline_call)) = Inl (FetchFailed (NetworkError ''offline''))"
    by (simp add: offline_call_def get_tag_name_def read_version_def)
  from prepare_engine_resolution_failure [OF this, of example_env initial_global]
  show ?thesis by (simp add: initial_global_def empty_effects_def)
qed

theorem installation_path_guard_agrees_witness:
  "\<exists>out. set_installation_path_save store_state = Inr out \<and>
     map (\<lambda>(k, v). SetPreference k v) (pref_requests out) @
     map (\<lambda>(t, m). ShowMessageBox t m) (message_boxes out)
     = [ShowMessageBox (fst uninstall_first) (snd uninstall_first)]"
proof -
  have "\<exists>out. set_installation_path_save store_state = Inr out \<and>
     map (\<lambda>(k, v). SetPreference k v) (pref_requests out) @
     map (\<lambda>(t, m). ShowMessageBox t m) (message_boxes out)
     = installation_path_on_change (example_props\<lparr>pp_app_count := 1\<rparr>)
         (Some (path_choice ''~/Applications/WebCatalog Apps'' False))"
    by (rule installation_path_guard_agrees
          [of store_state "store_slice ''dialogSetInstallationPath''"
              "[(''installationPath'', JStr ''~/Applications/WebCatalog Apps''), (''requireAdmin'', JBool False)]"
              "store_slice ''appManagement''" "[(''example-app'', JObj [])]"])
       (simp_all add: store_state_def store_slice_def root_reducer_keys_def)
  then show ?thesis
    by (simp add: installation_path_on_change_def path_choice_def)
qed

theorem bundled_worker_script_emitted_witness:
  "script_path (example_env\<lparr>script_dir := ''/Users/dev/webcatalog-classic/build''\<rparr>)
     \<in> set (wp_emitted (get_forked_scripts_config example_build_env)) \<and>
   wp_target (get_forked_scripts_config example_build_env) = ''node'' \<and>
   \<not> node_dirname (wp_node (get_electron_main_config example_build_env))"
  by (rule bundled_worker_script_emitted)
     (simp_all add: example_build_env_def get_electron_main_config_def path_join_def Let_def)

end
